theory Spec2Isabelle
  imports Complex_Main "HOL-Library.Word"
begin

section \<open>Data model of the clustering agent\<close>

text \<open>
  The agent is \<^verbatim>\<open>ClusterControlClient\<close> of
  \<^verbatim>\<open>src/clustering/model/cluster-control-client.cc\<close>. Its C++ doubles are
  modelled as HOL reals and an ns-3 \<^verbatim>\<open>Time\<close> as a real number of seconds, so
  rounding, NaN and the nanosecond grid are outside the model; where the source divides,
  a theorem that depends on the quotient states that the divisor is not zero. Node and
  cluster identifiers are \<^verbatim>\<open>uint64_t\<close>.
\<close>

type_synonym node_id = "64 word"
type_synonym Time = real

record Vector =
  vx :: real
  vy :: real
  vz :: real

definition Vec :: "real \<Rightarrow> real \<Rightarrow> real \<Rightarrow> Vector" where
  "Vec a b c = \<lparr>vx = a, vy = b, vz = c\<rparr>"

definition vsub :: "Vector \<Rightarrow> Vector \<Rightarrow> Vector" where
  "vsub p q = Vec (vx p - vx q) (vy p - vy q) (vz p - vz q)"

definition vadd :: "Vector \<Rightarrow> Vector \<Rightarrow> Vector" where
  "vadd p q = Vec (vx p + vx q) (vy p + vy q) (vz p + vz q)"

text \<open>ns-3's \<^verbatim>\<open>CalculateDistance\<close> of two vectors: the Euclidean distance in space.\<close>

definition CalculateDistance :: "Vector \<Rightarrow> Vector \<Rightarrow> real" where
  "CalculateDistance p q =
     sqrt ((vx q - vx p) * (vx q - vx p) + (vy q - vy p) * (vy q - vy p)
           + (vz q - vz p) * (vz q - vz p))"

datatype NodeDegree = STANDALONE | CH | CM

text \<open>
  The enumerators' integer values, in the order of the table \<^verbatim>\<open>DegreeName\<close> that
  \<^verbatim>\<open>ToString\<close> indexes by degree.
\<close>

fun degree_value :: "NodeDegree \<Rightarrow> node_id" where
  "degree_value STANDALONE = 0"
| "degree_value CH = 1"
| "degree_value CM = 2"

datatype NodeStatus =
    CLUSTER_INITIALIZATION | CLUSTER_HEAD_ELECTION | CLUSTER_FORMATION | CLUSTER_UPDATE
  | EXCHANGE_DISTRO_MAP | DECIDE_PROPAGATION_PARAM | PROPAGATION_READY
  | PROPAGATION_RUNNING | PROPAGATION_COMPLETE | ACTIVE

record NeighborInfo =
  ts :: Time
  imsi :: node_id
  clusterId :: node_id
  position :: Vector
  address :: "32 word"
  chAddress :: "32 word"
  degree :: NodeDegree
  isStartingNode :: bool

record InterClusterPropagationInfo =
  ic_startingTime :: Time
  ic_source :: Vector
  ic_distination :: Vector
  ic_direction :: Vector

record IntraClusterPropagationInfo =
  ia_startingNode :: node_id
  ia_startingTime :: Time
  ia_direction :: Vector

record InterNodePropagationInfo =
  in_startingTime :: Time
  in_position :: Vector
  in_direction :: Vector

datatype AckType = AckOfDistroMap | AckOfInterClusterPropagation | AckOfOther

text \<open>The headers of the wire format; each carries its sequence number first.\<close>

datatype Header =
    ClusterInfoHeader "32 word" NeighborInfo
  | InitiateClusterHeader "32 word" node_id NeighborInfo
  | FormClusterHeader "32 word" NeighborInfo
  | NeighborClusterInfoHeader "32 word" node_id NeighborInfo
  | DistroMapHeader "32 word" node_id NeighborInfo "real list"
  | IntraClusterPropagationHeader "32 word" node_id IntraClusterPropagationInfo
  | InterClusterPropagationHeader "32 word" node_id InterClusterPropagationInfo
  | InterNodePropagationHeader "32 word" node_id InterNodePropagationInfo
  | AckHeader "32 word" node_id AckType

text \<open>A packet is the list of its headers; \<^verbatim>\<open>AddHeader\<close> puts one in front.\<close>

type_synonym Packet = "Header list"

text \<open>
  The \<^verbatim>\<open>bool *ack\<close> of \<^verbatim>\<open>SendTo\<close>: null, or the address of the entry of a
  peer in \<^verbatim>\<open>m_ackDistroMap\<close> or in \<^verbatim>\<open>m_ackInterClusterPropagation\<close>.
\<close>

datatype AckRef = NullAck | AckDistroMapEntry node_id | AckInterClusterEntry node_id

datatype Callback =
    CbSend | CbInitiateCluster | CbUpdateNeighbors | CbUpdateNeighborList
  | CbDecidePropagationParam | CbSendTo node_id Packet AckRef
  | CbStartNodePropagation | CbStopNodePropagation | CbActivateNode | CbInactivateNode

text \<open>
  The discrete-event scheduler, as far as one agent sees it: the events the agent has
  scheduled and that have neither run nor been cancelled, each with the absolute time
  at which it runs. An \<^verbatim>\<open>EventId\<close> is the number of its event, or \<open>None\<close> for
  a default-constructed handle.
\<close>

record Event =
  ev_uid :: nat
  ev_time :: Time
  ev_cb :: Callback

type_synonym EventId = "nat option"

datatype Destination = Broadcast | ToCluster node_id

text \<open>
  Parameters: the constants of \<^verbatim>\<open>Constants\<close> (their header is not part of the
  sources at hand), the static flag \<^verbatim>\<open>DISABLE_STARTINGNODE\<close>, the attributes of
  the agent, the identity of its node, and the serialized sizes that decide when
  \<^verbatim>\<open>Send\<close> flushes a carrier packet.
\<close>

record Config =
  OMNI_RANGE :: real
  BF_RANGE :: real
  PROPAGATION_THETA :: real
  DISTRO_MAP_SIZE :: int
  DISTRO_MAP_SCALE :: real
  REVERSE_PROPAGATION :: bool
  DISABLE_STARTINGNODE :: bool
  m_minimumTdmaSlot :: real
  m_maxUes :: nat
  m_interval :: Time
  m_timeWindow :: real
  node_ident :: node_id
  node_address :: "32 word"
  size_ClusterInfoHeader :: nat
  size_NeighborClusterInfoHeader :: nat

text \<open>
  A \<^verbatim>\<open>std::map\<close> keyed by identifier is an association list in ascending key
  order, which is the order its iterators visit.
\<close>

type_synonym 'v idmap = "(node_id \<times> 'v) list"

definition map_find :: "node_id \<Rightarrow> 'v idmap \<Rightarrow> 'v option" where
  "map_find k m = map_of m k"

fun map_insert :: "node_id \<Rightarrow> 'v \<Rightarrow> 'v idmap \<Rightarrow> 'v idmap" where
  "map_insert k v [] = [(k, v)]"
| "map_insert k v ((k', v') # m) =
     (if k < k' then (k, v) # (k', v') # m
      else if k = k' then (k', v') # m
      else (k', v') # map_insert k v m)"

definition map_assign :: "node_id \<Rightarrow> 'v \<Rightarrow> 'v idmap \<Rightarrow> 'v idmap" where
  "map_assign k v m = map (\<lambda>(k', v'). if k' = k then (k', v) else (k', v')) m"

definition map_erase :: "node_id \<Rightarrow> 'v idmap \<Rightarrow> 'v idmap" where
  "map_erase k m = filter (\<lambda>(k', v'). k' \<noteq> k) m"

text \<open>
  The idiom the source repeats: \<^verbatim>\<open>find\<close>, then \<^verbatim>\<open>insert\<close> when the key is
  absent and assignment through the iterator when it is present.
\<close>

definition map_put :: "node_id \<Rightarrow> 'v \<Rightarrow> 'v idmap \<Rightarrow> 'v idmap" where
  "map_put k v m = (if map_find k m = None then map_insert k v m else map_assign k v m)"

record State =
  m_status :: NodeStatus
  m_currentMobility :: NeighborInfo
  m_neighborList :: "NeighborInfo idmap"
  m_clusterList :: "NeighborInfo idmap"
  m_neighborClusterList :: "NeighborInfo idmap"
  m_neighborDistroMap :: "(real list) idmap"
  m_neighborClustersSocket :: "unit idmap"
  m_ackDistroMap :: "bool idmap"
  m_ackInterClusterPropagation :: "bool idmap"
  m_distroMap :: "real list"
  m_firstPropagationStartingTime :: Time
  m_firstPropagationStartNodeId :: node_id
  m_propagationStartTime :: Time
  m_propagationDirection :: Vector
  m_basePropagationDirection :: Vector
  m_sentCounter :: "32 word"
  m_recvCounter :: "32 word"
  m_changesCounter :: "32 word"
  m_formationCounter :: "32 word"
  m_sendEvent :: EventId
  m_chElectionEvent :: EventId
  m_neighborsListUpdateEvent :: EventId
  m_interNodePropagationEvent :: EventId
  m_sendingInterClusterPropagationEvent :: "EventId list"
  sim_queue :: "Event list"
  sim_next_uid :: nat
  sent_packets :: "(Destination \<times> Packet) list"

section \<open>The scheduler\<close>

definition Schedule :: "Time \<Rightarrow> Time \<Rightarrow> Callback \<Rightarrow> State \<Rightarrow> EventId \<times> State" where
  "Schedule now delay cb s =
     (Some (sim_next_uid s),
      s\<lparr>sim_queue := sim_queue s @ [\<lparr>ev_uid = sim_next_uid s, ev_time = now + delay, ev_cb = cb\<rparr>],
        sim_next_uid := Suc (sim_next_uid s)\<rparr>)"

definition IsRunning :: "EventId \<Rightarrow> State \<Rightarrow> bool" where
  "IsRunning e s = (case e of None \<Rightarrow> False | Some u \<Rightarrow> u \<in> set (map ev_uid (sim_queue s)))"

definition IsExpired :: "EventId \<Rightarrow> State \<Rightarrow> bool" where
  "IsExpired e s = (\<not> IsRunning e s)"

definition Cancel :: "EventId \<Rightarrow> State \<Rightarrow> State" where
  "Cancel e s =
     (case e of None \<Rightarrow> s
      | Some u \<Rightarrow> s\<lparr>sim_queue := filter (\<lambda>ev. ev_uid ev \<noteq> u) (sim_queue s)\<rparr>)"


section \<open>Geometry of the propagation wave\<close>

definition IsInSector :: "Vector \<Rightarrow> Vector \<Rightarrow> Vector \<Rightarrow> real \<Rightarrow> real \<Rightarrow> bool" where
  "IsInSector source destination direction radius theta =
     (let a' = vx direction; b' = vy direction; c' = - vy direction; d' = vx direction;
          absol = a' * a' + b' * b';
          delta = vsub destination source;
          dx = (a' * vx delta + b' * vy delta) / absol;
          dy = (c' * vx delta + d' * vy delta) / absol;
          ex = cos (theta / 2); ey = sin (theta / 2);
          sx = cos (- theta / 2); sy = sin (- theta / 2)
      in if vx delta * vx delta + vy delta * vy delta > radius * radius then False
         else if sx * ey - ex * sy > 0 then
           (if sx * dy - dx * sy < 0 then False
            else if ex * dy - dx * ey > 0 then False
            else True)
         else
           (if sx * dy - dx * sy \<ge> 0 then True
            else if ex * dy - dx * ey \<le> 0 then True
            else False))"

text \<open>
  \<^verbatim>\<open>CalcPropagationDelay\<close>. For a direction whose horizontal components are both zero
  the source divides zero by zero and converts the result, which is not a number, to a
  time; the quotient written here is meant for directions with a horizontal speed, and
  the statements about the delay assume one.
\<close>

definition CalcPropagationDelay :: "Vector \<Rightarrow> Vector \<Rightarrow> Vector \<Rightarrow> Time" where
  "CalcPropagationDelay source destination direction =
     (let a' = vx direction; b' = vy direction;
          verocity = a' * a' + b' * b';
          delta = vsub destination source;
          delta_horizontal = (a' * vx delta + b' * vy delta) / verocity
      in \<bar>delta_horizontal\<bar>)"

text \<open>
  \<^verbatim>\<open>FindNodeByPosition\<close>: the squared distance in space from \<open>pos\<close>, the agent
  itself first, then the members in key order; a member replaces the choice only when it
  is strictly nearer.
\<close>

definition sqdist :: "Vector \<Rightarrow> Vector \<Rightarrow> real" where
  "sqdist pos p =
     (vx pos - vx p) * (vx pos - vx p) + (vy pos - vy p) * (vy pos - vy p)
     + (vz pos - vz p) * (vz pos - vz p)"

fun FindNode_loop :: "Vector \<Rightarrow> NeighborInfo idmap \<Rightarrow> node_id \<times> real \<Rightarrow> node_id \<times> real" where
  "FindNode_loop pos [] acc = acc"
| "FindNode_loop pos ((k, v) # m) (ident, distance) =
     (let dist = sqdist pos (position v)
      in if distance > dist then FindNode_loop pos m (k, dist)
         else FindNode_loop pos m (ident, distance))"

definition FindNodeByPosition :: "State \<Rightarrow> Vector \<Rightarrow> node_id" where
  "FindNodeByPosition s pos =
     fst (FindNode_loop pos (m_clusterList s)
            (imsi (m_currentMobility s), sqdist pos (position (m_currentMobility s))))"

section \<open>Sending and scheduling\<close>

definition AcquireMobilityInfo :: "Config \<Rightarrow> Time \<Rightarrow> Vector \<Rightarrow> State \<Rightarrow> State" where
  "AcquireMobilityInfo K now pos s =
     s\<lparr>m_currentMobility := (m_currentMobility s)
         \<lparr>ts := now, imsi := node_ident K, position := pos, address := node_address K\<rparr>\<rparr>"

definition socket_Send :: "Packet \<Rightarrow> State \<Rightarrow> State" where
  "socket_Send packet s = s\<lparr>sent_packets := sent_packets s @ [(Broadcast, packet)]\<rparr>"

text \<open>\<^verbatim>\<open>MetaData::GetInstance().Call(id, packet)\<close> hands the packet to the agent of node \<open>id\<close>.\<close>

definition MetaData_Call :: "node_id \<Rightarrow> Packet \<Rightarrow> State \<Rightarrow> State" where
  "MetaData_Call ident packet s = s\<lparr>sent_packets := sent_packets s @ [(ToCluster ident, packet)]\<rparr>"

definition ScheduleTransmit :: "Time \<Rightarrow> Time \<Rightarrow> State \<Rightarrow> State" where
  "ScheduleTransmit now dt s =
     (if \<not> IsExpired (m_sendEvent s) s then s
      else (let (e, s') = Schedule now dt CbSend s in s'\<lparr>m_sendEvent := e\<rparr>))"

definition ScheduleInterNodePropagation :: "Config \<Rightarrow> Time \<Rightarrow> State \<Rightarrow> State" where
  "ScheduleInterNodePropagation K now s0 =
     (let s = s0\<lparr>m_status := PROPAGATION_READY\<rparr>
      in if now > m_propagationStartTime s then s
         else
           (let s1 = (if IsRunning (m_interNodePropagationEvent s) s
                      then Cancel (m_interNodePropagationEvent s) s else s);
                (e, s2) = (if \<not> REVERSE_PROPAGATION K
                           then Schedule now (m_propagationStartTime s1 - now) CbStartNodePropagation s1
                           else Schedule now 0.1 CbStartNodePropagation s1)
            in s2\<lparr>m_interNodePropagationEvent := e\<rparr>))"

text \<open>
  The value of \<^verbatim>\<open>*ack\<close>. The entries of the two acknowledgement tables are never
  erased, so a pointer to one stays valid; \<open>None\<close> is the null pointer (or a key the
  table does not hold, which no run produces).
\<close>

definition deref_ack :: "AckRef \<Rightarrow> State \<Rightarrow> bool option" where
  "deref_ack ack s =
     (case ack of
        NullAck \<Rightarrow> None
      | AckDistroMapEntry k \<Rightarrow> map_find k (m_ackDistroMap s)
      | AckInterClusterEntry k \<Rightarrow> map_find k (m_ackInterClusterPropagation s))"

definition SendTo :: "Config \<Rightarrow> Time \<Rightarrow> node_id \<Rightarrow> Packet \<Rightarrow> AckRef \<Rightarrow> State \<Rightarrow> State" where
  "SendTo K now ident packet ack s =
     (if ack = NullAck \<or> deref_ack ack s = Some False then
        (if map_find ident (m_neighborClustersSocket s) \<noteq> None then
           (let s1 = MetaData_Call ident packet s
            in if ack \<noteq> NullAck \<and> deref_ack ack s1 = Some False
               then snd (Schedule now (m_minimumTdmaSlot K * 1000) (CbSendTo ident packet ack) s1)
               else s1)
         else s)
      else s)"


text \<open>
  The size of the carrier packet of \<^verbatim>\<open>Send\<close> in state \<^verbatim>\<open>CLUSTER_UPDATE\<close>,
  which holds headers of two kinds only.
\<close>

fun header_size :: "Config \<Rightarrow> Header \<Rightarrow> nat" where
  "header_size K (ClusterInfoHeader q i) = size_ClusterInfoHeader K"
| "header_size K (NeighborClusterInfoHeader q c i) = size_NeighborClusterInfoHeader K"
| "header_size K h = 0"

definition packet_size :: "Config \<Rightarrow> Packet \<Rightarrow> nat" where
  "packet_size K p = sum_list (map (header_size K) p)"

fun Send_update_loop :: "Config \<Rightarrow> NeighborInfo idmap \<Rightarrow> Packet \<times> State \<Rightarrow> Packet \<times> State" where
  "Send_update_loop K [] acc = acc"
| "Send_update_loop K ((k, node) # rest) (packet, s) =
     (let neighborClusterInfo =
            NeighborClusterInfoHeader (m_sentCounter s) (clusterId (m_currentMobility s)) node;
          (packet1, s1) =
            (if packet_size K packet + size_NeighborClusterInfoHeader K > 2296
             then ([], (socket_Send packet s)\<lparr>m_sentCounter := m_sentCounter s + 1\<rparr>)
             else (packet, s))
      in Send_update_loop K rest (neighborClusterInfo # packet1, s1))"

definition become_CH :: "State \<Rightarrow> State" where
  "become_CH s =
     s\<lparr>m_currentMobility := (m_currentMobility s)
         \<lparr>degree := CH, clusterId := imsi (m_currentMobility s)\<rparr>\<rparr>"

definition Send :: "Config \<Rightarrow> Time \<Rightarrow> Vector \<Rightarrow> State \<Rightarrow> State" where
  "Send K now pos s =
     (case m_status s of
        CLUSTER_INITIALIZATION \<Rightarrow>
          (let s1 = AcquireMobilityInfo K now pos s;
               packet = [ClusterInfoHeader (m_sentCounter s1) (m_currentMobility s1)];
               s2 = socket_Send packet s1;
               s3 = s2\<lparr>m_sentCounter := m_sentCounter s2 + 1,
                       m_formationCounter := m_formationCounter s2 + 1\<rparr>
           in snd (Schedule now (m_minimumTdmaSlot K * real (m_maxUes K)) CbInitiateCluster s3))
      | CLUSTER_HEAD_ELECTION \<Rightarrow>
          (let s1 = become_CH (AcquireMobilityInfo K now pos s);
               packet = [InitiateClusterHeader (m_sentCounter s1) (imsi (m_currentMobility s1))
                           (m_currentMobility s1)];
               s2 = socket_Send packet s1;
               s3 = s2\<lparr>m_sentCounter := m_sentCounter s2 + 1,
                       m_formationCounter := m_formationCounter s2 + 1,
                       m_status := CLUSTER_UPDATE\<rparr>
           in ScheduleTransmit now (m_minimumTdmaSlot K * real (m_maxUes K)) s3)
      | CLUSTER_FORMATION \<Rightarrow>
          (let s1 = become_CH (AcquireMobilityInfo K now pos s);
               packet = [FormClusterHeader (m_sentCounter s1) (m_currentMobility s1)];
               s2 = socket_Send packet s1;
               s3 = s2\<lparr>m_sentCounter := m_sentCounter s2 + 1,
                       m_formationCounter := m_formationCounter s2 + 1\<rparr>
           in snd (Schedule now 0 CbUpdateNeighbors s3))
      | CLUSTER_UPDATE \<Rightarrow>
          (let s1 = AcquireMobilityInfo K now pos s;
               packet = [ClusterInfoHeader (m_sentCounter s1) (m_currentMobility s1)];
               (packet1, s2) = Send_update_loop K (m_neighborClusterList s1) (packet, s1);
               s3 = socket_Send packet1 s2;
               s4 = s3\<lparr>m_sentCounter := m_sentCounter s3 + 1\<rparr>
           in ScheduleTransmit now (m_interval K) s4)
      | DECIDE_PROPAGATION_PARAM \<Rightarrow>
          (if degree (m_currentMobility s) = CH then
             (let info = \<lparr>ia_startingNode = m_firstPropagationStartNodeId s,
                          ia_startingTime = m_firstPropagationStartingTime s,
                          ia_direction = m_propagationDirection s\<rparr>;
                  packet = [IntraClusterPropagationHeader (m_sentCounter s)
                              (clusterId (m_currentMobility s)) info];
                  s1 = socket_Send packet s;
                  s2 = s1\<lparr>m_sentCounter := m_sentCounter s1 + 1\<rparr>
              in ScheduleTransmit now (m_interval K) s2)
           else s)
      | PROPAGATION_RUNNING \<Rightarrow>
          (let info = \<lparr>in_startingTime = m_propagationStartTime s,
                       in_position = position (m_currentMobility s),
                       in_direction = m_propagationDirection s\<rparr>;
               packet = [InterNodePropagationHeader (m_sentCounter s)
                           (imsi (m_currentMobility s)) info];
               s1 = socket_Send packet s;
               s2 = s1\<lparr>m_sentCounter := m_sentCounter s1 + 1\<rparr>
           in ScheduleTransmit now (m_interval K) s2)
      | _ \<Rightarrow> s)"

text \<open>The loop of the reverse mode: add 20 seconds while the time is negative.\<close>

function reversedTime_loop :: "Time \<Rightarrow> Time" where
  "reversedTime_loop r = (if r < 0 then reversedTime_loop (r + 20) else r)"
  by pat_completeness auto
termination
proof (relation "measure (\<lambda>r. nat \<lceil>- r / 20\<rceil>)")
  show "wf (measure (\<lambda>r::real. nat \<lceil>- r / 20\<rceil>))" by simp
next
  fix r :: real
  assume neg: "r < 0"
  have step: "\<lceil>- (r + 20) / 20\<rceil> = \<lceil>- r / 20\<rceil> - 1"
  proof -
    have "- (r + 20) / 20 = - r / 20 - 1" by (simp add: field_simps)
    then have "\<lceil>- (r + 20) / 20\<rceil> = \<lceil>- r / 20 - 1\<rceil>" by (rule arg_cong)
    then show ?thesis by (simp only: ceiling_diff_one)
  qed
  have pos: "0 < \<lceil>- r / 20\<rceil>" using neg by (simp add: ceiling_less_iff)
  have "nat \<lceil>- (r + 20) / 20\<rceil> < nat \<lceil>- r / 20\<rceil>"
    unfolding step using pos by linarith
  then show "(r + 20, r) \<in> measure (\<lambda>r. nat \<lceil>- r / 20\<rceil>)"
    by (simp only: in_measure)
qed

definition StartNodePropagation :: "Config \<Rightarrow> Time \<Rightarrow> Vector \<Rightarrow> State \<Rightarrow> State" where
  "StartNodePropagation K now pos s =
     (let s1 = Send K now pos (s\<lparr>m_status := PROPAGATION_RUNNING\<rparr>)
      in if \<not> REVERSE_PROPAGATION K
         then snd (Schedule now 1.5 CbStopNodePropagation s1)
         else (let reversedTime = reversedTime_loop (now - m_propagationStartTime s1) + 3
               in snd (Schedule now reversedTime CbActivateNode s1)))"

definition StopNodePropagation :: "State \<Rightarrow> State" where
  "StopNodePropagation s = s\<lparr>m_status := PROPAGATION_COMPLETE\<rparr>"

definition ActivateNode :: "Time \<Rightarrow> State \<Rightarrow> State" where
  "ActivateNode now s =
     (let (e, s1) = Schedule now 1.0 CbInactivateNode (s\<lparr>m_status := ACTIVE\<rparr>)
      in s1\<lparr>m_interNodePropagationEvent := e\<rparr>)"

definition InactivateNode :: "Time \<Rightarrow> State \<Rightarrow> State" where
  "InactivateNode now s =
     (let (e, s1) = Schedule now 19.0 CbActivateNode (s\<lparr>m_status := PROPAGATION_COMPLETE\<rparr>)
      in s1\<lparr>m_interNodePropagationEvent := e\<rparr>)"

definition UpdateNeighbors :: "Config \<Rightarrow> Time \<Rightarrow> State \<Rightarrow> State" where
  "UpdateNeighbors K now s = ScheduleTransmit now (m_interval K) (s\<lparr>m_status := CLUSTER_UPDATE\<rparr>)"

definition FormCluster :: "Time \<Rightarrow> State \<Rightarrow> State" where
  "FormCluster now s = ScheduleTransmit now 0 (s\<lparr>m_status := CLUSTER_FORMATION\<rparr>)"

section \<open>Cluster head election\<close>

fun HasMaxId_loop :: "NeighborInfo idmap \<Rightarrow> node_id \<Rightarrow> node_id" where
  "HasMaxId_loop [] maxId = maxId"
| "HasMaxId_loop ((k, v) # m) maxId =
     (if imsi v > maxId \<and> degree v \<noteq> CM then HasMaxId_loop m (imsi v)
      else HasMaxId_loop m maxId)"

definition HasMaxId :: "State \<Rightarrow> bool" where
  "HasMaxId s =
     (HasMaxId_loop (m_neighborList s) (imsi (m_currentMobility s)) = imsi (m_currentMobility s))"

text \<open>
  \<^verbatim>\<open>InitiateCluster\<close>. Its first test compares the cluster identifier with the
  enumerators \<^verbatim>\<open>ClusterSap::CH\<close> and \<^verbatim>\<open>ClusterSap::CM\<close>.
\<close>

definition InitiateCluster :: "Config \<Rightarrow> Time \<Rightarrow> State \<Rightarrow> State" where
  "InitiateCluster K now s =
     (if m_status s = CLUSTER_INITIALIZATION then
        (if clusterId (m_currentMobility s) = degree_value CH
            \<or> clusterId (m_currentMobility s) = degree_value CM
         then ScheduleTransmit now (m_interval K) (s\<lparr>m_status := CLUSTER_UPDATE\<rparr>)
         else if HasMaxId s
         then ScheduleTransmit now (m_minimumTdmaSlot K * real (m_maxUes K))
                (s\<lparr>m_status := CLUSTER_HEAD_ELECTION\<rparr>)
         else snd (Schedule now (m_minimumTdmaSlot K * real (m_maxUes K)) CbInitiateCluster s))
      else s)"

fun MergeCheck_loop :: "NeighborInfo idmap \<Rightarrow> node_id \<Rightarrow> node_id" where
  "MergeCheck_loop [] ident = ident"
| "MergeCheck_loop ((k, node) # m) ident =
     (if degree node = CH \<and> (ident = - 1 \<or> k > ident) then MergeCheck_loop m k
      else MergeCheck_loop m ident)"

text \<open>\<^verbatim>\<open>UINT64_MAX\<close> is the word \<open>- 1\<close>.\<close>

definition MergeCheck :: "State \<Rightarrow> node_id" where
  "MergeCheck s = MergeCheck_loop (m_neighborList s) (- 1)"


section \<open>The direction solver\<close>

fun cancel_running :: "EventId list \<Rightarrow> State \<Rightarrow> State" where
  "cancel_running [] s = s"
| "cancel_running (e # es) s = cancel_running es (if IsRunning e s then Cancel e s else s)"

text \<open>
  The best cell of one neighbour's density map so far. \<open>candidate_distance\<close> starts at
  \<^verbatim>\<open>std::numeric_limits<double>::max()\<close>, written \<open>None\<close>: every distance is below it.
\<close>

record Candidate =
  candidate_pos :: Vector
  candidate_outcome :: Vector
  candidate_found :: bool
  candidate_distance :: "real option"

definition candidate_init :: Candidate where
  "candidate_init =
     \<lparr>candidate_pos = Vec 0 0 0, candidate_outcome = Vec 0 0 0,
      candidate_found = False, candidate_distance = None\<rparr>"

definition distance_gt :: "real option \<Rightarrow> real \<Rightarrow> bool" where
  "distance_gt c d = (case c of None \<Rightarrow> True | Some c' \<Rightarrow> c' > d)"

definition cell_x :: "Config \<Rightarrow> Vector \<Rightarrow> int \<Rightarrow> real" where
  "cell_x K basePosition index =
     real_of_int ((index mod DISTRO_MAP_SIZE K) - (DISTRO_MAP_SIZE K div 2)) * DISTRO_MAP_SCALE K
     + vx basePosition"

definition cell_y :: "Config \<Rightarrow> Vector \<Rightarrow> int \<Rightarrow> real" where
  "cell_y K basePosition index =
     real_of_int (((index - index mod DISTRO_MAP_SIZE K) div DISTRO_MAP_SIZE K)
                  - (DISTRO_MAP_SIZE K div 2)) * DISTRO_MAP_SCALE K
     + vy basePosition"

fun cell_loop ::
  "Config \<Rightarrow> Vector \<Rightarrow> Vector \<Rightarrow> Vector \<Rightarrow> real list \<Rightarrow> int \<Rightarrow> Candidate \<Rightarrow> Candidate" where
  "cell_loop K startingPosition income_ave basePosition [] index c = c"
| "cell_loop K startingPosition income_ave basePosition (val # rest) index c =
     cell_loop K startingPosition income_ave basePosition rest (index + 1)
       (if val > 1.0 then
          (let x = cell_x K basePosition index;
               y = cell_y K basePosition index;
               dx = x - vx startingPosition;
               dy = y - vy startingPosition
           in if IsInSector startingPosition (Vec x y 0) income_ave 100.0 (PROPAGATION_THETA K)
              then
                (let distance = sqrt (dx * dx + dy * dy);
                     income_velocity = sqrt (vx income_ave * vx income_ave + vy income_ave * vy income_ave);
                     c1 = c\<lparr>candidate_found := True\<rparr>
                 in if distance_gt (candidate_distance c1) distance
                    then c1\<lparr>candidate_distance := Some distance,
                            candidate_pos := Vec x y 0,
                            candidate_outcome :=
                              Vec (income_velocity * dx / distance) (income_velocity * dy / distance) 0\<rparr>
                    else c1)
              else c)
        else c)"

text \<open>
  The state of the loop over the neighbours' density maps: the delay of the next frame,
  the sum and number of the outgoing vectors, and the agent.
\<close>

record SolverAcc =
  sending_timeslot :: Time
  outcome_sum :: Vector
  outcome_num :: int
  solver_state :: State

definition base_position :: "State \<Rightarrow> node_id \<Rightarrow> Vector" where
  "base_position s key =
     (case map_find key (m_neighborClusterList s) of
        Some n \<Rightarrow> position n
      | None \<Rightarrow> Vec 0 0 0)"

definition solver_step ::
  "Config \<Rightarrow> Time \<Rightarrow> Vector \<Rightarrow> Vector \<Rightarrow> node_id \<times> real list \<Rightarrow> SolverAcc \<Rightarrow> SolverAcc" where
  "solver_step K now startingPosition income_ave entry acc =
     (let key = fst entry; dist = snd entry; s = solver_state acc;
          c = cell_loop K startingPosition income_ave (base_position s key) dist 0 candidate_init
      in if candidate_found c then
           (let info = \<lparr>ic_startingTime = m_firstPropagationStartingTime s,
                        ic_source = startingPosition,
                        ic_distination = candidate_pos c,
                        ic_direction = candidate_outcome c\<rparr>;
                packet = [InterClusterPropagationHeader (m_sentCounter s)
                            (clusterId (m_currentMobility s)) info];
                s1 = s\<lparr>m_sentCounter := m_sentCounter s + 1,
                       m_ackInterClusterPropagation :=
                         map_put key False (m_ackInterClusterPropagation s)\<rparr>;
                (eventId, s2) = Schedule now (sending_timeslot acc)
                                  (CbSendTo key packet (AckInterClusterEntry key)) s1;
                s3 = s2\<lparr>m_sendingInterClusterPropagationEvent :=
                           m_sendingInterClusterPropagationEvent s2 @ [eventId]\<rparr>
            in \<lparr>sending_timeslot = sending_timeslot acc + m_minimumTdmaSlot K * 50,
                outcome_sum = vadd (outcome_sum acc) (candidate_outcome c),
                outcome_num = outcome_num acc + 1,
                solver_state = s3\<rparr>)
         else acc)"

fun solver_loop ::
  "Config \<Rightarrow> Time \<Rightarrow> Vector \<Rightarrow> Vector \<Rightarrow> (real list) idmap \<Rightarrow> SolverAcc \<Rightarrow> SolverAcc" where
  "solver_loop K now startingPosition income_ave [] acc = acc"
| "solver_loop K now startingPosition income_ave (entry # rest) acc =
     solver_loop K now startingPosition income_ave rest
       (solver_step K now startingPosition income_ave entry acc)"

definition starting_position :: "State \<Rightarrow> node_id \<Rightarrow> Vector option" where
  "starting_position s ident =
     (case map_find ident (m_clusterList s) of
        Some n \<Rightarrow> Some (position n)
      | None \<Rightarrow> if ident = imsi (m_currentMobility s)
                then Some (position (m_currentMobility s)) else None)"

definition TransmitPropagationDirection ::
  "Config \<Rightarrow> Time \<Rightarrow> node_id \<Rightarrow> Vector \<Rightarrow> State \<Rightarrow> State" where
  "TransmitPropagationDirection K now ident propVector s0 =
     (let s = cancel_running (m_sendingInterClusterPropagationEvent s0) s0;
          income_ave = propVector;
          income_velocity = sqrt (vx income_ave * vx income_ave + vy income_ave * vy income_ave)
      in case starting_position s ident of
           None \<Rightarrow> s
         | Some startingPosition \<Rightarrow>
             (let acc = solver_loop K now startingPosition income_ave (m_neighborDistroMap s)
                          \<lparr>sending_timeslot = m_minimumTdmaSlot K * real (m_maxUes K),
                           outcome_sum = Vec 0 0 0, outcome_num = 0, solver_state = s\<rparr>;
                  s1 = solver_state acc;
                  abs = sqrt (vx (outcome_sum acc) * vx (outcome_sum acc)
                              + vy (outcome_sum acc) * vy (outcome_sum acc));
                  s2 = s1\<lparr>m_propagationDirection :=
                            Vec (income_velocity * vx (outcome_sum acc) / abs)
                                (income_velocity * vy (outcome_sum acc) / abs) 0.0\<rparr>;
                  s3 = (if length (m_clusterList s2) > 0
                        then (let t = ScheduleTransmit now (sending_timeslot acc) s2
                              in t\<lparr>m_sendingInterClusterPropagationEvent :=
                                      m_sendingInterClusterPropagationEvent t @ [m_sendEvent t]\<rparr>)
                        else s2)
              in if ident = imsi (m_currentMobility s3)
                    \<and> (\<not> DISABLE_STARTINGNODE K \<or> isStartingNode (m_currentMobility s3))
                 then ScheduleInterNodePropagation K now
                        (s3\<lparr>m_propagationStartTime := m_firstPropagationStartingTime s3\<rparr>)
                 else s3))"


section \<open>Receiving beacons and propagation frames\<close>

text \<open>The range check of \<^verbatim>\<open>HandleRead\<close>: the distance in space between two positions.\<close>

definition beacon_range :: "Vector \<Rightarrow> Vector \<Rightarrow> real" where
  "beacon_range v1 v2 =
     (let dx = vx v1 - vx v2; dy = vy v1 - vy v2; dz = vz v1 - vz v2
      in sqrt ((dx * dx) + (dy * dy) + (dz * dz)))"

text \<open>
  The block \<^verbatim>\<open>Update NeighborClusterList\<close>, which the handlers of ClusterInfo and
  InitiateCluster both end with. The summary entry is a fresh \<^verbatim>\<open>NeighborInfo\<close>;
  the one field the source leaves unassigned, \<open>isStartingNode\<close>, is taken as false.
\<close>

definition update_NeighborClusterList :: "Time \<Rightarrow> NeighborInfo \<Rightarrow> State \<Rightarrow> State" where
  "update_NeighborClusterList now otherInfo s =
     (if clusterId (m_currentMobility s) \<noteq> clusterId otherInfo
         \<and> (degree otherInfo = CH \<or> degree otherInfo = CM)
      then
        (let neighborCluster =
               \<lparr>ts = now, imsi = clusterId otherInfo, clusterId = clusterId otherInfo,
                position = position otherInfo, address = chAddress otherInfo,
                chAddress = chAddress otherInfo, degree = CH, isStartingNode = False\<rparr>
         in s\<lparr>m_neighborClusterList :=
                map_put (imsi neighborCluster) neighborCluster (m_neighborClusterList s)\<rparr>)
      else s)"

definition join_cluster :: "NeighborInfo \<Rightarrow> State \<Rightarrow> State" where
  "join_cluster chInfo s =
     s\<lparr>m_status := CLUSTER_UPDATE,
       m_currentMobility := (m_currentMobility s)
         \<lparr>degree := CM, clusterId := clusterId chInfo, chAddress := address chInfo\<rparr>\<rparr>"

definition attach_to :: "NeighborInfo \<Rightarrow> State \<Rightarrow> State" where
  "attach_to potential s =
     s\<lparr>m_currentMobility := (m_currentMobility s)\<lparr>degree := CM, clusterId := imsi potential\<rparr>,
       m_changesCounter := m_changesCounter s + 1\<rparr>"

definition handle_ClusterInfo_update :: "Time \<Rightarrow> NeighborInfo \<Rightarrow> State \<Rightarrow> State" where
  "handle_ClusterInfo_update now otherInfo s =
     (if m_status s = CLUSTER_UPDATE \<or> m_status s = CLUSTER_HEAD_ELECTION then
        (if degree (m_currentMobility s) = CH \<or> degree (m_currentMobility s) = CM then
           (if clusterId otherInfo = imsi (m_currentMobility s) then
              s\<lparr>m_clusterList := map_put (imsi otherInfo) otherInfo (m_clusterList s)\<rparr>
            else if length (m_clusterList s) = 0 then
              (let potentialCH = MergeCheck s
               in case map_find potentialCH (m_neighborList s) of
                    Some potential \<Rightarrow>
                      if potentialCH \<noteq> - 1 \<and> imsi (m_currentMobility s) < imsi potential
                      then attach_to potential s else s
                  | None \<Rightarrow> s)
            else s)
         else
           (let potentialCH = MergeCheck s
            in case map_find potentialCH (m_neighborList s) of
                 Some potential \<Rightarrow>
                   if potentialCH \<noteq> - 1 then attach_to potential s
                   else snd (Schedule now 0 CbUpdateNeighbors
                               ((become_CH s)\<lparr>m_changesCounter := m_changesCounter s + 1\<rparr>))
               | None \<Rightarrow>
                   snd (Schedule now 0 CbUpdateNeighbors
                          ((become_CH s)\<lparr>m_changesCounter := m_changesCounter s + 1\<rparr>))))
      else s)"

definition handle_ClusterInfo :: "Config \<Rightarrow> Time \<Rightarrow> NeighborInfo \<Rightarrow> State \<Rightarrow> State" where
  "handle_ClusterInfo K now otherInfo s =
     (if beacon_range (position (m_currentMobility s)) (position otherInfo) \<ge> OMNI_RANGE K then s
      else
        (let s1 = s\<lparr>m_neighborList := map_put (imsi otherInfo) otherInfo (m_neighborList s)\<rparr>;
             s2 = (if m_status s1 = CLUSTER_INITIALIZATION
                      \<and> degree otherInfo = CH \<and> degree (m_currentMobility s1) = STANDALONE
                   then ScheduleTransmit now (m_timeWindow K) (join_cluster otherInfo s1)
                   else s1);
             s3 = handle_ClusterInfo_update now otherInfo s2
         in update_NeighborClusterList now otherInfo s3))"

text \<open>
  InitiateCluster. In state \<^verbatim>\<open>CLUSTER_INITIALIZATION\<close> the status is set to
  \<^verbatim>\<open>CLUSTER_HEAD_ELECTION\<close> before the range check, whose \<^verbatim>\<open>continue\<close> leaves
  the handler at once; in every other state there is no range check.
\<close>

definition handle_InitiateCluster ::
  "Config \<Rightarrow> Time \<Rightarrow> node_id \<Rightarrow> NeighborInfo \<Rightarrow> State \<Rightarrow> State" where
  "handle_InitiateCluster K now hdrClusterId chInfo s =
     (if m_status s = CLUSTER_INITIALIZATION then
        (let s1 = s\<lparr>m_status := CLUSTER_HEAD_ELECTION\<rparr>
         in if beacon_range (position (m_currentMobility s1)) (position chInfo) \<ge> OMNI_RANGE K
            then s1
            else update_NeighborClusterList now chInfo
                   (if map_find hdrClusterId (m_neighborList s1) \<noteq> None
                    then ScheduleTransmit now (m_timeWindow K)
                           (join_cluster chInfo
                              (s1\<lparr>m_neighborList := map_assign hdrClusterId chInfo (m_neighborList s1)\<rparr>))
                    else s1\<lparr>m_status := CLUSTER_INITIALIZATION\<rparr>))
      else update_NeighborClusterList now chInfo s)"

definition handle_FormCluster :: "Config \<Rightarrow> Time \<Rightarrow> NeighborInfo \<Rightarrow> State \<Rightarrow> State" where
  "handle_FormCluster K now otherInfo s =
     (if beacon_range (position (m_currentMobility s)) (position otherInfo) \<ge> OMNI_RANGE K then s
      else
        (let s1 = s\<lparr>m_neighborList := map_put (imsi otherInfo) otherInfo (m_neighborList s)\<rparr>
         in if map_find (clusterId otherInfo) (m_neighborList s1) \<noteq> None
               \<and> m_status s1 = CLUSTER_HEAD_ELECTION
            then ScheduleTransmit now (m_timeWindow K)
                   (join_cluster otherInfo (Cancel (m_chElectionEvent s1) s1))
            else s1))"

definition handle_NeighborClusterInfo :: "node_id \<Rightarrow> NeighborInfo \<Rightarrow> State \<Rightarrow> State" where
  "handle_NeighborClusterInfo hdrClusterId chInfo s =
     (if degree (m_currentMobility s) = CH \<and> hdrClusterId = imsi (m_currentMobility s)
         \<and> imsi chInfo \<noteq> imsi (m_currentMobility s)
      then s\<lparr>m_neighborClusterList := map_put (imsi chInfo) chInfo (m_neighborClusterList s)\<rparr>
      else s)"

definition handle_IntraClusterPropagation ::
  "Config \<Rightarrow> Time \<Rightarrow> node_id \<Rightarrow> IntraClusterPropagationInfo \<Rightarrow> State \<Rightarrow> State" where
  "handle_IntraClusterPropagation K now hdrClusterId info s =
     (if clusterId (m_currentMobility s) = hdrClusterId \<and> degree (m_currentMobility s) = CM then
        (let s1 = s\<lparr>m_propagationDirection := ia_direction info\<rparr>
         in if imsi (m_currentMobility s1) = ia_startingNode info
               \<and> (\<not> DISABLE_STARTINGNODE K \<or> isStartingNode (m_currentMobility s1))
               \<and> (m_status s1 = EXCHANGE_DISTRO_MAP \<or> m_status s1 = PROPAGATION_READY)
            then
              ScheduleInterNodePropagation K now
                (if m_propagationStartTime s1 \<ge> ia_startingTime info \<and> ia_startingTime info > now
                 then s1\<lparr>m_propagationStartTime := ia_startingTime info,
                         m_firstPropagationStartingTime := ia_startingTime info\<rparr>
                 else s1)
            else s1)
      else s)"

text \<open>
  The direction a node with no direction of its own takes from an InterNodePropagation
  frame: the sum of the unit vector of the announced direction and the unit vector from
  the sender to the node, scaled to the announced speed. The source divides by the
  announced speed, by the horizontal distance from the sender to the node and by the
  length of the sum; where one of them is zero the source computes a value that is not a
  number, and the quotients written here are meant only for the other inputs. The
  theorems about this function assume an announced direction with a horizontal speed and
  a node away from the horizontal position of the sender; inside the sector of
  acceptance the sum is then not zero.
\<close>

definition alternate_direction :: "InterNodePropagationInfo \<Rightarrow> State \<Rightarrow> State" where
  "alternate_direction info s =
     (let speed = sqrt (vx (in_direction info) * vx (in_direction info)
                        + vy (in_direction info) * vy (in_direction info));
          come_direction = Vec (vx (in_direction info) / speed) (vy (in_direction info) / speed) 0.0;
          delta = vsub (position (m_currentMobility s)) (in_position info);
          delta_abs = sqrt (vx delta * vx delta + vy delta * vy delta);
          out_x = vx come_direction + vx delta / delta_abs;
          out_y = vy come_direction + vy delta / delta_abs;
          out_abs = sqrt (out_x * out_x + out_y * out_y)
      in s\<lparr>m_propagationDirection := (m_propagationDirection s)
             \<lparr>vx := speed * out_x / out_abs, vy := speed * out_y / out_abs\<rparr>\<rparr>)"

definition handle_InterNodePropagation ::
  "Config \<Rightarrow> Time \<Rightarrow> InterNodePropagationInfo \<Rightarrow> State \<Rightarrow> State" where
  "handle_InterNodePropagation K now info s =
     (if IsInSector (in_position info) (position (m_currentMobility s)) (in_direction info)
           (BF_RANGE K) (PROPAGATION_THETA K)
      then
        (let s1 = (if vx (m_propagationDirection s) = 0 \<and> vy (m_propagationDirection s) = 0
                   then alternate_direction info s else s);
             distance = CalculateDistance (in_position info) (position (m_currentMobility s1));
             velocity = sqrt (vx (m_propagationDirection s1) * vx (m_propagationDirection s1)
                              + vy (m_propagationDirection s1) * vy (m_propagationDirection s1));
             delay = distance / velocity;
             newTime = in_startingTime info + delay
         in if newTime < m_propagationStartTime s1 \<and> now < m_propagationStartTime s1
            then ScheduleInterNodePropagation K now (s1\<lparr>m_propagationStartTime := newTime\<rparr>)
            else s1)
      else s)"

text \<open>
  One item of a received packet in \<^verbatim>\<open>HandleRead\<close>. Headers that arrive on the
  inter-cluster socket are not matched here.
\<close>

definition HandleRead_item :: "Config \<Rightarrow> Time \<Rightarrow> Header \<Rightarrow> State \<Rightarrow> State" where
  "HandleRead_item K now item s0 =
     (let s = s0\<lparr>m_recvCounter := m_recvCounter s0 + 1\<rparr>
      in case item of
           ClusterInfoHeader q otherInfo \<Rightarrow> handle_ClusterInfo K now otherInfo s
         | InitiateClusterHeader q c chInfo \<Rightarrow> handle_InitiateCluster K now c chInfo s
         | FormClusterHeader q otherInfo \<Rightarrow> handle_FormCluster K now otherInfo s
         | NeighborClusterInfoHeader q c chInfo \<Rightarrow> handle_NeighborClusterInfo c chInfo s
         | IntraClusterPropagationHeader q c info \<Rightarrow> handle_IntraClusterPropagation K now c info s
         | InterNodePropagationHeader q c info \<Rightarrow> handle_InterNodePropagation K now info s
         | _ \<Rightarrow> s)"

fun HandleRead :: "Config \<Rightarrow> Time \<Rightarrow> Packet \<Rightarrow> State \<Rightarrow> State" where
  "HandleRead K now [] s = s"
| "HandleRead K now (item # rest) s = HandleRead K now rest (HandleRead_item K now item s)"

section \<open>The inter-cluster channel\<close>

definition send_Ack :: "Time \<Rightarrow> node_id \<Rightarrow> AckType \<Rightarrow> State \<Rightarrow> State" where
  "send_Ack now dest t s =
     (let packet = [AckHeader (m_sentCounter s) (clusterId (m_currentMobility s)) t];
          s1 = s\<lparr>m_sentCounter := m_sentCounter s + 1\<rparr>
      in snd (Schedule now 0 (CbSendTo dest packet NullAck) s1))"

definition handle_DistroMap :: "Time \<Rightarrow> node_id \<Rightarrow> NeighborInfo \<Rightarrow> real list \<Rightarrow> State \<Rightarrow> State" where
  "handle_DistroMap now ident otherInfo otherDistroMap s =
     send_Ack now ident AckOfDistroMap
       (s\<lparr>m_neighborClusterList := map_put ident otherInfo (m_neighborClusterList s),
          m_neighborDistroMap := map_put ident otherDistroMap (m_neighborDistroMap s)\<rparr>)"

text \<open>
  The position of the node \<^verbatim>\<open>FindNodeByPosition\<close> returned: the agent's own, or
  the member's. The identifier returned is the agent's or a key of the cluster list, so
  the lookup finds it; the last case is not reached.
\<close>

definition candidate_position :: "State \<Rightarrow> node_id \<Rightarrow> Vector" where
  "candidate_position s candidateId =
     (if candidateId = imsi (m_currentMobility s) then position (m_currentMobility s)
      else (case map_find candidateId (m_clusterList s) of
              Some n \<Rightarrow> position n
            | None \<Rightarrow> Vec 0 0 0))"

definition interCluster_newTime :: "State \<Rightarrow> InterClusterPropagationInfo \<Rightarrow> Time" where
  "interCluster_newTime s info =
     (let candidateId = FindNodeByPosition s (ic_distination info);
          candidatePos = candidate_position s candidateId;
          delay = CalcPropagationDelay (ic_source info) candidatePos (ic_direction info)
      in ic_startingTime info + (delay * 1.3))"

definition handle_InterClusterPropagation ::
  "Config \<Rightarrow> Time \<Rightarrow> node_id \<Rightarrow> InterClusterPropagationInfo \<Rightarrow> State \<Rightarrow> State" where
  "handle_InterClusterPropagation K now hdrClusterId info s =
     (let candidateId = FindNodeByPosition s (ic_distination info);
          newTime = interCluster_newTime s info;
          s1 = (if m_firstPropagationStartingTime s > newTime
                then TransmitPropagationDirection K now candidateId (ic_direction info)
                       (s\<lparr>m_firstPropagationStartingTime := newTime,
                          m_firstPropagationStartNodeId := candidateId\<rparr>)
                else s)
      in send_Ack now hdrClusterId AckOfInterClusterPropagation s1)"

definition handle_Ack :: "node_id \<Rightarrow> AckType \<Rightarrow> State \<Rightarrow> State" where
  "handle_Ack hdrClusterId ackId s =
     (let s1 = (if ackId = AckOfDistroMap
                then s\<lparr>m_ackDistroMap := map_assign hdrClusterId True (m_ackDistroMap s)\<rparr>
                else s)
      in if ackId = AckOfInterClusterPropagation
         then s1\<lparr>m_ackInterClusterPropagation :=
                   map_assign hdrClusterId True (m_ackInterClusterPropagation s1)\<rparr>
         else s1)"

definition HandlePacketInterCluster_item :: "Config \<Rightarrow> Time \<Rightarrow> Header \<Rightarrow> State \<Rightarrow> State" where
  "HandlePacketInterCluster_item K now item s0 =
     (let s = s0\<lparr>m_recvCounter := m_recvCounter s0 + 1\<rparr>
      in case item of
           DistroMapHeader q ident otherInfo otherDistroMap \<Rightarrow>
             handle_DistroMap now ident otherInfo otherDistroMap s
         | InterClusterPropagationHeader q c info \<Rightarrow> handle_InterClusterPropagation K now c info s
         | AckHeader q c ackId \<Rightarrow> handle_Ack c ackId s
         | _ \<Rightarrow> s)"

fun HandlePacketInterCluster :: "Config \<Rightarrow> Time \<Rightarrow> Packet \<Rightarrow> State \<Rightarrow> State" where
  "HandlePacketInterCluster K now [] s = s"
| "HandlePacketInterCluster K now (item # rest) s =
     HandlePacketInterCluster K now rest (HandlePacketInterCluster_item K now item s)"


section \<open>Density exchange and the decision of the propagation parameters\<close>

fun ConnectSocketInterCH_loop :: "NeighborInfo idmap \<Rightarrow> State \<Rightarrow> State" where
  "ConnectSocketInterCH_loop [] s = s"
| "ConnectSocketInterCH_loop ((ident, neighborCH) # rest) s =
     ConnectSocketInterCH_loop rest
       (s\<lparr>m_neighborClustersSocket := map_put ident () (m_neighborClustersSocket s)\<rparr>)"

definition ConnectSocketInterCH :: "State \<Rightarrow> State" where
  "ConnectSocketInterCH s = ConnectSocketInterCH_loop (m_neighborClusterList s) s"

text \<open>
  \<^verbatim>\<open>ExchangeDistroMap\<close>. For each peer the acknowledgement entry is set to false and
  a DistroMap frame is built with the next sequence number; the statement that would
  schedule \<^verbatim>\<open>SendTo\<close> for it is commented out in the source, so the frame is dropped.
\<close>

fun ExchangeDistroMap_loop :: "unit idmap \<Rightarrow> State \<Rightarrow> State" where
  "ExchangeDistroMap_loop [] s = s"
| "ExchangeDistroMap_loop ((ident, socket) # rest) s =
     ExchangeDistroMap_loop rest
       (s\<lparr>m_ackDistroMap := map_put ident False (m_ackDistroMap s),
          m_sentCounter := m_sentCounter s + 1\<rparr>)"

definition ExchangeDistroMap :: "State \<Rightarrow> State" where
  "ExchangeDistroMap s =
     ExchangeDistroMap_loop (m_neighborClustersSocket s) (s\<lparr>m_status := EXCHANGE_DISTRO_MAP\<rparr>)"

text \<open>The process-wide tables of \<^verbatim>\<open>MetaData\<close> that the agent reads.\<close>

record MetaData =
  md_distroMap :: "(real list) idmap"
  md_chInfo :: "NeighborInfo idmap"
  md_basePropagationVector :: "Vector idmap"

fun complete_distro_map :: "MetaData \<Rightarrow> node_id list \<Rightarrow> State \<Rightarrow> State" where
  "complete_distro_map md [] s = s"
| "complete_distro_map md (ident # rest) s =
     complete_distro_map md rest
       (if map_find ident (m_neighborDistroMap s) = None then
          (let s1 = (case map_find ident (md_distroMap md) of
                       Some d \<Rightarrow> s\<lparr>m_neighborDistroMap := map_insert ident d (m_neighborDistroMap s)\<rparr>
                     | None \<Rightarrow> s)
           in case map_find ident (md_chInfo md) of
                Some c \<Rightarrow>
                  if map_find ident (m_neighborClusterList s1) \<noteq> None
                  then s1\<lparr>m_neighborClusterList := map_assign ident c (m_neighborClusterList s1)\<rparr>
                  else s1
              | None \<Rightarrow> s1)
        else s)"

fun find_starting_node :: "NeighborInfo idmap \<Rightarrow> bool \<times> node_id \<Rightarrow> bool \<times> node_id" where
  "find_starting_node [] acc = acc"
| "find_starting_node ((key, info) # rest) acc =
     find_starting_node rest (if isStartingNode info then (True, key) else acc)"

definition DecidePropagationParam :: "Config \<Rightarrow> MetaData \<Rightarrow> Time \<Rightarrow> State \<Rightarrow> State" where
  "DecidePropagationParam K md now s0 =
     (let s1 = s0\<lparr>m_status := DECIDE_PROPAGATION_PARAM,
                  m_ackDistroMap :=
                    map (\<lambda>(k, b). if b = False then (k, True) else (k, b)) (m_ackDistroMap s0)\<rparr>;
          s2 = complete_distro_map md (map fst (m_neighborClusterList s1)) s1;
          (hasStartingNode, startingNodeId) =
            (let r = find_starting_node (m_clusterList s2) (False, 0)
             in if isStartingNode (m_currentMobility s2) then (True, imsi (m_currentMobility s2))
                else r)
      in if hasStartingNode then
           (case map_find startingNodeId (md_basePropagationVector md) of
              Some v \<Rightarrow>
                TransmitPropagationDirection K now startingNodeId v
                  (s2\<lparr>m_firstPropagationStartingTime := now + 5.0,
                      m_firstPropagationStartNodeId := startingNodeId\<rparr>)
            | None \<Rightarrow> s2)
         else s2)"

section \<open>Table aging\<close>

text \<open>
  One round of the first loop of \<^verbatim>\<open>UpdateNeighborList\<close>, for the entry \<open>(key, val)\<close>
  of the neighbour list; the flag is \<^verbatim>\<open>hasCH\<close>.
\<close>

definition lost_CH :: "State \<Rightarrow> State" where
  "lost_CH s =
     s\<lparr>m_currentMobility := (m_currentMobility s)\<lparr>clusterId := 0, degree := STANDALONE\<rparr>,
       m_status := CLUSTER_INITIALIZATION\<rparr>"

definition is_old :: "Config \<Rightarrow> Time \<Rightarrow> NeighborInfo \<Rightarrow> bool" where
  "is_old K now_ts val = (now_ts - ts val > 2.0 * m_interval K)"

definition aging_step ::
  "Config \<Rightarrow> Time \<Rightarrow> node_id \<times> NeighborInfo \<Rightarrow> bool \<times> State \<Rightarrow> bool \<times> State" where
  "aging_step K now entry acc =
     (let key = fst entry; val = snd entry; s = snd acc;
          hasCH = (fst acc
                   \<or> (clusterId (m_currentMobility s) = imsi val
                      \<and> clusterId (m_currentMobility s) = clusterId val \<and> degree val = CH));
          s1 = (if map_find key (m_clusterList s) \<noteq> None
                   \<and> imsi (m_currentMobility s) \<noteq> clusterId val
                then s\<lparr>m_clusterList := map_erase key (m_clusterList s)\<rparr> else s);
          s2 = (if degree val = CH \<and> clusterId (m_currentMobility s1) \<noteq> imsi val then
                  (if map_find key (m_neighborClusterList s1) = None
                   then s1\<lparr>m_neighborClusterList :=
                             map_insert (imsi val) val (m_neighborClusterList s1)\<rparr>
                   else s1)
                else if map_find key (m_neighborClusterList s1) \<noteq> None
                then s1\<lparr>m_neighborClusterList := map_erase key (m_neighborClusterList s1)\<rparr>
                else s1)
      in if is_old K (ts (m_currentMobility s2)) val then
           (let s3 = s2\<lparr>m_neighborList := map_erase key (m_neighborList s2)\<rparr>;
                s4 = (if imsi val = clusterId (m_currentMobility s3) then lost_CH s3 else s3);
                s5 = (if map_find key (m_neighborList s4) \<noteq> None
                      then s4\<lparr>m_neighborList := map_erase key (m_neighborList s4)\<rparr> else s4);
                s6 = (if map_find key (m_clusterList s5) \<noteq> None
                      then s5\<lparr>m_clusterList := map_erase key (m_clusterList s5)\<rparr> else s5)
            in (hasCH,
                if length (m_neighborList s6) = 0 \<and> degree (m_currentMobility s6) \<noteq> CH
                then ScheduleTransmit now 0
                       ((become_CH s6)\<lparr>m_changesCounter := m_changesCounter s6 + 1\<rparr>)
                else s6))
         else (hasCH, s2))"

fun aging_loop ::
  "Config \<Rightarrow> Time \<Rightarrow> NeighborInfo idmap \<Rightarrow> bool \<times> State \<Rightarrow> bool \<times> State" where
  "aging_loop K now [] acc = acc"
| "aging_loop K now (entry # rest) acc = aging_loop K now rest (aging_step K now entry acc)"

definition UpdateNeighborList :: "Config \<Rightarrow> Time \<Rightarrow> Vector \<Rightarrow> State \<Rightarrow> State" where
  "UpdateNeighborList K now pos s0 =
     (let s = AcquireMobilityInfo K now pos s0;
          (hasCH, s1) = aging_loop K now (m_neighborList s) (False, s);
          s2 = (if degree (m_currentMobility s1) = CM \<and> \<not> hasCH
                then s1\<lparr>m_currentMobility := (m_currentMobility s1)
                          \<lparr>clusterId := - 1, degree := STANDALONE\<rparr>\<rparr>
                else s1);
          s3 = s2\<lparr>m_neighborClusterList :=
                    filter (\<lambda>(k, val). \<not> is_old K (ts (m_currentMobility s2)) val)
                      (m_neighborClusterList s2)\<rparr>
      in if IsExpired (m_neighborsListUpdateEvent s3) s3
         then (let (e, s4) = Schedule now (m_interval K) CbUpdateNeighborList s3
               in s4\<lparr>m_neighborsListUpdateEvent := e\<rparr>)
         else s3)"

section \<open>Running a scheduled event\<close>

text \<open>
  The scheduler takes the event out of its queue and calls it at the event's time.
  \<open>mob\<close> is the mobility model: the position of the node at a time.
\<close>

definition run_callback ::
  "Config \<Rightarrow> MetaData \<Rightarrow> (Time \<Rightarrow> Vector) \<Rightarrow> Time \<Rightarrow> Callback \<Rightarrow> State \<Rightarrow> State" where
  "run_callback K md mob now cb s =
     (case cb of
        CbSend \<Rightarrow> Send K now (mob now) s
      | CbInitiateCluster \<Rightarrow> InitiateCluster K now s
      | CbUpdateNeighbors \<Rightarrow> UpdateNeighbors K now s
      | CbUpdateNeighborList \<Rightarrow> UpdateNeighborList K now (mob now) s
      | CbDecidePropagationParam \<Rightarrow> DecidePropagationParam K md now s
      | CbSendTo ident packet ack \<Rightarrow> SendTo K now ident packet ack s
      | CbStartNodePropagation \<Rightarrow> StartNodePropagation K now (mob now) s
      | CbStopNodePropagation \<Rightarrow> StopNodePropagation s
      | CbActivateNode \<Rightarrow> ActivateNode now s
      | CbInactivateNode \<Rightarrow> InactivateNode now s)"

definition fire :: "Config \<Rightarrow> MetaData \<Rightarrow> (Time \<Rightarrow> Vector) \<Rightarrow> Event \<Rightarrow> State \<Rightarrow> State" where
  "fire K md mob ev s =
     run_callback K md mob (ev_time ev) (ev_cb ev)
       (s\<lparr>sim_queue := filter (\<lambda>e. ev_uid e \<noteq> ev_uid ev) (sim_queue s)\<rparr>)"


section \<open>The kernel density estimator\<close>

text \<open>
  \<^verbatim>\<open>kdepp::Kde2d\<close> of \<^verbatim>\<open>src/clustering/model/kde.h\<close>. A sample is a pair, a
  2-by-2 matrix is the \<^verbatim>\<open>std::array\<close> of its four entries in row order, and the
  exceptions of the constructors are the values of \<open>kde_error\<close>.
\<close>

datatype kde_error = Invalid_argument | Singular_data_matrix | Math_domain_error

record Array4 =
  el0 :: real
  el1 :: real
  el2 :: real
  el3 :: real

record Kde2d =
  kde_data :: "(real \<times> real) list"
  kde_h :: Array4
  kde_h_inv :: Array4
  kde_pow_pi_term :: real
  kde_h_pow_term :: real

definition array4 :: "real \<Rightarrow> real \<Rightarrow> real \<Rightarrow> real \<Rightarrow> Array4" where
  "array4 a b c d = \<lparr>el0 = a, el1 = b, el2 = c, el3 = d\<rparr>"

definition kde_determinant :: "Array4 \<Rightarrow> real" where
  "kde_determinant h = el0 h * el3 h - el1 h * el2 h"

text \<open>\<^verbatim>\<open>invert\<close> takes the determinant from the member \<^verbatim>\<open>h_\<close>, the entries from its argument.\<close>

definition invert :: "Array4 \<Rightarrow> Array4 \<Rightarrow> kde_error + Array4" where
  "invert h mat =
     (let determinant = kde_determinant h
      in if determinant = 0 then Inl Singular_data_matrix
         else Inr (array4 (el3 mat / determinant) (- 1 * el1 mat / determinant)
                          (- 1 * el2 mat / determinant) (el0 mat / determinant)))"

text \<open>
  \<^verbatim>\<open>pre_calculate_terms\<close>. \<^verbatim>\<open>std::pow\<close> of a negative determinant to the power
  \<open>- 1 / 2\<close> is NaN, which the function answers with an exception. Both constructors
  call \<^verbatim>\<open>invert\<close> first, so the determinant is not zero here.
\<close>

definition pre_calculate_terms :: "Kde2d \<Rightarrow> kde_error + Kde2d" where
  "pre_calculate_terms k =
     (let determinant = kde_determinant (kde_h k)
      in if determinant < 0 then Inl Math_domain_error
         else Inr (k\<lparr>kde_pow_pi_term := (2 * (arctan 1.0 * 4.0)) powr (- 2.0 / 2.0),
                     kde_h_pow_term := determinant powr (- 1.0 / 2.0)\<rparr>))"

definition set_bandwidth :: "Array4 \<Rightarrow> Kde2d \<Rightarrow> kde_error + Kde2d" where
  "set_bandwidth h k =
     (let k1 = k\<lparr>kde_h := h\<rparr>
      in case invert (kde_h k1) (kde_h k1) of
           Inl e \<Rightarrow> Inl e
         | Inr hinv \<Rightarrow> pre_calculate_terms (k1\<lparr>kde_h_inv := hinv\<rparr>))"

definition kde_new :: "(real \<times> real) list \<Rightarrow> Kde2d" where
  "kde_new xs =
     \<lparr>kde_data = xs, kde_h = array4 0 0 0 0, kde_h_inv = array4 0 0 0 0,
      kde_pow_pi_term = 0, kde_h_pow_term = 0\<rparr>"

text \<open>The constructor with an explicit bandwidth matrix.\<close>

definition Kde2d_bandwidth :: "(real \<times> real) list \<Rightarrow> Array4 \<Rightarrow> kde_error + Kde2d" where
  "Kde2d_bandwidth xs bandwidth =
     (if length xs < 2 then Inl Invalid_argument
      else case set_bandwidth bandwidth (kde_new xs) of
             Inl e \<Rightarrow> Inl e
           | Inr k \<Rightarrow> pre_calculate_terms k)"

fun mean_loop :: "(real \<times> real) list \<Rightarrow> real \<times> real \<Rightarrow> real \<times> real" where
  "mean_loop [] acc = acc"
| "mean_loop (i # rest) (m0, m1) = mean_loop rest (m0 + fst i, m1 + snd i)"

fun cov_loop :: "real \<times> real \<Rightarrow> (real \<times> real) list \<Rightarrow> Array4 \<Rightarrow> Array4" where
  "cov_loop mean [] cov = cov"
| "cov_loop mean (x_j # rest) cov =
     (let diff0 = fst x_j - fst mean; diff1 = snd x_j - snd mean
      in cov_loop mean rest
           (cov\<lparr>el0 := el0 cov + diff0 * diff0, el1 := el1 cov + diff0 * diff1,
                el3 := el3 cov + diff1 * diff1\<rparr>))"

definition covariance2d :: "(real \<times> real) list \<Rightarrow> Array4" where
  "covariance2d xs =
     (let msum = mean_loop xs (0, 0);
          mean = (fst msum / (1.0 * real (length xs)), snd msum / (1.0 * real (length xs)));
          cov = cov_loop mean xs (array4 0 0 0 0);
          cov1 = cov\<lparr>el2 := el1 cov\<rparr>;
          n = real (length xs)
      in array4 ((1.0 / (n - 1.0)) * el0 cov1) ((1.0 / (n - 1.0)) * el1 cov1)
                ((1.0 / (n - 1.0)) * el2 cov1) ((1.0 / (n - 1.0)) * el3 cov1))"

definition scale_array4 :: "Array4 \<Rightarrow> real \<Rightarrow> Array4" where
  "scale_array4 cov f = array4 (el0 cov * f) (el1 cov * f) (el2 cov * f) (el3 cov * f)"

definition init_bandwidth :: "string \<Rightarrow> Kde2d \<Rightarrow> kde_error + Kde2d" where
  "init_bandwidth bandwidth_method k =
     (let cov = covariance2d (kde_data k);
          n_term = (1.0 * real (length (kde_data k))) powr (- 1.0 / (2.0 + 4.0));
          k1 = (if bandwidth_method = ''silverman'' then
                  (let silverman_term = (4 / (2.0 + 2)) powr (- 1.0 / (2.0 + 4.0))
                   in k\<lparr>kde_h := scale_array4 cov
                                    (silverman_term * n_term * silverman_term * n_term)\<rparr>)
                else k\<lparr>kde_h := scale_array4 cov (n_term * n_term)\<rparr>)
      in case invert (kde_h k1) (kde_h k1) of
           Inl e \<Rightarrow> Inl e
         | Inr hinv \<Rightarrow> Inr (k1\<lparr>kde_h_inv := hinv\<rparr>))"

text \<open>The constructor that takes the name of a bandwidth rule.\<close>

definition Kde2d_method :: "(real \<times> real) list \<Rightarrow> string \<Rightarrow> kde_error + Kde2d" where
  "Kde2d_method xs bandwidth_method =
     (if length xs < 2 then Inl Invalid_argument
      else case init_bandwidth bandwidth_method (kde_new xs) of
             Inl e \<Rightarrow> Inl e
           | Inr k \<Rightarrow> pre_calculate_terms k)"

definition kernel :: "Kde2d \<Rightarrow> real \<times> real \<Rightarrow> real" where
  "kernel k diff =
     (let vec_math1_0 = fst diff * el0 (kde_h_inv k) + snd diff * el2 (kde_h_inv k);
          vec_math1_1 = fst diff * el1 (kde_h_inv k) + snd diff * el3 (kde_h_inv k);
          vec_math2 = vec_math1_0 * fst diff + vec_math1_1 * snd diff
      in kde_pow_pi_term k * kde_h_pow_term k * exp ((- 1.0 / 2.0) * vec_math2))"

fun eval_loop :: "Kde2d \<Rightarrow> real \<times> real \<Rightarrow> (real \<times> real) list \<Rightarrow> real \<Rightarrow> real" where
  "eval_loop k point [] acc = acc"
| "eval_loop k point (i # rest) acc =
     eval_loop k point rest (acc + kernel k (fst point - fst i, snd point - snd i))"

definition eval :: "Kde2d \<Rightarrow> real \<times> real \<Rightarrow> real" where
  "eval k point = eval_loop k point (kde_data k) 0"


section \<open>Reference notions the claims are stated with\<close>

text \<open>
  The claim about the estimator speaks of the inverse of the bandwidth matrix and of the
  quadratic form of a matrix at a vector. \<open>is_inverse h m\<close> says that the matrix product of \<open>h\<close>
  and \<open>m\<close> is the identity; \<open>gaussian_term\<close> is one summand of the claim.
\<close>

definition is_inverse :: "Array4 \<Rightarrow> Array4 \<Rightarrow> bool" where
  "is_inverse h m \<longleftrightarrow>
     el0 h * el0 m + el1 h * el2 m = 1 \<and> el0 h * el1 m + el1 h * el3 m = 0 \<and>
     el2 h * el0 m + el3 h * el2 m = 0 \<and> el2 h * el1 m + el3 h * el3 m = 1"

definition quadratic_form :: "Array4 \<Rightarrow> real \<times> real \<Rightarrow> real" where
  "quadratic_form m d =
     fst d * (el0 m * fst d + el1 m * snd d) + snd d * (el2 m * fst d + el3 m * snd d)"

definition gaussian_term :: "Array4 \<Rightarrow> Array4 \<Rightarrow> real \<times> real \<Rightarrow> real \<times> real \<Rightarrow> real" where
  "gaussian_term h m p x =
     kde_determinant h powr (- 1 / 2) * (2 * pi) powr (- 1)
     * exp (- (1 / 2) * quadratic_form m (fst p - fst x, snd p - snd x))"

text \<open>
  \<open>same_tables s r\<close>: the states \<open>s\<close> and \<open>r\<close> differ at most in what scheduling and
  the direction solver write, that is the scheduler's queue, the event handles, the
  sequence counter, the table of acknowledgements of InterClusterPropagation, and the
  status, direction and start time of the node's own wave.
\<close>

definition same_tables :: "State \<Rightarrow> State \<Rightarrow> bool" where
  "same_tables s r \<longleftrightarrow>
     m_currentMobility r = m_currentMobility s \<and> m_neighborList r = m_neighborList s
     \<and> m_clusterList r = m_clusterList s \<and> m_neighborClusterList r = m_neighborClusterList s
     \<and> m_neighborDistroMap r = m_neighborDistroMap s
     \<and> m_neighborClustersSocket r = m_neighborClustersSocket s
     \<and> m_ackDistroMap r = m_ackDistroMap s \<and> m_distroMap r = m_distroMap s
     \<and> m_firstPropagationStartingTime r = m_firstPropagationStartingTime s
     \<and> m_firstPropagationStartNodeId r = m_firstPropagationStartNodeId s
     \<and> m_basePropagationDirection r = m_basePropagationDirection s
     \<and> m_recvCounter r = m_recvCounter s \<and> m_changesCounter r = m_changesCounter s
     \<and> m_formationCounter r = m_formationCounter s
     \<and> m_chElectionEvent r = m_chElectionEvent s
     \<and> m_neighborsListUpdateEvent r = m_neighborsListUpdateEvent s
     \<and> sent_packets r = sent_packets s"

text \<open>
  The claims about the wave speak of the horizontal plane: the dot product and the norm
  of the \<open>x\<close> and \<open>y\<close> components, and the projection of a displacement onto the axis
  of a direction.
\<close>

definition hdot :: "Vector \<Rightarrow> Vector \<Rightarrow> real" where
  "hdot u w = vx u * vx w + vy u * vy w"

definition hnorm :: "Vector \<Rightarrow> real" where
  "hnorm u = sqrt (hdot u u)"

definition horizontal_projection :: "Vector \<Rightarrow> Vector \<Rightarrow> real" where
  "horizontal_projection delta direction = hdot delta direction / hnorm direction"

text \<open>The tests an IntraClusterPropagation frame passes before the handler takes its start time.\<close>

definition intra_accepted ::
  "Config \<Rightarrow> Time \<Rightarrow> node_id \<Rightarrow> IntraClusterPropagationInfo \<Rightarrow> State \<Rightarrow> bool" where
  "intra_accepted K now c info s \<longleftrightarrow>
     clusterId (m_currentMobility s) = c \<and> degree (m_currentMobility s) = CM
     \<and> imsi (m_currentMobility s) = ia_startingNode info
     \<and> (\<not> DISABLE_STARTINGNODE K \<or> isStartingNode (m_currentMobility s))
     \<and> (m_status s = EXCHANGE_DISTRO_MAP \<or> m_status s = PROPAGATION_READY)
     \<and> m_propagationStartTime s \<ge> ia_startingTime info \<and> ia_startingTime info > now"






text \<open>
  The cells of a density map as the direction solver reads them. The map is stored row
  by row, cell \<open>(i, j)\<close> at index \<open>size * i + j\<close>; its position is the position of the
  neighbour's head plus \<open>scale * (j - size div 2)\<close> along \<open>x\<close> and \<open>scale * (i - size div 2)\<close>
  along \<open>y\<close>, at height 0. The qualifying cells are those with a value above 1 that pass
  the sector test of radius 100 around the starting position, in the order of the map.
\<close>

definition cell_position :: "Config \<Rightarrow> Vector \<Rightarrow> int \<Rightarrow> int \<Rightarrow> Vector" where
  "cell_position K b i j =
     Vec (vx b + DISTRO_MAP_SCALE K * real_of_int (j - DISTRO_MAP_SIZE K div 2))
         (vy b + DISTRO_MAP_SCALE K * real_of_int (i - DISTRO_MAP_SIZE K div 2)) 0"

definition cell_of_index :: "Config \<Rightarrow> Vector \<Rightarrow> nat \<Rightarrow> Vector" where
  "cell_of_index K b n =
     cell_position K b (int n div DISTRO_MAP_SIZE K) (int n mod DISTRO_MAP_SIZE K)"

definition qualifying_from ::
  "Config \<Rightarrow> Vector \<Rightarrow> Vector \<Rightarrow> Vector \<Rightarrow> nat \<Rightarrow> real list \<Rightarrow> Vector list" where
  "qualifying_from K p0 v b k ds =
     [cell_of_index K b n. (n, val) \<leftarrow> List.enumerate k ds, val > 1,
        IsInSector p0 (cell_of_index K b n) v 100 (PROPAGATION_THETA K)]"

definition qualifying_cells ::
  "Config \<Rightarrow> Vector \<Rightarrow> Vector \<Rightarrow> Vector \<Rightarrow> real list \<Rightarrow> Vector list" where
  "qualifying_cells K p0 v b ds = qualifying_from K p0 v b 0 ds"

text \<open>
  The outgoing vector towards a cell: the horizontal direction from the starting position
  to the cell, at the horizontal speed of the incoming vector. A cell is nearest among a
  list when no cell of the list is nearer, in the horizontal plane, to the starting
  position.
\<close>

definition outgoing :: "Vector \<Rightarrow> Vector \<Rightarrow> Vector \<Rightarrow> Vector" where
  "outgoing v p0 q =
     Vec (hnorm v * (vx q - vx p0) / hnorm (vsub q p0))
         (hnorm v * (vy q - vy p0) / hnorm (vsub q p0)) 0"

definition nearest_of :: "Vector \<Rightarrow> Vector \<Rightarrow> Vector list \<Rightarrow> bool" where
  "nearest_of p0 q qs \<longleftrightarrow>
     q \<in> set qs \<and> (\<forall>q' \<in> set qs. hnorm (vsub q p0) \<le> hnorm (vsub q' p0))"

text \<open>
  The invariant of the loop over the cells: once a candidate is found, the recorded
  distance and outgoing vector are those of the recorded position.
\<close>

definition tracks :: "Vector \<Rightarrow> Vector \<Rightarrow> Candidate \<Rightarrow> bool" where
  "tracks v p0 c =
     (if candidate_found c
      then candidate_distance c = Some (hnorm (vsub (candidate_pos c) p0))
           \<and> candidate_outcome c = outgoing v p0 (candidate_pos c)
      else candidate_distance c = None)"

text \<open>
  The InterClusterPropagation frame for a chosen cell and the event that sends it to the
  neighbour with the reliable unicast.
\<close>

definition propagation_frame ::
  "State \<Rightarrow> Vector \<Rightarrow> Vector \<Rightarrow> Vector \<Rightarrow> InterClusterPropagationInfo" where
  "propagation_frame s p0 v q =
     \<lparr>ic_startingTime = m_firstPropagationStartingTime s, ic_source = p0,
      ic_distination = q, ic_direction = outgoing v p0 q\<rparr>"

definition propagation_event ::
  "State \<Rightarrow> node_id \<Rightarrow> Vector \<Rightarrow> Vector \<Rightarrow> Vector \<Rightarrow> nat \<Rightarrow> Time \<Rightarrow> 32 word \<Rightarrow> Event" where
  "propagation_event s key p0 v q uid t seq =
     \<lparr>ev_uid = uid, ev_time = t,
      ev_cb = CbSendTo key
        [InterClusterPropagationHeader seq (clusterId (m_currentMobility s))
           (propagation_frame s p0 v q)]
        (AckInterClusterEntry key)\<rparr>"




text \<open>
  The life of an agent after \<^verbatim>\<open>StopClustering\<close> as a run of steps: an item of a packet
  on the broadcast socket, handled by \<^verbatim>\<open>HandleRead\<close>; an item of a packet handed over
  by \<^verbatim>\<open>MetaData::Call\<close>, handled by \<^verbatim>\<open>HandlePacketInterCluster\<close>; and a timer that
  fires. A packet is received item by item, at one time.
\<close>

datatype Step = Receive Time Header | ReceiveInterCluster Time Header | Timer Event

definition step :: "Config \<Rightarrow> MetaData \<Rightarrow> (Time \<Rightarrow> Vector) \<Rightarrow> Step \<Rightarrow> State \<Rightarrow> State" where
  "step K md mob st s =
     (case st of
        Receive now item \<Rightarrow> HandleRead_item K now item s
      | ReceiveInterCluster now item \<Rightarrow> HandlePacketInterCluster_item K now item s
      | Timer ev \<Rightarrow> fire K md mob ev s)"

definition handler_step :: "Step \<Rightarrow> bool" where
  "handler_step st = (case st of Timer ev \<Rightarrow> False | _ \<Rightarrow> True)"

fun run :: "Config \<Rightarrow> MetaData \<Rightarrow> (Time \<Rightarrow> Vector) \<Rightarrow> Step list \<Rightarrow> State \<Rightarrow> State" where
  "run K md mob [] s = s"
| "run K md mob (st # rest) s = run K md mob rest (step K md mob st s)"

text \<open>
  The statuses an agent has from \<^verbatim>\<open>StopClustering\<close> on, and the order of the two
  times at a cluster member: the node's own start time is at most the first starting
  time. The handler of IntraClusterPropagation sets the two times together, and nothing
  else sets the first starting time of a member.
\<close>

definition after_clustering :: "NodeStatus \<Rightarrow> bool" where
  "after_clustering st \<longleftrightarrow>
     st = EXCHANGE_DISTRO_MAP \<or> st = DECIDE_PROPAGATION_PARAM \<or> st = PROPAGATION_READY
     \<or> st = PROPAGATION_RUNNING \<or> st = PROPAGATION_COMPLETE \<or> st = ACTIVE"

definition start_before_first :: "State \<Rightarrow> bool" where
  "start_before_first s \<longleftrightarrow>
     (degree (m_currentMobility s) = CM
      \<longrightarrow> m_propagationStartTime s \<le> m_firstPropagationStartingTime s)"

text \<open>
  The steps the source lets happen after \<^verbatim>\<open>StopClustering\<close>. \<^verbatim>\<open>SendTo\<close> hands a
  packet to the agent of a node through \<^verbatim>\<open>MetaData::Call\<close>. The frames of
  \<^verbatim>\<open>TransmitPropagationDirection\<close> go to the keys of \<^verbatim>\<open>m_neighborDistroMap\<close>, which
  \<^verbatim>\<open>DecidePropagationParam\<close> takes from the density maps that \<^verbatim>\<open>UpdateDistroMap\<close>
  registers, and \<^verbatim>\<open>StopClustering\<close> calls \<^verbatim>\<open>UpdateDistroMap\<close> at cluster heads only;
  an acknowledgement goes to the cluster identifier of the frame received, the head that
  sent it. So an inter-cluster item reaches a cluster head. \<^verbatim>\<open>StopClustering\<close> cancels
  the aging tick and schedules \<^verbatim>\<open>DecidePropagationParam\<close> at cluster heads only, and
  \<^verbatim>\<open>UpdateNeighbors\<close> is scheduled, without delay, in the clustering states alone.
\<close>

definition admissible :: "Step \<Rightarrow> State \<Rightarrow> bool" where
  "admissible st s =
     (case st of
        Receive now item \<Rightarrow> True
      | ReceiveInterCluster now item \<Rightarrow> degree (m_currentMobility s) = CH
      | Timer ev \<Rightarrow>
          ev_cb ev \<noteq> CbUpdateNeighbors \<and> ev_cb ev \<noteq> CbUpdateNeighborList
          \<and> (ev_cb ev = CbDecidePropagationParam \<longrightarrow> degree (m_currentMobility s) = CH))"

fun admissible_run ::
  "Config \<Rightarrow> MetaData \<Rightarrow> (Time \<Rightarrow> Vector) \<Rightarrow> Step list \<Rightarrow> State \<Rightarrow> bool" where
  "admissible_run K md mob [] s = True"
| "admissible_run K md mob (st # rest) s =
     (admissible st s \<and> admissible_run K md mob rest (step K md mob st s))"

text \<open>
  No item received along the run raises the first starting time: each one leaves a value
  less than or equal to the value it found.
\<close>

fun never_raised ::
  "Config \<Rightarrow> MetaData \<Rightarrow> (Time \<Rightarrow> Vector) \<Rightarrow> Step list \<Rightarrow> State \<Rightarrow> bool" where
  "never_raised K md mob [] s = True"
| "never_raised K md mob (st # rest) s =
     ((handler_step st \<longrightarrow>
         m_firstPropagationStartingTime (step K md mob st s) \<le> m_firstPropagationStartingTime s)
      \<and> never_raised K md mob rest (step K md mob st s))"

section \<open>An example configuration and example nodes\<close>

text \<open>
  The values of the reference scenarios: a radio range of 100, a sector angle of
  \<open>\<pi> / 3\<close>, an interval of 0.3 s, a slot of 1 ms, 100 nodes at most, and density maps
  of 5 by 5 cells of width 10. The node is node 1, at rest at the origin.
\<close>

definition K0 :: Config where
  "K0 = \<lparr>OMNI_RANGE = 100, BF_RANGE = 100, PROPAGATION_THETA = pi / 3,
          DISTRO_MAP_SIZE = 5, DISTRO_MAP_SCALE = 10,
          REVERSE_PROPAGATION = False, DISABLE_STARTINGNODE = False,
          m_minimumTdmaSlot = 0.001, m_maxUes = 100, m_interval = 0.3, m_timeWindow = 1,
          node_ident = 1, node_address = 1,
          size_ClusterInfoHeader = 58, size_NeighborClusterInfoHeader = 66\<rparr>"

definition md0 :: MetaData where
  "md0 = \<lparr>md_distroMap = [], md_chInfo = [], md_basePropagationVector = []\<rparr>"

definition mob0 :: "Time \<Rightarrow> Vector" where
  "mob0 t = Vec 0 0 0"

definition mobility0 :: NeighborInfo where
  "mobility0 = \<lparr>ts = 0, imsi = 1, clusterId = 0, position = Vec 0 0 0, address = 1,
                 chAddress = 0, degree = STANDALONE, isStartingNode = False\<rparr>"

definition node0 :: State where
  "node0 = \<lparr>m_status = CLUSTER_INITIALIZATION, m_currentMobility = mobility0,
     m_neighborList = [], m_clusterList = [], m_neighborClusterList = [],
     m_neighborDistroMap = [], m_neighborClustersSocket = [], m_ackDistroMap = [],
     m_ackInterClusterPropagation = [], m_distroMap = [],
     m_firstPropagationStartingTime = 0, m_firstPropagationStartNodeId = 0,
     m_propagationStartTime = 0, m_propagationDirection = Vec 0 0 0,
     m_basePropagationDirection = Vec 0 0 0,
     m_sentCounter = 0, m_recvCounter = 0, m_changesCounter = 0, m_formationCounter = 0,
     m_sendEvent = None, m_chElectionEvent = None, m_neighborsListUpdateEvent = None,
     m_interNodePropagationEvent = None, m_sendingInterClusterPropagationEvent = [],
     sim_queue = [], sim_next_uid = 0, sent_packets = []\<rparr>"

text \<open>
  A node at (20, 0, 0) that has scheduled its start for time 10, and a frame from a
  sender at the origin that announces the wave for time 1 at speed 10, so that the wave
  reaches the node at time 3.
\<close>

definition ready_node :: State where
  "ready_node = ScheduleInterNodePropagation K0 0
     (node0\<lparr>m_status := EXCHANGE_DISTRO_MAP, m_propagationStartTime := 10,
            m_propagationDirection := Vec 10 0 0,
            m_currentMobility := mobility0\<lparr>position := Vec 20 0 0\<rparr>\<rparr>)"

definition early_frame :: InterNodePropagationInfo where
  "early_frame = \<lparr>in_startingTime = 1, in_position = Vec 0 0 0, in_direction = Vec 10 0 0\<rparr>"

definition start_at_10 :: Event where
  "start_at_10 = \<lparr>ev_uid = 0, ev_time = 10, ev_cb = CbStartNodePropagation\<rparr>"

text \<open>Two samples and the bandwidth matrix that \<^verbatim>\<open>UpdateDistroMap\<close> passes.\<close>

definition samples0 :: "(real \<times> real) list" where
  "samples0 = [(0, 0), (1, 0)]"

definition bandwidth0 :: Array4 where
  "bandwidth0 = array4 (1 / 10) 0 0 (1 / 10)"

definition bandwidth0_inverse :: Array4 where
  "bandwidth0_inverse = array4 10 0 0 10"







text \<open>The cluster head 9, at (200, 0, 0): twice the radio range away from the origin.\<close>

definition far_head :: NeighborInfo where
  "far_head = mobility0\<lparr>imsi := 9, clusterId := 9, degree := CH, position := Vec 200 0 0\<rparr>"

text \<open>
  The head of cluster 1 at the origin, with one neighbour cluster, 9, whose head is at
  (50, 5, 0); the same node after it has opened its sockets and entered the exchange of
  the density maps; and the DistroMap frame that the exchange builds for the peer.
\<close>

definition head9 :: NeighborInfo where
  "head9 = mobility0\<lparr>imsi := 9, clusterId := 9, degree := CH, position := Vec 50 5 0,
                      address := 9\<rparr>"

definition head_node :: State where
  "head_node = node0
     \<lparr>m_status := CLUSTER_UPDATE,
      m_currentMobility := mobility0\<lparr>clusterId := 1, degree := CH\<rparr>,
      m_neighborClusterList := [(9, head9)]\<rparr>"

definition exchanging_head :: State where
  "exchanging_head = ExchangeDistroMap (ConnectSocketInterCH head_node)"

definition map_frame :: Packet where
  "map_frame = [DistroMapHeader 0 1 (m_currentMobility head_node) []]"

text \<open>
  Member 2 of cluster 1, at (50, 0, 0); the density map of cluster 9, whose one cell
  above 1 is the cell at (70, 5); the head of cluster 1 with that member and that map;
  and a frame from a cluster behind it that aims at the member.
\<close>

definition member2 :: NeighborInfo where
  "member2 = mobility0\<lparr>imsi := 2, clusterId := 1, degree := CM, position := Vec 50 0 0,
                        address := 2\<rparr>"

definition map9 :: "real list" where
  "map9 = replicate 14 0 @ [2] @ replicate 10 0"

definition head_cluster :: State where
  "head_cluster = head_node
     \<lparr>m_status := EXCHANGE_DISTRO_MAP, m_clusterList := [(2, member2)],
      m_neighborDistroMap := [(9, map9)],
      m_firstPropagationStartingTime := 1000, m_propagationStartTime := 1000\<rparr>"

definition wave_frame :: InterClusterPropagationInfo where
  "wave_frame = \<lparr>ic_startingTime = 2, ic_source = Vec (- 50) 0 0,
                  ic_distination = Vec 50 0 0, ic_direction = Vec 10 0 0\<rparr>"

text \<open>
  Node 1 as a member of cluster 7 whose two times still have their initial value, and a
  run of it: the intra-cluster frame of its head for time 20, the intra-cluster frame of
  its head for time 15, and the start of the wave at the node. The run of the head of
  cluster 1 is the inter-cluster frame \<open>wave_frame\<close> from cluster 9.
\<close>

definition member_node :: State where
  "member_node = node0
     \<lparr>m_status := EXCHANGE_DISTRO_MAP,
      m_currentMobility := mobility0\<lparr>clusterId := 7, degree := CM\<rparr>,
      m_firstPropagationStartingTime := 1000, m_propagationStartTime := 1000\<rparr>"

definition intra_frame :: "Time \<Rightarrow> IntraClusterPropagationInfo" where
  "intra_frame t = \<lparr>ia_startingNode = 1, ia_startingTime = t, ia_direction = Vec 10 0 0\<rparr>"

definition member_run :: "Step list" where
  "member_run =
     [Receive 0 (IntraClusterPropagationHeader 0 7 (intra_frame 20)),
      Receive 2 (IntraClusterPropagationHeader 1 7 (intra_frame 15)),
      Timer \<lparr>ev_uid = 1, ev_time = 15, ev_cb = CbStartNodePropagation\<rparr>]"

definition head_run :: "Step list" where
  "head_run = [ReceiveInterCluster 1 (InterClusterPropagationHeader 0 9 wave_frame)]"





text \<open>
  A head at (100, 5, 0) whose neighbour 9, at (50, 5, 0), has sent a density map with
  three dense cells: one at (70, -15), outside the sector of a wave that travels west, one
  at (50, 5) and one at (70, 5); the cell at (60, 5) has the value 1.
\<close>

definition two_cell_map :: "real list" where
  "two_cell_map = [0, 0, 0, 0, 5,  0, 0, 0, 0, 0,  0, 0, 2, 1, 3,  0, 0, 0, 0, 0,  0, 0, 0, 0, 0]"

definition solver_head :: State where
  "solver_head = head_node
     \<lparr>m_currentMobility := mobility0\<lparr>clusterId := 1, degree := CH, position := Vec 100 5 0\<rparr>,
      m_neighborDistroMap := [(9, two_cell_map)],
      m_firstPropagationStartingTime := 1000\<rparr>"

definition solver_acc0 :: SolverAcc where
  "solver_acc0 = \<lparr>sending_timeslot = 0.1, outcome_sum = Vec 0 0 0, outcome_num = 0,
                   solver_state = solver_head\<rparr>"

definition westward :: Vector where
  "westward = Vec (- 10) 0 0"







section \<open>Basic facts\<close>

lemma Vec_sel [simp]: "vx (Vec a b c) = a" "vy (Vec a b c) = b" "vz (Vec a b c) = c"
  by (simp_all add: Vec_def)

lemma Schedule_status [simp]: "m_status (snd (Schedule now d cb s)) = m_status s"
  by (simp add: Schedule_def)

lemma ScheduleTransmit_status [simp]: "m_status (ScheduleTransmit now d s) = m_status s"
  by (simp add: ScheduleTransmit_def Schedule_def Let_def split: prod.splits)

lemma StartNodePropagation_status:
  "m_status (StartNodePropagation K now pos s) = PROPAGATION_RUNNING"
  by (simp add: StartNodePropagation_def Send_def Let_def socket_Send_def)

lemma sqrt_100: "sqrt 100 = 10"
  using real_sqrt_abs2 [of 10] by simp

lemma sqrt_400: "sqrt 400 = 20"
  using real_sqrt_abs2 [of 20] by simp

lemma ready_node_eq:
  "ready_node = node0\<lparr>m_status := PROPAGATION_READY, m_propagationStartTime := 10,
       m_propagationDirection := Vec 10 0 0,
       m_currentMobility := mobility0\<lparr>position := Vec 20 0 0\<rparr>,
       m_interNodePropagationEvent := Some 0,
       sim_queue := [start_at_10], sim_next_uid := 1\<rparr>"
  by (simp add: ready_node_def ScheduleInterNodePropagation_def Let_def node0_def K0_def
        IsRunning_def Schedule_def start_at_10_def)

lemma early_frame_in_sector:
  "IsInSector (Vec 0 0 0) (Vec 20 0 0) (Vec 10 0 0) 100 (pi / 3)"
  by (simp add: IsInSector_def Let_def vsub_def cos_30 sin_30)

lemma early_frame_handled:
  "handle_InterNodePropagation K0 5 early_frame ready_node
     = ScheduleInterNodePropagation K0 5 (ready_node\<lparr>m_propagationStartTime := 3\<rparr>)"
  by (simp add: handle_InterNodePropagation_def early_frame_def ready_node_eq K0_def Let_def
        node0_def mobility0_def CalculateDistance_def early_frame_in_sector sqrt_100 sqrt_400)

section \<open>Scheduling the start of the wave too late\<close>

text \<open>
  Claim C10, as amended. When \<^verbatim>\<open>ScheduleInterNodePropagation\<close> is called at a time
  strictly later than \<open>m_propagationStartTime\<close>, it sets the status to
  \<^verbatim>\<open>PROPAGATION_READY\<close> and changes nothing else: it schedules no event and cancels
  none. So an event \<^verbatim>\<open>StartNodePropagation\<close> that was pending before the call is
  still pending after it and takes the node to \<^verbatim>\<open>PROPAGATION_RUNNING\<close> when it
  fires; and when none was pending, none is pending after the call.
\<close>

theorem ScheduleInterNodePropagation_late:
  assumes late: "now > m_propagationStartTime s"
  shows "ScheduleInterNodePropagation K now s = s\<lparr>m_status := PROPAGATION_READY\<rparr>
     \<and> sim_queue (ScheduleInterNodePropagation K now s) = sim_queue s
     \<and> m_interNodePropagationEvent (ScheduleInterNodePropagation K now s)
         = m_interNodePropagationEvent s
     \<and> (\<forall>ev \<in> set (sim_queue s). ev_cb ev = CbStartNodePropagation \<longrightarrow>
           ev \<in> set (sim_queue (ScheduleInterNodePropagation K now s))
           \<and> m_status (fire K md mob ev (ScheduleInterNodePropagation K now s))
               = PROPAGATION_RUNNING)
     \<and> ((\<forall>ev \<in> set (sim_queue s). ev_cb ev \<noteq> CbStartNodePropagation) \<longrightarrow>
           (\<forall>ev \<in> set (sim_queue (ScheduleInterNodePropagation K now s)).
              ev_cb ev \<noteq> CbStartNodePropagation))"
proof -
  have r: "ScheduleInterNodePropagation K now s = s\<lparr>m_status := PROPAGATION_READY\<rparr>"
    using late by (simp add: ScheduleInterNodePropagation_def Let_def)
  have f: "\<And>ev. ev_cb ev = CbStartNodePropagation \<Longrightarrow>
             m_status (fire K md mob ev (s\<lparr>m_status := PROPAGATION_READY\<rparr>)) = PROPAGATION_RUNNING"
    by (simp add: fire_def run_callback_def StartNodePropagation_status)
  show ?thesis
    unfolding r using f by simp
qed

text \<open>
  The theorem at the example: the call at time 5 with the start time 3 leaves the event
  for time 10 in the queue, and that event takes the node to \<^verbatim>\<open>PROPAGATION_RUNNING\<close>.
\<close>

theorem ScheduleInterNodePropagation_late_witness:
  "(5::real) > m_propagationStartTime (ready_node\<lparr>m_propagationStartTime := 3\<rparr>)
   \<and> ScheduleInterNodePropagation K0 5 (ready_node\<lparr>m_propagationStartTime := 3\<rparr>)
       = ready_node\<lparr>m_propagationStartTime := 3, m_status := PROPAGATION_READY\<rparr>
   \<and> start_at_10 \<in> set (sim_queue
         (ScheduleInterNodePropagation K0 5 (ready_node\<lparr>m_propagationStartTime := 3\<rparr>)))
   \<and> m_status (fire K0 md0 mob0 start_at_10
         (ScheduleInterNodePropagation K0 5 (ready_node\<lparr>m_propagationStartTime := 3\<rparr>)))
       = PROPAGATION_RUNNING"
proof -
  have late: "(5::real) > m_propagationStartTime (ready_node\<lparr>m_propagationStartTime := 3\<rparr>)"
    by simp
  have q: "start_at_10 \<in> set (sim_queue (ready_node\<lparr>m_propagationStartTime := 3\<rparr>))"
    "ev_cb start_at_10 = CbStartNodePropagation"
    by (simp_all add: ready_node_eq start_at_10_def)
  note t = ScheduleInterNodePropagation_late [OF late, of K0 md0 mob0]
  have a: "ScheduleInterNodePropagation K0 5 (ready_node\<lparr>m_propagationStartTime := 3\<rparr>)
       = ready_node\<lparr>m_propagationStartTime := 3, m_status := PROPAGATION_READY\<rparr>"
    using t by simp
  have b: "start_at_10 \<in> set (sim_queue
         (ScheduleInterNodePropagation K0 5 (ready_node\<lparr>m_propagationStartTime := 3\<rparr>)))
     \<and> m_status (fire K0 md0 mob0 start_at_10
         (ScheduleInterNodePropagation K0 5 (ready_node\<lparr>m_propagationStartTime := 3\<rparr>)))
       = PROPAGATION_RUNNING"
    using t q by blast
  show ?thesis using late a b by blast
qed

text \<open>
  The claim as written fails: the node of the example receives the early frame at time
  5, which moves its start time to 3 and calls \<^verbatim>\<open>ScheduleInterNodePropagation\<close> too
  late. The event scheduled before for time 10 is still in the queue, and when it runs,
  with no frame in between, the node is in \<^verbatim>\<open>PROPAGATION_RUNNING\<close>.
\<close>

theorem late_schedule_still_runs:
  "handle_InterNodePropagation K0 5 early_frame ready_node
     = ScheduleInterNodePropagation K0 5 (ready_node\<lparr>m_propagationStartTime := 3\<rparr>)
   \<and> m_propagationStartTime (ready_node\<lparr>m_propagationStartTime := 3\<rparr>) < 5
   \<and> sim_queue (ScheduleInterNodePropagation K0 5 (ready_node\<lparr>m_propagationStartTime := 3\<rparr>))
       = [start_at_10]
   \<and> m_status (fire K0 md0 mob0 start_at_10
        (ScheduleInterNodePropagation K0 5 (ready_node\<lparr>m_propagationStartTime := 3\<rparr>)))
       = PROPAGATION_RUNNING"
proof (intro conjI)
  show "handle_InterNodePropagation K0 5 early_frame ready_node
          = ScheduleInterNodePropagation K0 5 (ready_node\<lparr>m_propagationStartTime := 3\<rparr>)"
    by (rule early_frame_handled)
  show "m_propagationStartTime (ready_node\<lparr>m_propagationStartTime := 3\<rparr>) < 5"
    by simp
  show "sim_queue (ScheduleInterNodePropagation K0 5 (ready_node\<lparr>m_propagationStartTime := 3\<rparr>))
          = [start_at_10]"
    by (simp add: ScheduleInterNodePropagation_def Let_def ready_node_eq)
  show "m_status (fire K0 md0 mob0 start_at_10
          (ScheduleInterNodePropagation K0 5 (ready_node\<lparr>m_propagationStartTime := 3\<rparr>)))
          = PROPAGATION_RUNNING"
    by (simp add: fire_def run_callback_def start_at_10_def StartNodePropagation_status)
qed


section \<open>The estimator returns the raw sum of the kernels\<close>

lemma array4_sel [simp]:
  "el0 (array4 a b c d) = a" "el1 (array4 a b c d) = b"
  "el2 (array4 a b c d) = c" "el3 (array4 a b c d) = d"
  by (simp_all add: array4_def)

lemma eval_loop_sum:
  "eval_loop k p xs acc = acc + sum_list (map (\<lambda>x. kernel k (fst p - fst x, snd p - snd x)) xs)"
  by (induction xs arbitrary: acc) simp_all

lemma inverse_unique:
  assumes inv: "is_inverse h m" and det: "kde_determinant h \<noteq> 0"
  shows "el0 m = el3 h / kde_determinant h" "el1 m = - el1 h / kde_determinant h"
        "el2 m = - el2 h / kde_determinant h" "el3 m = el0 h / kde_determinant h"
proof -
  from inv have e1: "el0 h * el0 m + el1 h * el2 m = 1"
    and e2: "el0 h * el1 m + el1 h * el3 m = 0"
    and e3: "el2 h * el0 m + el3 h * el2 m = 0"
    and e4: "el2 h * el1 m + el3 h * el3 m = 1"
    by (simp_all add: is_inverse_def)
  have a0: "el0 m * kde_determinant h = el3 h"
    unfolding kde_determinant_def using e1 e3 by algebra
  have a1: "el1 m * kde_determinant h = - el1 h"
    unfolding kde_determinant_def using e2 e4 by algebra
  have a2: "el2 m * kde_determinant h = - el2 h"
    unfolding kde_determinant_def using e1 e3 by algebra
  have a3: "el3 m * kde_determinant h = el0 h"
    unfolding kde_determinant_def using e2 e4 by algebra
  show "el0 m = el3 h / kde_determinant h" using a0 det by (simp add: field_simps)
  show "el1 m = - el1 h / kde_determinant h" using a1 det by (simp add: field_simps)
  show "el2 m = - el2 h / kde_determinant h" using a2 det by (simp add: field_simps)
  show "el3 m = el0 h / kde_determinant h" using a3 det by (simp add: field_simps)
qed

lemma Kde2d_bandwidth_cases:
  "Kde2d_bandwidth xs h =
     (if length xs < 2 then Inl Invalid_argument
      else if kde_determinant h = 0 then Inl Singular_data_matrix
      else if kde_determinant h < 0 then Inl Math_domain_error
      else Inr \<lparr>kde_data = xs, kde_h = h,
                kde_h_inv = array4 (el3 h / kde_determinant h) (- 1 * el1 h / kde_determinant h)
                              (- 1 * el2 h / kde_determinant h) (el0 h / kde_determinant h),
                kde_pow_pi_term = (2 * pi) powr (- 1),
                kde_h_pow_term = kde_determinant h powr (- 1 / 2)\<rparr>)"
  by (simp add: Kde2d_bandwidth_def set_bandwidth_def invert_def pre_calculate_terms_def
        kde_new_def Let_def arctan_one)

lemma kernel_gaussian:
  assumes "is_inverse h m" "kde_determinant h \<noteq> 0"
    "kde_h_inv k = array4 (el3 h / kde_determinant h) (- 1 * el1 h / kde_determinant h)
                              (- 1 * el2 h / kde_determinant h) (el0 h / kde_determinant h)"
    "kde_pow_pi_term k = (2 * pi) powr (- 1)" "kde_h_pow_term k = kde_determinant h powr (- 1 / 2)"
  shows "kernel k (fst p - fst x, snd p - snd x) = gaussian_term h m p x"
proof -
  have hm: "el0 (kde_h_inv k) = el0 m" "el1 (kde_h_inv k) = el1 m"
    "el2 (kde_h_inv k) = el2 m" "el3 (kde_h_inv k) = el3 m"
    using inverse_unique [OF assms(1,2)] assms(3) by simp_all
  have "((fst p - fst x) * el0 m + (snd p - snd x) * el2 m) * (fst p - fst x)
        + ((fst p - fst x) * el1 m + (snd p - snd x) * el3 m) * (snd p - snd x)
        = quadratic_form m (fst p - fst x, snd p - snd x)"
    by (simp add: quadratic_form_def algebra_simps)
  then show ?thesis
    by (simp add: kernel_def gaussian_term_def Let_def hm assms(4,5))
qed

text \<open>
  Claim C9. For at least two samples and a bandwidth matrix \<open>h\<close> that is not singular,
  with \<open>m\<close> its inverse: the constructor yields an estimator, and \<^verbatim>\<open>eval\<close> at a
  point \<open>p\<close> returns the sum over the samples \<open>x\<close> of \<open>gaussian_term h m p x\<close>, the
  determinant to the power \<open>- 1 / 2\<close> times \<open>2 \<pi>\<close> to the power \<open>- 1\<close> times the
  exponential of minus half the quadratic form of \<open>m\<close> at \<open>p - x\<close>; the sum is not
  divided by the number of samples. The one case without an estimator is a negative
  determinant, which has no power \<open>- 1 / 2\<close>: there the constructor raises the domain
  error.
\<close>

theorem eval_raw_sum:
  assumes "2 \<le> length xs" "kde_determinant h \<noteq> 0" "is_inverse h m"
  shows "case Kde2d_bandwidth xs h of
           Inr k \<Rightarrow> eval k p = sum_list (map (gaussian_term h m p) xs)
         | Inl e \<Rightarrow> e = Math_domain_error \<and> kde_determinant h < 0"
proof (cases "kde_determinant h < 0")
  case True
  then show ?thesis using assms by (simp add: Kde2d_bandwidth_cases)
next
  case False
  let ?k = "\<lparr>kde_data = xs, kde_h = h,
                kde_h_inv = array4 (el3 h / kde_determinant h) (- 1 * el1 h / kde_determinant h)
                              (- 1 * el2 h / kde_determinant h) (el0 h / kde_determinant h),
                kde_pow_pi_term = (2 * pi) powr (- 1),
                kde_h_pow_term = kde_determinant h powr (- 1 / 2)\<rparr>"
  have k: "Kde2d_bandwidth xs h = Inr ?k"
    using False assms by (simp add: Kde2d_bandwidth_cases)
  have "\<And>x. kernel ?k (fst p - fst x, snd p - snd x) = gaussian_term h m p x"
    by (rule kernel_gaussian [OF assms(3,2)]) simp_all
  then have "eval ?k p = sum_list (map (gaussian_term h m p) xs)"
    by (simp add: eval_def eval_loop_sum)
  then show ?thesis by (simp only: k sum.case)
qed


theorem eval_raw_sum_witness:
  "2 \<le> length samples0 \<and> kde_determinant bandwidth0 \<noteq> 0
   \<and> is_inverse bandwidth0 bandwidth0_inverse
   \<and> (\<exists>k. Kde2d_bandwidth samples0 bandwidth0 = Inr k
          \<and> eval k (0, 0) = sum_list (map (gaussian_term bandwidth0 bandwidth0_inverse (0, 0)) samples0))"
proof -
  have l: "2 \<le> length samples0" by (simp add: samples0_def)
  have d: "kde_determinant bandwidth0 \<noteq> 0" by (simp add: bandwidth0_def kde_determinant_def)
  have i: "is_inverse bandwidth0 bandwidth0_inverse"
    by (simp add: is_inverse_def bandwidth0_def bandwidth0_inverse_def)
  have "\<not> kde_determinant bandwidth0 < 0" by (simp add: bandwidth0_def kde_determinant_def)
  then obtain k where k: "Kde2d_bandwidth samples0 bandwidth0 = Inr k"
    using l d by (simp add: Kde2d_bandwidth_cases)
  show ?thesis
    using eval_raw_sum [OF l d i, of "(0, 0)"] l d i k by simp
qed

section \<open>Electing the cluster head\<close>

lemma ScheduleTransmit_eq:
  "ScheduleTransmit now dt s =
     (if IsRunning (m_sendEvent s) s then s
      else s\<lparr>sim_queue := sim_queue s @ [\<lparr>ev_uid = sim_next_uid s, ev_time = now + dt, ev_cb = CbSend\<rparr>],
             sim_next_uid := Suc (sim_next_uid s), m_sendEvent := Some (sim_next_uid s)\<rparr>)"
  by (simp add: ScheduleTransmit_def IsExpired_def Schedule_def)

















section \<open>Beacons from beyond the radio range\<close>

lemma sqrt_40000: "sqrt 40000 = 200"
  using real_sqrt_abs2 [of 200] by simp

text \<open>
  A ClusterInfo or FormCluster beacon from a position at the radio range or beyond
  changes nothing but the counter of received items.
\<close>

lemma far_ClusterInfo_dropped:
  "beacon_range (position (m_currentMobility s)) (position otherInfo) \<ge> OMNI_RANGE K \<Longrightarrow>
     HandleRead_item K now (ClusterInfoHeader q otherInfo) s = s\<lparr>m_recvCounter := m_recvCounter s + 1\<rparr>"
  by (simp add: HandleRead_item_def handle_ClusterInfo_def)

lemma far_FormCluster_dropped:
  "beacon_range (position (m_currentMobility s)) (position otherInfo) \<ge> OMNI_RANGE K \<Longrightarrow>
     HandleRead_item K now (FormClusterHeader q otherInfo) s = s\<lparr>m_recvCounter := m_recvCounter s + 1\<rparr>"
  by (simp add: HandleRead_item_def handle_FormCluster_def)

text \<open>
  An InitiateCluster beacon from such a position is not dropped. In
  \<^verbatim>\<open>CLUSTER_INITIALIZATION\<close> the handler has set the status before it checks the
  range; in every other state it checks no range and records the sender's cluster.
\<close>

lemma far_InitiateCluster_initialization:
  "beacon_range (position (m_currentMobility s)) (position chInfo) \<ge> OMNI_RANGE K \<Longrightarrow>
   m_status s = CLUSTER_INITIALIZATION \<Longrightarrow>
     HandleRead_item K now (InitiateClusterHeader q c chInfo) s
       = s\<lparr>m_recvCounter := m_recvCounter s + 1, m_status := CLUSTER_HEAD_ELECTION\<rparr>"
  by (simp add: HandleRead_item_def handle_InitiateCluster_def Let_def)

lemma far_InitiateCluster_other_status:
  "m_status s \<noteq> CLUSTER_INITIALIZATION \<Longrightarrow>
     HandleRead_item K now (InitiateClusterHeader q c chInfo) s
       = update_NeighborClusterList now chInfo (s\<lparr>m_recvCounter := m_recvCounter s + 1\<rparr>)"
  by (simp add: HandleRead_item_def handle_InitiateCluster_def Let_def)

text \<open>
  Claim C6 fails on the code for InitiateCluster. The node at the origin, in
  \<^verbatim>\<open>CLUSTER_INITIALIZATION\<close>, receives the beacon of head 9 from distance 200, with a
  radio range of 100, and is left in \<^verbatim>\<open>CLUSTER_HEAD_ELECTION\<close>; the same node in
  \<^verbatim>\<open>CLUSTER_UPDATE\<close> enters cluster 9 in its NeighborClusterList.
\<close>

theorem far_InitiateCluster_not_dropped:
  "beacon_range (position (m_currentMobility node0)) (position far_head) \<ge> OMNI_RANGE K0
   \<and> m_status node0 = CLUSTER_INITIALIZATION
   \<and> m_status (HandleRead_item K0 1 (InitiateClusterHeader 0 9 far_head) node0)
       = CLUSTER_HEAD_ELECTION
   \<and> m_neighborClusterList (node0\<lparr>m_status := CLUSTER_UPDATE\<rparr>) = []
   \<and> m_neighborClusterList
         (HandleRead_item K0 1 (InitiateClusterHeader 0 9 far_head)
            (node0\<lparr>m_status := CLUSTER_UPDATE\<rparr>))
       = [(9, far_head\<lparr>ts := 1, address := 0\<rparr>)]"
proof -
  have r: "beacon_range (position (m_currentMobility node0)) (position far_head) \<ge> OMNI_RANGE K0"
    by (simp add: beacon_range_def node0_def mobility0_def far_head_def K0_def sqrt_40000)
  have i: "m_status node0 = CLUSTER_INITIALIZATION" by (simp add: node0_def)
  have u: "m_status (node0\<lparr>m_status := CLUSTER_UPDATE\<rparr>) \<noteq> CLUSTER_INITIALIZATION" by simp
  show ?thesis
    using r i
    by (simp add: far_InitiateCluster_initialization [OF r i]
          far_InitiateCluster_other_status [OF u] update_NeighborClusterList_def Let_def
          map_put_def map_find_def)
       (simp add: node0_def mobility0_def far_head_def)
qed

section \<open>Tables and frame conditions\<close>

lemma map_find_insert:
  "map_find k m = None \<Longrightarrow> map_find k' (map_insert k v m) = (if k' = k then Some v else map_find k' m)"
  by (induction m) (auto simp: map_find_def)

lemma map_find_assign_other:
  "k' \<noteq> k \<Longrightarrow> map_find k' (map_assign k v m) = map_find k' m"
  by (induction m) (auto simp: map_find_def map_assign_def)

lemma map_find_assign_same:
  "map_find k m \<noteq> None \<Longrightarrow> map_find k (map_assign k v m) = Some v"
proof (induction m)
  case Nil
  then show ?case by (simp add: map_find_def)
next
  case (Cons e m)
  obtain a b where e: "e = (a, b)" by (cases e)
  show ?case
  proof (cases "a = k")
    case True
    then show ?thesis by (simp add: map_find_def map_assign_def e)
  next
    case False
    then have "map_find k m \<noteq> None" using Cons.prems by (simp add: map_find_def e)
    then have "map_find k (map_assign k v m) = Some v" by (rule Cons.IH)
    then show ?thesis using False by (simp add: map_find_def map_assign_def e)
  qed
qed

lemma map_find_assign:
  "map_find k m \<noteq> None \<Longrightarrow> map_find k' (map_assign k v m) = (if k' = k then Some v else map_find k' m)"
  by (simp add: map_find_assign_other map_find_assign_same)

lemma map_find_put: "map_find k' (map_put k v m) = (if k' = k then Some v else map_find k' m)"
  by (simp add: map_put_def map_find_insert map_find_assign)

lemma map_find_None_iff: "(map_find k m = None) = (k \<notin> fst ` set m)"
  by (simp add: map_find_def map_of_eq_None_iff)

lemma same_tablesD:
  assumes "same_tables s r"
  shows "m_currentMobility r = m_currentMobility s" "m_neighborList r = m_neighborList s"
    "m_clusterList r = m_clusterList s" "m_neighborClusterList r = m_neighborClusterList s"
    "m_neighborDistroMap r = m_neighborDistroMap s"
    "m_neighborClustersSocket r = m_neighborClustersSocket s"
    "m_ackDistroMap r = m_ackDistroMap s" "m_distroMap r = m_distroMap s"
    "m_firstPropagationStartingTime r = m_firstPropagationStartingTime s"
    "m_firstPropagationStartNodeId r = m_firstPropagationStartNodeId s"
    "m_basePropagationDirection r = m_basePropagationDirection s"
    "m_recvCounter r = m_recvCounter s" "m_changesCounter r = m_changesCounter s"
    "m_formationCounter r = m_formationCounter s"
    "m_chElectionEvent r = m_chElectionEvent s"
    "m_neighborsListUpdateEvent r = m_neighborsListUpdateEvent s"
    "sent_packets r = sent_packets s"
  using assms by (simp_all add: same_tables_def)

lemma same_tables_refl [simp]: "same_tables s s"
  by (simp add: same_tables_def)

lemma same_tables_trans: "same_tables s r \<Longrightarrow> same_tables r t \<Longrightarrow> same_tables s t"
  by (simp add: same_tables_def)

lemma same_tables_Schedule: "same_tables s (snd (Schedule now d cb s))"
  by (simp add: same_tables_def Schedule_def)

lemmas Schedule_frame [simp] = same_tablesD [OF same_tables_Schedule]

lemma same_tables_Cancel: "same_tables s (Cancel e s)"
  by (cases e) (simp_all add: same_tables_def Cancel_def)

lemmas Cancel_frame [simp] = same_tablesD [OF same_tables_Cancel]

lemma same_tables_cancel_running: "same_tables s (cancel_running es s)"
proof (induction es arbitrary: s)
  case Nil
  show ?case by simp
next
  case (Cons e es)
  have "same_tables s (if IsRunning e s then Cancel e s else s)"
    by (simp add: same_tables_Cancel)
  then show ?case
    using Cons.IH [of "if IsRunning e s then Cancel e s else s"]
    by (auto intro: same_tables_trans)
qed

lemmas cancel_running_frame [simp] = same_tablesD [OF same_tables_cancel_running]

lemma same_tables_ScheduleTransmit: "same_tables s (ScheduleTransmit now dt s)"
  by (simp add: same_tables_def ScheduleTransmit_eq)

lemmas ScheduleTransmit_frame [simp] = same_tablesD [OF same_tables_ScheduleTransmit]

lemma same_tables_ScheduleInterNodePropagation:
  "same_tables s (ScheduleInterNodePropagation K now s)"
  by (simp add: same_tables_def ScheduleInterNodePropagation_def Let_def Schedule_def split: prod.splits)

lemmas ScheduleInterNodePropagation_frame [simp] =
  same_tablesD [OF same_tables_ScheduleInterNodePropagation]

lemma same_tables_solver_step:
  "same_tables (solver_state acc) (solver_state (solver_step K now p v entry acc))"
  by (simp add: same_tables_def solver_step_def Let_def Schedule_def split: prod.splits)

lemma same_tables_solver_loop:
  "same_tables (solver_state acc) (solver_state (solver_loop K now p v m acc))"
proof (induction m arbitrary: acc)
  case Nil
  show ?case by simp
next
  case (Cons entry m)
  show ?case
    using same_tables_solver_step [of acc K now p v entry]
      Cons.IH [of "solver_step K now p v entry acc"]
    by (auto intro: same_tables_trans)
qed

lemmas solver_loop_frame [simp] = same_tablesD [OF same_tables_solver_loop]

lemma same_tables_TransmitPropagationDirection:
  "same_tables s (TransmitPropagationDirection K now ident v s)"
  by (simp add: same_tables_def TransmitPropagationDirection_def Let_def split: option.splits)

lemmas TransmitPropagationDirection_frame [simp] =
  same_tablesD [OF same_tables_TransmitPropagationDirection]


section \<open>Density exchange and reliable unicast\<close>

lemma ExchangeDistroMap_loop_other:
  "m_status (ExchangeDistroMap_loop peers s) = m_status s"
  "sent_packets (ExchangeDistroMap_loop peers s) = sent_packets s"
  "sim_queue (ExchangeDistroMap_loop peers s) = sim_queue s"
  by (induction peers s rule: ExchangeDistroMap_loop.induct) simp_all

lemma ExchangeDistroMap_loop_ack:
  "map_find peer (m_ackDistroMap (ExchangeDistroMap_loop peers s))
     = (if peer \<in> fst ` set peers then Some False else map_find peer (m_ackDistroMap s))"
  by (induction peers s rule: ExchangeDistroMap_loop.induct) (auto simp: map_find_put)

lemma SendTo_acknowledged:
  "deref_ack ack s = Some True \<Longrightarrow> SendTo K now peer packet ack s = s"
  by (cases ack) (auto simp: SendTo_def deref_ack_def)

lemma deref_ack_MetaData_Call [simp]:
  "deref_ack ack (MetaData_Call peer packet s) = deref_ack ack s"
  by (simp add: deref_ack_def MetaData_Call_def split: AckRef.splits)

lemma SendTo_outstanding:
  "deref_ack ack s = Some False \<Longrightarrow> map_find peer (m_neighborClustersSocket s) \<noteq> None \<Longrightarrow>
     SendTo K now peer packet ack s =
       s\<lparr>sent_packets := sent_packets s @ [(ToCluster peer, packet)],
         sim_queue := sim_queue s @
           [\<lparr>ev_uid = sim_next_uid s, ev_time = now + m_minimumTdmaSlot K * 1000,
             ev_cb = CbSendTo peer packet ack\<rparr>],
         sim_next_uid := Suc (sim_next_uid s)\<rparr>"
  by (cases ack) (auto simp: SendTo_def deref_ack_def Let_def MetaData_Call_def Schedule_def)

lemma SendTo_once:
  "map_find peer (m_neighborClustersSocket s) \<noteq> None \<Longrightarrow>
     SendTo K now peer packet NullAck s = s\<lparr>sent_packets := sent_packets s @ [(ToCluster peer, packet)]\<rparr>"
  by (auto simp: SendTo_def Let_def MetaData_Call_def)

lemma SendTo_no_socket:
  "map_find peer (m_neighborClustersSocket s) = None \<Longrightarrow> SendTo K now peer packet ack s = s"
  by (simp add: SendTo_def)

lemma handle_DistroMap_eq:
  "handle_DistroMap now ident otherInfo otherDistroMap s =
     s\<lparr>m_neighborClusterList := map_put ident otherInfo (m_neighborClusterList s),
       m_neighborDistroMap := map_put ident otherDistroMap (m_neighborDistroMap s),
       m_sentCounter := m_sentCounter s + 1,
       sim_queue := sim_queue s @
         [\<lparr>ev_uid = sim_next_uid s, ev_time = now + 0,
           ev_cb = CbSendTo ident
                     [AckHeader (m_sentCounter s) (clusterId (m_currentMobility s)) AckOfDistroMap]
                     NullAck\<rparr>],
       sim_next_uid := Suc (sim_next_uid s)\<rparr>"
  by (simp add: handle_DistroMap_def send_Ack_def Let_def Schedule_def)


lemma complete_distro_map_ack [simp]:
  "m_ackDistroMap (complete_distro_map md ids s) = m_ackDistroMap s"
  by (induction ids arbitrary: s) (simp_all add: Let_def split: option.splits)

lemma DecidePropagationParam_ack:
  "m_ackDistroMap (DecidePropagationParam K md now s)
     = map (\<lambda>(k, b). if b = False then (k, True) else (k, b)) (m_ackDistroMap s)"
  by (simp add: DecidePropagationParam_def Let_def split: prod.splits option.splits)

lemma DecidePropagationParam_all_acknowledged:
  "e \<in> set (m_ackDistroMap (DecidePropagationParam K md now s)) \<Longrightarrow> snd e = True"
  by (auto simp: DecidePropagationParam_ack)

lemma map_find_all_True:
  "\<forall>e \<in> set m. snd e = True \<Longrightarrow> map_find k m = None \<or> map_find k m = Some True"
  by (induction m) (auto simp: map_find_def)

lemma ConnectSocketInterCH_loop_other:
  "sent_packets (ConnectSocketInterCH_loop peers s) = sent_packets s"
  "sim_queue (ConnectSocketInterCH_loop peers s) = sim_queue s"
  "m_ackDistroMap (ConnectSocketInterCH_loop peers s) = m_ackDistroMap s"
  "m_neighborClusterList (ConnectSocketInterCH_loop peers s) = m_neighborClusterList s"
  by (induction peers s rule: ConnectSocketInterCH_loop.induct) simp_all

lemma ConnectSocketInterCH_loop_sockets:
  "(map_find peer (m_neighborClustersSocket (ConnectSocketInterCH_loop peers s)) \<noteq> None)
     = (peer \<in> fst ` set peers \<or> map_find peer (m_neighborClustersSocket s) \<noteq> None)"
  by (induction peers s rule: ConnectSocketInterCH_loop.induct) (auto simp: map_find_put)

lemma entering_exchange:
  assumes "peer \<in> fst ` set (m_neighborClusterList s)"
  shows "map_find peer (m_neighborClustersSocket (ConnectSocketInterCH s)) \<noteq> None"
    and "map_find peer (m_ackDistroMap
           (ExchangeDistroMap ((ConnectSocketInterCH s)\<lparr>m_distroMap := d\<rparr>))) = Some False"
proof -
  show k: "map_find peer (m_neighborClustersSocket (ConnectSocketInterCH s)) \<noteq> None"
    unfolding ConnectSocketInterCH_def
    using assms ConnectSocketInterCH_loop_sockets [of peer "m_neighborClusterList s" s] by blast
  then have "peer \<in> fst ` set (m_neighborClustersSocket (ConnectSocketInterCH s))"
    by (metis map_find_None_iff)
  then show "map_find peer (m_ackDistroMap
           (ExchangeDistroMap ((ConnectSocketInterCH s)\<lparr>m_distroMap := d\<rparr>))) = Some False"
    by (simp add: ExchangeDistroMap_def ExchangeDistroMap_loop_ack)
qed

lemma entering_exchange_silent:
  "sent_packets (ExchangeDistroMap ((ConnectSocketInterCH s)\<lparr>m_distroMap := d\<rparr>)) = sent_packets s"
  "sim_queue (ExchangeDistroMap ((ConnectSocketInterCH s)\<lparr>m_distroMap := d\<rparr>)) = sim_queue s"
  "m_status (ExchangeDistroMap ((ConnectSocketInterCH s)\<lparr>m_distroMap := d\<rparr>)) = EXCHANGE_DISTRO_MAP"
  by (simp_all add: ExchangeDistroMap_def ExchangeDistroMap_loop_other ConnectSocketInterCH_def
        ConnectSocketInterCH_loop_other)

text \<open>
  Claim C5, as amended. On entering \<^verbatim>\<open>EXCHANGE_DISTRO_MAP\<close>, that is
  \<^verbatim>\<open>ConnectSocketInterCH\<close>, then \<^verbatim>\<open>UpdateDistroMap\<close>, which writes the node's own
  density map \<open>d\<close>, then \<^verbatim>\<open>ExchangeDistroMap\<close>, every peer of the neighbour cluster
  list has a socket and its acknowledgement entry is false, and no frame has been sent
  and no event scheduled. \<^verbatim>\<open>ExchangeDistroMap\<close> alone does the same for every peer
  that has a socket. \<^verbatim>\<open>DecidePropagationParam\<close> leaves every entry of the
  acknowledgement table true. \<^verbatim>\<open>SendTo\<close> with an entry that is true does nothing;
  with an entry that is false and a socket to the peer it sends the packet and schedules
  itself again after \<open>m_minimumTdmaSlot * 1000\<close>; with the null pointer it sends once;
  without a socket it does nothing. A DistroMap frame received updates the two tables of
  the sender and schedules exactly one \<^verbatim>\<open>SendTo\<close> of an Ack, with the null pointer,
  to the sender.
\<close>

theorem density_exchange:
  "(\<forall>peer \<in> fst ` set (m_neighborClusterList s). \<forall>d.
       map_find peer (m_neighborClustersSocket (ConnectSocketInterCH s)) \<noteq> None
       \<and> map_find peer (m_ackDistroMap
             (ExchangeDistroMap ((ConnectSocketInterCH s)\<lparr>m_distroMap := d\<rparr>))) = Some False)
   \<and> (\<forall>d. m_status (ExchangeDistroMap ((ConnectSocketInterCH s)\<lparr>m_distroMap := d\<rparr>))
             = EXCHANGE_DISTRO_MAP
          \<and> sent_packets (ExchangeDistroMap ((ConnectSocketInterCH s)\<lparr>m_distroMap := d\<rparr>))
             = sent_packets s
          \<and> sim_queue (ExchangeDistroMap ((ConnectSocketInterCH s)\<lparr>m_distroMap := d\<rparr>))
             = sim_queue s)
   \<and> m_status (ExchangeDistroMap s) = EXCHANGE_DISTRO_MAP
   \<and> sent_packets (ExchangeDistroMap s) = sent_packets s
   \<and> sim_queue (ExchangeDistroMap s) = sim_queue s
   \<and> (\<forall>peer \<in> fst ` set (m_neighborClustersSocket s).
         map_find peer (m_ackDistroMap (ExchangeDistroMap s)) = Some False)
   \<and> (\<forall>e \<in> set (m_ackDistroMap (DecidePropagationParam K md now s)). snd e = True)
   \<and> (deref_ack ack s = Some True \<longrightarrow> SendTo K now peer packet ack s = s)
   \<and> (deref_ack ack s = Some False \<longrightarrow> map_find peer (m_neighborClustersSocket s) \<noteq> None \<longrightarrow>
         SendTo K now peer packet ack s =
           s\<lparr>sent_packets := sent_packets s @ [(ToCluster peer, packet)],
             sim_queue := sim_queue s @
               [\<lparr>ev_uid = sim_next_uid s, ev_time = now + m_minimumTdmaSlot K * 1000,
                 ev_cb = CbSendTo peer packet ack\<rparr>],
             sim_next_uid := Suc (sim_next_uid s)\<rparr>)
   \<and> handle_DistroMap now peer otherInfo otherDistroMap s =
         s\<lparr>m_neighborClusterList := map_put peer otherInfo (m_neighborClusterList s),
           m_neighborDistroMap := map_put peer otherDistroMap (m_neighborDistroMap s),
           m_sentCounter := m_sentCounter s + 1,
           sim_queue := sim_queue s @
             [\<lparr>ev_uid = sim_next_uid s, ev_time = now + 0,
               ev_cb = CbSendTo peer
                         [AckHeader (m_sentCounter s) (clusterId (m_currentMobility s)) AckOfDistroMap]
                         NullAck\<rparr>],
           sim_next_uid := Suc (sim_next_uid s)\<rparr>
   \<and> (map_find peer (m_neighborClustersSocket s) \<noteq> None \<longrightarrow>
         SendTo K now peer packet NullAck s
           = s\<lparr>sent_packets := sent_packets s @ [(ToCluster peer, packet)]\<rparr>)
   \<and> (map_find peer (m_neighborClustersSocket s) = None \<longrightarrow>
         SendTo K now peer packet ack s = s)"
proof -
  have a: "\<forall>peer \<in> fst ` set (m_neighborClusterList s). \<forall>d.
       map_find peer (m_neighborClustersSocket (ConnectSocketInterCH s)) \<noteq> None
       \<and> map_find peer (m_ackDistroMap
             (ExchangeDistroMap ((ConnectSocketInterCH s)\<lparr>m_distroMap := d\<rparr>))) = Some False"
    using entering_exchange by blast
  have b: "\<forall>d. m_status (ExchangeDistroMap ((ConnectSocketInterCH s)\<lparr>m_distroMap := d\<rparr>))
             = EXCHANGE_DISTRO_MAP
          \<and> sent_packets (ExchangeDistroMap ((ConnectSocketInterCH s)\<lparr>m_distroMap := d\<rparr>))
             = sent_packets s
          \<and> sim_queue (ExchangeDistroMap ((ConnectSocketInterCH s)\<lparr>m_distroMap := d\<rparr>))
             = sim_queue s"
    by (simp add: entering_exchange_silent)
  have c: "m_status (ExchangeDistroMap s) = EXCHANGE_DISTRO_MAP
   \<and> sent_packets (ExchangeDistroMap s) = sent_packets s
   \<and> sim_queue (ExchangeDistroMap s) = sim_queue s
   \<and> (\<forall>peer \<in> fst ` set (m_neighborClustersSocket s).
         map_find peer (m_ackDistroMap (ExchangeDistroMap s)) = Some False)
   \<and> (\<forall>e \<in> set (m_ackDistroMap (DecidePropagationParam K md now s)). snd e = True)
   \<and> (deref_ack ack s = Some True \<longrightarrow> SendTo K now peer packet ack s = s)
   \<and> (deref_ack ack s = Some False \<longrightarrow> map_find peer (m_neighborClustersSocket s) \<noteq> None \<longrightarrow>
         SendTo K now peer packet ack s =
           s\<lparr>sent_packets := sent_packets s @ [(ToCluster peer, packet)],
             sim_queue := sim_queue s @
               [\<lparr>ev_uid = sim_next_uid s, ev_time = now + m_minimumTdmaSlot K * 1000,
                 ev_cb = CbSendTo peer packet ack\<rparr>],
             sim_next_uid := Suc (sim_next_uid s)\<rparr>)
   \<and> handle_DistroMap now peer otherInfo otherDistroMap s =
         s\<lparr>m_neighborClusterList := map_put peer otherInfo (m_neighborClusterList s),
           m_neighborDistroMap := map_put peer otherDistroMap (m_neighborDistroMap s),
           m_sentCounter := m_sentCounter s + 1,
           sim_queue := sim_queue s @
             [\<lparr>ev_uid = sim_next_uid s, ev_time = now + 0,
               ev_cb = CbSendTo peer
                         [AckHeader (m_sentCounter s) (clusterId (m_currentMobility s)) AckOfDistroMap]
                         NullAck\<rparr>],
           sim_next_uid := Suc (sim_next_uid s)\<rparr>
   \<and> (map_find peer (m_neighborClustersSocket s) \<noteq> None \<longrightarrow>
         SendTo K now peer packet NullAck s
           = s\<lparr>sent_packets := sent_packets s @ [(ToCluster peer, packet)]\<rparr>)
   \<and> (map_find peer (m_neighborClustersSocket s) = None \<longrightarrow>
         SendTo K now peer packet ack s = s)"
    by (simp add: ExchangeDistroMap_def ExchangeDistroMap_loop_other ExchangeDistroMap_loop_ack
        DecidePropagationParam_all_acknowledged SendTo_acknowledged SendTo_outstanding
        SendTo_once SendTo_no_socket handle_DistroMap_eq)
  show ?thesis using a b c by (intro conjI) blast+
qed


lemma exchanging_head_eq:
  "exchanging_head = head_node
     \<lparr>m_status := EXCHANGE_DISTRO_MAP, m_neighborClustersSocket := [(9, ())],
      m_ackDistroMap := [(9, False)], m_sentCounter := 1\<rparr>"
  by (simp add: exchanging_head_def ExchangeDistroMap_def ConnectSocketInterCH_def head_node_def
        node0_def map_put_def map_find_def)

text \<open>
  The claim as written fails: the head of the example has one peer, and after it has
  entered the exchange the entry of the peer is false, no frame has been sent and no
  event is scheduled, so none will be.
\<close>

theorem exchange_sends_nothing:
  "m_neighborClusterList head_node = [(9, head9)]
   \<and> m_neighborClustersSocket exchanging_head = [(9, ())]
   \<and> m_ackDistroMap exchanging_head = [(9, False)]
   \<and> sent_packets exchanging_head = []
   \<and> sim_queue exchanging_head = []"
  by (simp add: exchanging_head_eq) (simp add: head_node_def node0_def)

text \<open>
  The theorem at the example: the head opens its socket to peer 9 and marks the entry of
  the peer; the retry routine, had it been scheduled, would send the frame and schedule
  itself one second later, and does nothing after \<^verbatim>\<open>DecidePropagationParam\<close>.
\<close>

theorem density_exchange_witness:
  "9 \<in> fst ` set (m_neighborClusterList head_node)
   \<and> map_find 9 (m_neighborClustersSocket (ConnectSocketInterCH head_node)) \<noteq> None
   \<and> map_find 9 (m_ackDistroMap exchanging_head) = Some False
   \<and> 9 \<in> fst ` set (m_neighborClustersSocket (ConnectSocketInterCH head_node))
   \<and> map_find 9 (m_ackDistroMap (ExchangeDistroMap (ConnectSocketInterCH head_node))) = Some False
   \<and> deref_ack (AckDistroMapEntry 9) exchanging_head = Some False
   \<and> map_find 9 (m_neighborClustersSocket exchanging_head) \<noteq> None
   \<and> SendTo K0 1 9 map_frame (AckDistroMapEntry 9) exchanging_head
       = exchanging_head
           \<lparr>sent_packets := [(ToCluster 9, map_frame)],
            sim_queue := [\<lparr>ev_uid = 0, ev_time = 2,
                           ev_cb = CbSendTo 9 map_frame (AckDistroMapEntry 9)\<rparr>],
            sim_next_uid := 1\<rparr>
   \<and> deref_ack (AckDistroMapEntry 9) (DecidePropagationParam K0 md0 1 exchanging_head) = Some True
   \<and> SendTo K0 2 9 map_frame (AckDistroMapEntry 9) (DecidePropagationParam K0 md0 1 exchanging_head)
       = DecidePropagationParam K0 md0 1 exchanging_head"
proof -
  have m: "9 \<in> fst ` set (m_neighborClustersSocket (ConnectSocketInterCH head_node))"
    by (simp add: ConnectSocketInterCH_def head_node_def node0_def map_put_def map_find_def)
  have f: "deref_ack (AckDistroMapEntry 9) exchanging_head = Some False"
    by (simp add: deref_ack_def exchanging_head_eq map_find_def)
  have k: "map_find 9 (m_neighborClustersSocket exchanging_head) \<noteq> None"
    by (simp add: exchanging_head_eq map_find_def)
  have t: "deref_ack (AckDistroMapEntry 9) (DecidePropagationParam K0 md0 1 exchanging_head) = Some True"
    by (simp add: deref_ack_def DecidePropagationParam_ack exchanging_head_eq map_find_def)
  have q: "sent_packets exchanging_head = [] \<and> sim_queue exchanging_head = []
           \<and> sim_next_uid exchanging_head = 0"
    by (simp add: exchanging_head_eq) (simp add: head_node_def node0_def)
  have slot: "m_minimumTdmaSlot K0 * 1000 = 1" by (simp add: K0_def)
  have a4: "map_find 9 (m_ackDistroMap (ExchangeDistroMap (ConnectSocketInterCH head_node))) = Some False"
    using density_exchange [of "ConnectSocketInterCH head_node" K0 md0 1 "AckDistroMapEntry 9" 9
            map_frame head9 "[]"] m
    by blast
  have b7: "SendTo K0 1 9 map_frame (AckDistroMapEntry 9) exchanging_head =
           exchanging_head\<lparr>sent_packets := sent_packets exchanging_head @ [(ToCluster 9, map_frame)],
             sim_queue := sim_queue exchanging_head @
               [\<lparr>ev_uid = sim_next_uid exchanging_head, ev_time = 1 + m_minimumTdmaSlot K0 * 1000,
                 ev_cb = CbSendTo 9 map_frame (AckDistroMapEntry 9)\<rparr>],
             sim_next_uid := Suc (sim_next_uid exchanging_head)\<rparr>"
    using density_exchange [of exchanging_head K0 md0 1 "AckDistroMapEntry 9" 9 map_frame head9 "[]"]
      f k
    by blast
  have c6: "SendTo K0 2 9 map_frame (AckDistroMapEntry 9) (DecidePropagationParam K0 md0 1 exchanging_head)
       = DecidePropagationParam K0 md0 1 exchanging_head"
    using density_exchange [of "DecidePropagationParam K0 md0 1 exchanging_head" K0 md0 2
         "AckDistroMapEntry 9" 9 map_frame head9 "[]"] t
    by blast
  have n: "9 \<in> fst ` set (m_neighborClusterList head_node)"
    by (simp add: head_node_def)
  have e: "exchanging_head
      = ExchangeDistroMap ((ConnectSocketInterCH head_node)
          \<lparr>m_distroMap := m_distroMap (ConnectSocketInterCH head_node)\<rparr>)"
    by (simp add: exchanging_head_def)
  have n1: "map_find 9 (m_neighborClustersSocket (ConnectSocketInterCH head_node)) \<noteq> None
     \<and> map_find 9 (m_ackDistroMap exchanging_head) = Some False"
    unfolding e
    using density_exchange [of head_node K0 md0 1 "AckDistroMapEntry 9" 9 map_frame head9 "[]"] n
    by blast
  show ?thesis
    using n n1 m a4 f k t c6 by (simp add: b7 q slot)
qed

section \<open>The inter-cluster frame: nearest node, delay and new start time\<close>

lemma FindNode_loop_le_init: "snd (FindNode_loop pos m (i, d)) \<le> d"
proof (induction m arbitrary: i d)
  case Nil
  show ?case by simp
next
  case (Cons e m)
  obtain k v where e: "e = (k, v)" by (cases e)
  show ?case
    using Cons.IH [of k "sqdist pos (position v)"] Cons.IH [of i d]
    by (auto simp: e Let_def)
qed

lemma FindNode_loop_le_all:
  "e \<in> set m \<Longrightarrow> snd (FindNode_loop pos m (i, d)) \<le> sqdist pos (position (snd e))"
proof (induction m arbitrary: i d)
  case Nil
  then show ?case by simp
next
  case (Cons e' m)
  obtain k v where e': "e' = (k, v)" by (cases e')
  show ?case
  proof (cases "e = e'")
    case True
    show ?thesis
      using FindNode_loop_le_init [of pos m k "sqdist pos (position v)"]
        FindNode_loop_le_init [of pos m i d]
      by (auto simp: True e' Let_def)
  next
    case False
    then have "e \<in> set m" using Cons.prems by simp
    then show ?thesis
      using Cons.IH [of k "sqdist pos (position v)"] Cons.IH [of i d]
      by (auto simp: e' Let_def)
  qed
qed

lemma FindNode_loop_result:
  "FindNode_loop pos m (i, d) = (i, d)
   \<or> (\<exists>e \<in> set m. FindNode_loop pos m (i, d) = (fst e, sqdist pos (position (snd e))))"
proof (induction m arbitrary: i d)
  case Nil
  show ?case by simp
next
  case (Cons e' m)
  obtain k v where e': "e' = (k, v)" by (cases e')
  show ?case
    using Cons.IH [of k "sqdist pos (position v)"] Cons.IH [of i d]
    by (auto simp: e' Let_def)
qed

lemma sqdist_candidate:
  assumes "distinct (map fst (m_clusterList s))"
    and "imsi (m_currentMobility s) \<notin> fst ` set (m_clusterList s)"
  shows "sqdist dest (candidate_position s (FindNodeByPosition s dest))
         = snd (FindNode_loop dest (m_clusterList s)
                 (imsi (m_currentMobility s), sqdist dest (position (m_currentMobility s))))"
proof -
  let ?i = "imsi (m_currentMobility s)" and ?d = "sqdist dest (position (m_currentMobility s))"
  consider (self) "FindNode_loop dest (m_clusterList s) (?i, ?d) = (?i, ?d)"
    | (member) e where "e \<in> set (m_clusterList s)"
        "FindNode_loop dest (m_clusterList s) (?i, ?d) = (fst e, sqdist dest (position (snd e)))"
    using FindNode_loop_result [of dest "m_clusterList s" ?i ?d] by blast
  then show ?thesis
  proof cases
    case self
    then show ?thesis by (simp add: FindNodeByPosition_def candidate_position_def)
  next
    case member
    have ne: "fst e \<noteq> ?i" using member(1) assms(2) by force
    have "map_of (m_clusterList s) (fst e) = Some (snd e)"
      using member(1) assms(1) by (simp add: map_of_eq_Some_iff)
    then show ?thesis
      using ne member(2) by (simp add: FindNodeByPosition_def candidate_position_def map_find_def)
  qed
qed

lemma CalculateDistance_sqdist: "CalculateDistance p q = sqrt (sqdist p q)"
proof -
  have "(vx q - vx p) * (vx q - vx p) + (vy q - vy p) * (vy q - vy p) + (vz q - vz p) * (vz q - vz p)
        = sqdist p q"
    by (simp add: sqdist_def algebra_simps)
  then show ?thesis by (simp add: CalculateDistance_def)
qed

lemma FindNodeByPosition_member:
  "FindNodeByPosition s dest = imsi (m_currentMobility s)
   \<or> FindNodeByPosition s dest \<in> fst ` set (m_clusterList s)"
proof -
  consider "FindNode_loop dest (m_clusterList s)
              (imsi (m_currentMobility s), sqdist dest (position (m_currentMobility s)))
            = (imsi (m_currentMobility s), sqdist dest (position (m_currentMobility s)))"
    | e where "e \<in> set (m_clusterList s)"
        "FindNode_loop dest (m_clusterList s)
              (imsi (m_currentMobility s), sqdist dest (position (m_currentMobility s)))
            = (fst e, sqdist dest (position (snd e)))"
    using FindNode_loop_result [of dest "m_clusterList s" "imsi (m_currentMobility s)"
          "sqdist dest (position (m_currentMobility s))"]
    by blast
  then show ?thesis
  proof cases
    case 1
    then show ?thesis by (simp add: FindNodeByPosition_def)
  next
    case 2
    then show ?thesis by (simp add: FindNodeByPosition_def)
  qed
qed

lemma CalcPropagationDelay_projection:
  "CalcPropagationDelay source destination direction
     = \<bar>horizontal_projection (vsub destination source) direction\<bar> / hnorm direction"
proof -
  have nn: "0 \<le> hdot direction direction" by (simp add: hdot_def)
  have hn: "0 \<le> hnorm direction" by (simp add: hnorm_def nn)
  have n: "hnorm direction * hnorm direction = hdot direction direction"
    using nn by (simp add: hnorm_def)
  have lhs: "CalcPropagationDelay source destination direction
               = \<bar>hdot (vsub destination source) direction\<bar> / hdot direction direction"
    using nn by (simp add: CalcPropagationDelay_def Let_def hdot_def algebra_simps abs_divide)
  have "\<bar>horizontal_projection (vsub destination source) direction\<bar> / hnorm direction
          = \<bar>hdot (vsub destination source) direction\<bar> / (hnorm direction * hnorm direction)"
    using hn by (simp add: horizontal_projection_def abs_divide)
  then show ?thesis by (simp only: lhs n)
qed


lemma same_tables_send_Ack: "same_tables s (send_Ack now dest t s)"
  by (simp add: same_tables_def send_Ack_def Let_def)

lemmas send_Ack_frame [simp] = same_tablesD [OF same_tables_send_Ack]

text \<open>What scheduling leaves alone of the node's own wave.\<close>

lemma Schedule_wave [simp]:
  "m_propagationStartTime (snd (Schedule now d cb s)) = m_propagationStartTime s"
  "m_propagationDirection (snd (Schedule now d cb s)) = m_propagationDirection s"
  by (simp_all add: Schedule_def)

lemma Cancel_wave [simp]:
  "m_propagationStartTime (Cancel e s) = m_propagationStartTime s"
  "m_status (Cancel e s) = m_status s"
  "m_propagationDirection (Cancel e s) = m_propagationDirection s"
  by (cases e; simp add: Cancel_def)+

lemma cancel_running_wave [simp]:
  "m_propagationStartTime (cancel_running es s) = m_propagationStartTime s"
  "m_status (cancel_running es s) = m_status s"
  by (induction es arbitrary: s) simp_all

lemma ScheduleTransmit_wave [simp]:
  "m_propagationStartTime (ScheduleTransmit now dt s) = m_propagationStartTime s"
  "m_propagationDirection (ScheduleTransmit now dt s) = m_propagationDirection s"
  by (simp_all add: ScheduleTransmit_eq)

lemma send_Ack_wave [simp]:
  "m_propagationStartTime (send_Ack now dest t s) = m_propagationStartTime s"
  "m_status (send_Ack now dest t s) = m_status s"
  by (simp_all add: send_Ack_def Let_def)

lemma solver_step_wave:
  "m_propagationStartTime (solver_state (solver_step K now p v entry acc))
     = m_propagationStartTime (solver_state acc)"
  "m_status (solver_state (solver_step K now p v entry acc)) = m_status (solver_state acc)"
  by (simp_all add: solver_step_def Let_def Schedule_def split: prod.splits)

lemma solver_loop_wave [simp]:
  "m_propagationStartTime (solver_state (solver_loop K now p v m acc))
     = m_propagationStartTime (solver_state acc)"
  "m_status (solver_state (solver_loop K now p v m acc)) = m_status (solver_state acc)"
  by (induction m arbitrary: acc) (simp_all add: solver_step_wave)

lemma ScheduleInterNodePropagation_wave [simp]:
  "m_propagationStartTime (ScheduleInterNodePropagation K now s) = m_propagationStartTime s"
  "m_status (ScheduleInterNodePropagation K now s) = PROPAGATION_READY"
  "m_propagationDirection (ScheduleInterNodePropagation K now s) = m_propagationDirection s"
  by (simp_all add: ScheduleInterNodePropagation_def Let_def Schedule_def split: prod.splits)

lemma TransmitPropagationDirection_other_node:
  "ident \<noteq> imsi (m_currentMobility s) \<Longrightarrow>
     m_propagationStartTime (TransmitPropagationDirection K now ident v s) = m_propagationStartTime s
     \<and> m_status (TransmitPropagationDirection K now ident v s) = m_status s"
  by (simp add: TransmitPropagationDirection_def Let_def split: option.splits)

lemma handle_InterClusterPropagation_first:
  "m_firstPropagationStartingTime (handle_InterClusterPropagation K now c info s)
     = (if interCluster_newTime s info < m_firstPropagationStartingTime s
        then interCluster_newTime s info else m_firstPropagationStartingTime s)"
  by (simp add: handle_InterClusterPropagation_def Let_def)

lemma handle_InterClusterPropagation_node:
  "m_firstPropagationStartNodeId (handle_InterClusterPropagation K now c info s)
     = (if interCluster_newTime s info < m_firstPropagationStartingTime s
        then FindNodeByPosition s (ic_distination info) else m_firstPropagationStartNodeId s)"
  by (simp add: handle_InterClusterPropagation_def Let_def)

lemma handle_InterClusterPropagation_tables:
  "same_tables
     (if interCluster_newTime s info < m_firstPropagationStartingTime s
      then s\<lparr>m_firstPropagationStartingTime := interCluster_newTime s info,
             m_firstPropagationStartNodeId := FindNodeByPosition s (ic_distination info)\<rparr>
      else s)
     (handle_InterClusterPropagation K now c info s)"
  by (auto simp: handle_InterClusterPropagation_def Let_def
        intro: same_tables_trans [OF same_tables_TransmitPropagationDirection same_tables_send_Ack]
               same_tables_send_Ack)


lemma head_cluster_candidate:
  "FindNodeByPosition head_cluster (Vec 50 0 0) = 2"
  "candidate_position head_cluster 2 = Vec 50 0 0"
  by (simp_all add: FindNodeByPosition_def candidate_position_def head_cluster_def head_node_def
        node0_def mobility0_def member2_def sqdist_def Let_def map_find_def)

lemma wave_frame_newTime: "interCluster_newTime head_cluster wave_frame = 15"
  by (simp add: interCluster_newTime_def Let_def wave_frame_def head_cluster_candidate
        CalcPropagationDelay_def vsub_def)



section \<open>How the first starting time changes\<close>

lemma handle_IntraClusterPropagation_times:
  "m_firstPropagationStartingTime (handle_IntraClusterPropagation K now c info s)
     = (if intra_accepted K now c info s then ia_startingTime info
        else m_firstPropagationStartingTime s)"
  "m_propagationStartTime (handle_IntraClusterPropagation K now c info s)
     = (if intra_accepted K now c info s then ia_startingTime info
        else m_propagationStartTime s)"
  by (auto simp: handle_IntraClusterPropagation_def intra_accepted_def Let_def)

lemma handle_IntraClusterPropagation_tables:
  "m_currentMobility (handle_IntraClusterPropagation K now c info s) = m_currentMobility s"
  "m_clusterList (handle_IntraClusterPropagation K now c info s) = m_clusterList s"
  by (simp_all add: handle_IntraClusterPropagation_def Let_def)

lemma handle_IntraClusterPropagation_status:
  "intra_accepted K now c info s \<Longrightarrow>
     m_status (handle_IntraClusterPropagation K now c info s) = PROPAGATION_READY"
  by (simp add: handle_IntraClusterPropagation_def intra_accepted_def Let_def)

lemma alternate_direction_times [simp]:
  "m_firstPropagationStartingTime (alternate_direction info s) = m_firstPropagationStartingTime s"
  "m_propagationStartTime (alternate_direction info s) = m_propagationStartTime s"
  by (simp_all add: alternate_direction_def Let_def)

lemma handle_InterNodePropagation_times:
  "m_firstPropagationStartingTime (handle_InterNodePropagation K now info s)
     = m_firstPropagationStartingTime s"
  "m_propagationStartTime (handle_InterNodePropagation K now info s) \<le> m_propagationStartTime s"
  by (simp_all add: handle_InterNodePropagation_def Let_def)

lemma update_NeighborClusterList_times [simp]:
  "m_firstPropagationStartingTime (update_NeighborClusterList now i s) = m_firstPropagationStartingTime s"
  "m_propagationStartTime (update_NeighborClusterList now i s) = m_propagationStartTime s"
  by (simp_all add: update_NeighborClusterList_def Let_def)

lemma handle_ClusterInfo_update_times [simp]:
  "m_firstPropagationStartingTime (handle_ClusterInfo_update now i s) = m_firstPropagationStartingTime s"
  "m_propagationStartTime (handle_ClusterInfo_update now i s) = m_propagationStartTime s"
  by (simp_all add: handle_ClusterInfo_update_def Let_def attach_to_def become_CH_def
        split: option.splits)

lemma beacons_times:
  "m_firstPropagationStartingTime (handle_ClusterInfo K now i s) = m_firstPropagationStartingTime s"
  "m_propagationStartTime (handle_ClusterInfo K now i s) = m_propagationStartTime s"
  "m_firstPropagationStartingTime (handle_InitiateCluster K now c i s) = m_firstPropagationStartingTime s"
  "m_propagationStartTime (handle_InitiateCluster K now c i s) = m_propagationStartTime s"
  "m_firstPropagationStartingTime (handle_FormCluster K now i s) = m_firstPropagationStartingTime s"
  "m_propagationStartTime (handle_FormCluster K now i s) = m_propagationStartTime s"
  "m_firstPropagationStartingTime (handle_NeighborClusterInfo c i s) = m_firstPropagationStartingTime s"
  "m_propagationStartTime (handle_NeighborClusterInfo c i s) = m_propagationStartTime s"
  by (simp_all add: handle_ClusterInfo_def handle_InitiateCluster_def handle_FormCluster_def
        handle_NeighborClusterInfo_def Let_def join_cluster_def)

lemma HandleRead_item_times:
  "(m_firstPropagationStartingTime (HandleRead_item K now item s) = m_firstPropagationStartingTime s
      \<and> m_propagationStartTime (HandleRead_item K now item s) \<le> m_propagationStartTime s)
   \<or> (m_firstPropagationStartingTime (HandleRead_item K now item s)
        = m_propagationStartTime (HandleRead_item K now item s)
      \<and> m_propagationStartTime (HandleRead_item K now item s) \<le> m_propagationStartTime s)"
proof (cases item)
  case (IntraClusterPropagationHeader q c info)
  let ?s = "s\<lparr>m_recvCounter := m_recvCounter s + 1\<rparr>"
  show ?thesis
  proof (cases "intra_accepted K now c info ?s")
    case True
    then have "ia_startingTime info \<le> m_propagationStartTime s"
      by (simp add: intra_accepted_def)
    then show ?thesis
      using True
      by (simp add: HandleRead_item_def IntraClusterPropagationHeader
            handle_IntraClusterPropagation_times)
  next
    case False
    then show ?thesis
      by (simp add: HandleRead_item_def IntraClusterPropagationHeader
            handle_IntraClusterPropagation_times)
  qed
next
  case (InterNodePropagationHeader q c info)
  show ?thesis
    using handle_InterNodePropagation_times [of K now info "s\<lparr>m_recvCounter := m_recvCounter s + 1\<rparr>"]
    by (simp add: HandleRead_item_def InterNodePropagationHeader)
qed (simp_all add: HandleRead_item_def beacons_times)

lemma HandleRead_item_monotone:
  assumes "m_propagationStartTime s \<le> m_firstPropagationStartingTime s"
  shows "m_firstPropagationStartingTime (HandleRead_item K now item s)
           \<le> m_firstPropagationStartingTime s
         \<and> m_propagationStartTime (HandleRead_item K now item s)
           \<le> m_firstPropagationStartingTime (HandleRead_item K now item s)"
  using HandleRead_item_times [of K now item s] assms by auto

lemma HandlePacketInterCluster_item_monotone:
  "m_firstPropagationStartingTime (HandlePacketInterCluster_item K now item s)
     \<le> m_firstPropagationStartingTime s"
  by (cases item)
     (simp_all add: HandlePacketInterCluster_item_def handle_InterClusterPropagation_first
        handle_DistroMap_def handle_Ack_def Let_def)

lemma after_clustering_simps [simp]:
  "after_clustering EXCHANGE_DISTRO_MAP" "after_clustering DECIDE_PROPAGATION_PARAM"
  "after_clustering PROPAGATION_READY" "after_clustering PROPAGATION_RUNNING"
  "after_clustering PROPAGATION_COMPLETE" "after_clustering ACTIVE"
  "\<not> after_clustering CLUSTER_INITIALIZATION" "\<not> after_clustering CLUSTER_HEAD_ELECTION"
  "\<not> after_clustering CLUSTER_FORMATION" "\<not> after_clustering CLUSTER_UPDATE"
  by (simp_all add: after_clustering_def)

lemma after_clustering_not:
  assumes "after_clustering st"
  shows "st \<noteq> CLUSTER_INITIALIZATION" "st \<noteq> CLUSTER_HEAD_ELECTION"
    "st \<noteq> CLUSTER_FORMATION" "st \<noteq> CLUSTER_UPDATE"
  using assms by (auto simp add: after_clustering_def)

lemma ScheduleInterNodePropagation_status:
  "m_status (ScheduleInterNodePropagation K now s) = PROPAGATION_READY"
  by (simp add: ScheduleInterNodePropagation_def Let_def Schedule_def split: prod.splits)

lemma ScheduleInterNodePropagation_start:
  "m_propagationStartTime (ScheduleInterNodePropagation K now s) = m_propagationStartTime s"
  by (simp add: ScheduleInterNodePropagation_def Let_def Schedule_def Cancel_def
        split: prod.splits option.splits)

lemma update_NeighborClusterList_keeps:
  "m_status (update_NeighborClusterList now i s) = m_status s"
  "m_currentMobility (update_NeighborClusterList now i s) = m_currentMobility s"
  by (simp_all add: update_NeighborClusterList_def Let_def)

lemma HandleRead_item_phase:
  assumes "after_clustering (m_status s)"
  shows "after_clustering (m_status (HandleRead_item K now item s))"
    and "m_currentMobility (HandleRead_item K now item s) = m_currentMobility s"
proof -
  let ?s = "s\<lparr>m_recvCounter := m_recvCounter s + 1\<rparr>"
  note n = after_clustering_not [OF assms]
  have "after_clustering (m_status (HandleRead_item K now item s))
        \<and> m_currentMobility (HandleRead_item K now item s) = m_currentMobility s"
  proof (cases item)
    case (ClusterInfoHeader q i)
    then show ?thesis
      using assms n
      by (simp add: HandleRead_item_def handle_ClusterInfo_def handle_ClusterInfo_update_def
            Let_def update_NeighborClusterList_keeps)
  next
    case (InitiateClusterHeader q c i)
    then show ?thesis
      using assms n
      by (simp add: HandleRead_item_def handle_InitiateCluster_def Let_def
            update_NeighborClusterList_keeps)
  next
    case (FormClusterHeader q i)
    then show ?thesis
      using assms n by (simp add: HandleRead_item_def handle_FormCluster_def Let_def)
  next
    case (NeighborClusterInfoHeader q c i)
    then show ?thesis
      using assms by (simp add: HandleRead_item_def handle_NeighborClusterInfo_def Let_def)
  next
    case (IntraClusterPropagationHeader q c i)
    then show ?thesis
      using assms
      by (simp add: HandleRead_item_def handle_IntraClusterPropagation_def Let_def
            ScheduleInterNodePropagation_status)
  next
    case (InterNodePropagationHeader q c i)
    then show ?thesis
      using assms
      by (simp add: HandleRead_item_def handle_InterNodePropagation_def Let_def
            ScheduleInterNodePropagation_status alternate_direction_def)
  qed (use assms in \<open>simp_all add: HandleRead_item_def\<close>)
  then show "after_clustering (m_status (HandleRead_item K now item s))"
    and "m_currentMobility (HandleRead_item K now item s) = m_currentMobility s"
    by simp_all
qed

lemma HandleRead_item_not_member:
  assumes "degree (m_currentMobility s) \<noteq> CM"
  shows "m_firstPropagationStartingTime (HandleRead_item K now item s)
           = m_firstPropagationStartingTime s"
proof (cases item)
  case (IntraClusterPropagationHeader q c i)
  then show ?thesis
    using assms by (simp add: HandleRead_item_def handle_IntraClusterPropagation_def Let_def)
next
  case (InterNodePropagationHeader q c i)
  then show ?thesis
    by (simp add: HandleRead_item_def handle_InterNodePropagation_times)
qed (simp_all add: HandleRead_item_def beacons_times)

lemma HandleRead_item_invariant:
  assumes p: "after_clustering (m_status s)" and o: "start_before_first s"
  shows "after_clustering (m_status (HandleRead_item K now item s))
     \<and> m_currentMobility (HandleRead_item K now item s) = m_currentMobility s
     \<and> start_before_first (HandleRead_item K now item s)
     \<and> m_firstPropagationStartingTime (HandleRead_item K now item s)
         \<le> m_firstPropagationStartingTime s"
proof (cases "degree (m_currentMobility s) = CM")
  case True
  then have "m_propagationStartTime s \<le> m_firstPropagationStartingTime s"
    using o by (simp add: start_before_first_def)
  from HandleRead_item_monotone [OF this, of K now item] HandleRead_item_phase [OF p, of K now item]
  show ?thesis by (simp add: start_before_first_def)
next
  case False
  from HandleRead_item_not_member [OF this, of K now item] HandleRead_item_phase [OF p, of K now item]
    False
  show ?thesis by (simp add: start_before_first_def)
qed

lemma cancel_running_status: "m_status (cancel_running es s) = m_status s"
proof (induction es arbitrary: s)
  case Nil
  show ?case by simp
next
  case (Cons e es)
  show ?case by (cases e) (simp_all add: Cons.IH Cancel_def)
qed

lemma solver_step_status:
  "m_status (solver_state (solver_step K now p v entry acc)) = m_status (solver_state acc)"
  by (simp add: solver_step_def Let_def Schedule_def split: prod.splits)

lemma solver_loop_status:
  "m_status (solver_state (solver_loop K now p v m acc)) = m_status (solver_state acc)"
proof (induction m arbitrary: acc)
  case Nil
  show ?case by simp
next
  case (Cons entry m)
  show ?case by (simp add: Cons.IH solver_step_status)
qed

lemma TransmitPropagationDirection_status:
  "m_status (TransmitPropagationDirection K now ident v s) = m_status s
   \<or> m_status (TransmitPropagationDirection K now ident v s) = PROPAGATION_READY"
  by (simp add: TransmitPropagationDirection_def Let_def solver_loop_status
        cancel_running_status ScheduleInterNodePropagation_status split: option.splits)

lemma TransmitPropagationDirection_phase:
  "after_clustering (m_status s)
     \<Longrightarrow> after_clustering (m_status (TransmitPropagationDirection K now ident v s))"
  using TransmitPropagationDirection_status [of K now ident v s] by auto

lemma send_Ack_status: "m_status (send_Ack now dest t s) = m_status s"
  by (simp add: send_Ack_def Let_def)

lemma HandlePacketInterCluster_item_phase:
  assumes "after_clustering (m_status s)"
  shows "after_clustering (m_status (HandlePacketInterCluster_item K now item s))
     \<and> m_currentMobility (HandlePacketInterCluster_item K now item s) = m_currentMobility s"
proof (cases item)
  case (DistroMapHeader q ident i d)
  then show ?thesis
    using assms same_tablesD(1) [OF same_tables_send_Ack]
    by (simp add: HandlePacketInterCluster_item_def handle_DistroMap_def Let_def send_Ack_status)
next
  case (InterClusterPropagationHeader q c info)
  let ?s = "s\<lparr>m_recvCounter := m_recvCounter s + 1\<rparr>"
  have m: "m_currentMobility (handle_InterClusterPropagation K now c info ?s) = m_currentMobility s"
    using same_tablesD(1) [OF handle_InterClusterPropagation_tables [of ?s info K now c]]
    by (simp split: if_splits)
  have "after_clustering (m_status (handle_InterClusterPropagation K now c info ?s))"
    using assms
    by (simp add: handle_InterClusterPropagation_def Let_def TransmitPropagationDirection_phase
          send_Ack_status)
  with m show ?thesis
    by (simp add: HandlePacketInterCluster_item_def InterClusterPropagationHeader)
next
  case (AckHeader q c a)
  then show ?thesis
    using assms by (simp add: HandlePacketInterCluster_item_def handle_Ack_def Let_def)
qed (use assms in \<open>simp_all add: HandlePacketInterCluster_item_def\<close>)

lemma Send_after_clustering:
  assumes "after_clustering (m_status s)"
  shows "m_status (Send K now pos s) = m_status s
     \<and> m_currentMobility (Send K now pos s) = m_currentMobility s
     \<and> m_firstPropagationStartingTime (Send K now pos s) = m_firstPropagationStartingTime s
     \<and> m_propagationStartTime (Send K now pos s) = m_propagationStartTime s"
  using assms unfolding after_clustering_def
  by (elim disjE) (simp_all add: Send_def Let_def socket_Send_def ScheduleTransmit_eq)

lemma complete_distro_map_keeps:
  "m_status (complete_distro_map md ids s) = m_status s"
  "m_currentMobility (complete_distro_map md ids s) = m_currentMobility s"
  by (induction ids arbitrary: s) (simp_all add: Let_def split: option.splits)

lemma DecidePropagationParam_phase:
  "after_clustering (m_status (DecidePropagationParam K md now s))
   \<and> m_currentMobility (DecidePropagationParam K md now s) = m_currentMobility s"
proof -
  have a: "after_clustering (m_status (TransmitPropagationDirection K now i v r))"
    if "m_status r = DECIDE_PROPAGATION_PARAM" for i v r
    using TransmitPropagationDirection_phase [of r K now i v] that by simp
  show ?thesis
    by (simp add: DecidePropagationParam_def Let_def complete_distro_map_keeps a
          split: prod.splits option.splits)
qed

lemma SendTo_keeps:
  "m_status (SendTo K now ident packet ack s) = m_status s
   \<and> m_currentMobility (SendTo K now ident packet ack s) = m_currentMobility s
   \<and> m_firstPropagationStartingTime (SendTo K now ident packet ack s)
       = m_firstPropagationStartingTime s
   \<and> m_propagationStartTime (SendTo K now ident packet ack s) = m_propagationStartTime s"
  by (simp add: SendTo_def Let_def MetaData_Call_def Schedule_def)

lemma StartNodePropagation_keeps:
  "m_currentMobility (StartNodePropagation K now pos s) = m_currentMobility s
   \<and> m_firstPropagationStartingTime (StartNodePropagation K now pos s)
       = m_firstPropagationStartingTime s
   \<and> m_propagationStartTime (StartNodePropagation K now pos s) = m_propagationStartTime s"
  by (simp add: StartNodePropagation_def Send_def Let_def socket_Send_def ScheduleTransmit_eq
        Schedule_def)

lemma fire_invariant:
  assumes p: "after_clustering (m_status s)" and o: "start_before_first s"
    and a: "admissible (Timer ev) s"
  shows "after_clustering (m_status (fire K md mob ev s))
     \<and> m_currentMobility (fire K md mob ev s) = m_currentMobility s
     \<and> start_before_first (fire K md mob ev s)"
proof -
  let ?t = "s\<lparr>sim_queue := filter (\<lambda>e. ev_uid e \<noteq> ev_uid ev) (sim_queue s)\<rparr>"
  have pt: "after_clustering (m_status ?t)" using p by simp
  have keep: "after_clustering (m_status r) \<and> m_currentMobility r = m_currentMobility s
              \<and> start_before_first r"
    if "after_clustering (m_status r)" "m_currentMobility r = m_currentMobility s"
      "m_firstPropagationStartingTime r = m_firstPropagationStartingTime s"
      "m_propagationStartTime r = m_propagationStartTime s" for r
    using that o by (simp add: start_before_first_def)
  show ?thesis
  proof (cases "ev_cb ev")
    case CbSend
    show ?thesis
      using Send_after_clustering [OF pt, of K "ev_time ev" "mob (ev_time ev)"] p
      by (intro keep) (simp_all add: fire_def run_callback_def CbSend)
  next
    case CbInitiateCluster
    show ?thesis
      using after_clustering_not [OF p] p
      by (intro keep) (simp_all add: fire_def run_callback_def CbInitiateCluster InitiateCluster_def)
  next
    case CbUpdateNeighbors
    then show ?thesis using a by (simp add: admissible_def)
  next
    case CbUpdateNeighborList
    then show ?thesis using a by (simp add: admissible_def)
  next
    case CbDecidePropagationParam
    then have ch: "degree (m_currentMobility s) = CH" using a by (simp add: admissible_def)
    show ?thesis
      using DecidePropagationParam_phase [of K md "ev_time ev" ?t] ch
      by (simp add: fire_def run_callback_def CbDecidePropagationParam start_before_first_def)
  next
    case (CbSendTo ident packet ack)
    show ?thesis
      using SendTo_keeps [of K "ev_time ev" ident packet ack ?t] p
      by (intro keep) (simp_all add: fire_def run_callback_def CbSendTo)
  next
    case CbStartNodePropagation
    show ?thesis
      using StartNodePropagation_keeps [of K "ev_time ev" "mob (ev_time ev)" ?t]
      by (intro keep)
         (simp_all add: fire_def run_callback_def CbStartNodePropagation
            StartNodePropagation_status)
  next
    case CbStopNodePropagation
    show ?thesis
      by (intro keep) (simp_all add: fire_def run_callback_def CbStopNodePropagation
            StopNodePropagation_def)
  next
    case CbActivateNode
    show ?thesis
      by (intro keep) (simp_all add: fire_def run_callback_def CbActivateNode
            ActivateNode_def Schedule_def)
  next
    case CbInactivateNode
    show ?thesis
      by (intro keep) (simp_all add: fire_def run_callback_def CbInactivateNode
            InactivateNode_def Schedule_def)
  qed
qed

lemma step_invariant:
  assumes p: "after_clustering (m_status s)" and o: "start_before_first s"
    and a: "admissible st s"
  shows "after_clustering (m_status (step K md mob st s))
     \<and> m_currentMobility (step K md mob st s) = m_currentMobility s
     \<and> start_before_first (step K md mob st s)
     \<and> (handler_step st \<longrightarrow>
          m_firstPropagationStartingTime (step K md mob st s)
            \<le> m_firstPropagationStartingTime s)"
proof (cases st)
  case (Receive now item)
  show ?thesis
    using HandleRead_item_invariant [OF p o, of K now item]
    by (simp add: step_def Receive)
next
  case (ReceiveInterCluster now item)
  then have ch: "degree (m_currentMobility s) = CH" using a by (simp add: admissible_def)
  show ?thesis
    using HandlePacketInterCluster_item_phase [OF p, of K now item] ch
      HandlePacketInterCluster_item_monotone [of K now item s]
    by (simp add: step_def ReceiveInterCluster start_before_first_def)
next
  case (Timer ev)
  show ?thesis
    using fire_invariant [OF p o a [unfolded Timer], of K md mob]
    by (simp add: step_def Timer handler_step_def)
qed

lemma run_Receive:
  "run K md mob (map (Receive now) packet) s = HandleRead K now packet s"
  by (induction packet arbitrary: s) (simp_all add: step_def)

lemma run_ReceiveInterCluster:
  "run K md mob (map (ReceiveInterCluster now) packet) s = HandlePacketInterCluster K now packet s"
  by (induction packet arbitrary: s) (simp_all add: step_def)

lemma run_invariant:
  assumes "after_clustering (m_status s)" and "start_before_first s"
    and "admissible_run K md mob steps s"
  shows "never_raised K md mob steps s
     \<and> after_clustering (m_status (run K md mob steps s))
     \<and> m_currentMobility (run K md mob steps s) = m_currentMobility s
     \<and> start_before_first (run K md mob steps s)"
  using assms
proof (induction steps arbitrary: s)
  case Nil
  then show ?case by simp
next
  case (Cons st steps)
  from Cons.prems(3) have a: "admissible st s"
    and r: "admissible_run K md mob steps (step K md mob st s)" by simp_all
  note i = step_invariant [OF Cons.prems(1,2) a, of K md mob]
  from i have p': "after_clustering (m_status (step K md mob st s))"
    and o': "start_before_first (step K md mob st s)" by simp_all
  from Cons.IH [OF p' o' r] i show ?case by simp
qed

text \<open>
  Claim C1. The run starts at an agent whose clustering has stopped and whose two times
  are in order if it is a cluster member, and each of its steps is one that the source
  lets happen. Then no item received along the run, on the broadcast socket or between
  clusters, raises the first starting time: whenever a handler updates it, the value
  assigned is at most the value it had. This holds in every status after the clustering,
  so also until \<^verbatim>\<open>PROPAGATION_RUNNING\<close>. The order of the two times, the phase and
  the degree of the node are kept by every step. The order is there once the first
  starting time has been set: an item on the broadcast socket that changes the first
  starting time leaves the two times in order, in any state; and the handler of
  InterClusterPropagation never raises the first starting time, in any state. A packet
  is the run of its items.
\<close>

theorem firstPropagationStartingTime_updates:
  assumes "after_clustering (m_status s)" and "start_before_first s"
    and "admissible_run K md mob steps s"
  shows "never_raised K md mob steps s
     \<and> start_before_first (run K md mob steps s)
     \<and> after_clustering (m_status (run K md mob steps s))
     \<and> degree (m_currentMobility (run K md mob steps s)) = degree (m_currentMobility s)
     \<and> (\<forall>r now item.
          m_firstPropagationStartingTime (HandleRead_item K now item r)
            \<noteq> m_firstPropagationStartingTime r
          \<longrightarrow> m_propagationStartTime (HandleRead_item K now item r)
                \<le> m_firstPropagationStartingTime (HandleRead_item K now item r))
     \<and> (\<forall>r now c info.
          m_firstPropagationStartingTime (handle_InterClusterPropagation K now c info r)
            \<le> m_firstPropagationStartingTime r)
     \<and> (\<forall>r now packet.
          run K md mob (map (Receive now) packet) r = HandleRead K now packet r
          \<and> run K md mob (map (ReceiveInterCluster now) packet) r
            = HandlePacketInterCluster K now packet r)"
proof -
  note i = run_invariant [OF assms]
  have e: "m_firstPropagationStartingTime (HandleRead_item K now item r)
            \<noteq> m_firstPropagationStartingTime r
          \<longrightarrow> m_propagationStartTime (HandleRead_item K now item r)
                \<le> m_firstPropagationStartingTime (HandleRead_item K now item r)" for r now item
    using HandleRead_item_times [of K now item r] by auto
  have c: "m_firstPropagationStartingTime (handle_InterClusterPropagation K now c info r)
            \<le> m_firstPropagationStartingTime r" for r now c info
    by (simp add: handle_InterClusterPropagation_first)
  from i e c show ?thesis by (simp add: run_Receive run_ReceiveInterCluster)
qed

lemma interCluster_newTime_recvCounter:
  "interCluster_newTime (s\<lparr>m_recvCounter := n\<rparr>) info = interCluster_newTime s info"
  by (simp add: interCluster_newTime_def FindNodeByPosition_def candidate_position_def Let_def)

lemma member_first_frame:
  "m_currentMobility (HandleRead_item K0 0 (IntraClusterPropagationHeader 0 7 (intra_frame 20)) member_node)
     = mobility0\<lparr>clusterId := 7, degree := CM\<rparr>"
  "m_firstPropagationStartingTime
     (HandleRead_item K0 0 (IntraClusterPropagationHeader 0 7 (intra_frame 20)) member_node) = 20"
  "m_propagationStartTime
     (HandleRead_item K0 0 (IntraClusterPropagationHeader 0 7 (intra_frame 20)) member_node) = 20"
  "m_status
     (HandleRead_item K0 0 (IntraClusterPropagationHeader 0 7 (intra_frame 20)) member_node)
     = PROPAGATION_READY"
proof -
  let ?s = "member_node\<lparr>m_recvCounter := m_recvCounter member_node + 1\<rparr>"
  have a: "intra_accepted K0 0 7 (intra_frame 20) ?s"
    by (simp add: intra_accepted_def member_node_def node0_def mobility0_def intra_frame_def K0_def)
  have e: "HandleRead_item K0 0 (IntraClusterPropagationHeader 0 7 (intra_frame 20)) member_node
             = handle_IntraClusterPropagation K0 0 7 (intra_frame 20) ?s"
    by (simp add: HandleRead_item_def)
  show "m_currentMobility (HandleRead_item K0 0 (IntraClusterPropagationHeader 0 7 (intra_frame 20)) member_node)
     = mobility0\<lparr>clusterId := 7, degree := CM\<rparr>"
    unfolding e by (simp add: handle_IntraClusterPropagation_tables member_node_def)
  show "m_firstPropagationStartingTime
     (HandleRead_item K0 0 (IntraClusterPropagationHeader 0 7 (intra_frame 20)) member_node) = 20"
    "m_propagationStartTime
     (HandleRead_item K0 0 (IntraClusterPropagationHeader 0 7 (intra_frame 20)) member_node) = 20"
    unfolding e using a by (simp_all add: handle_IntraClusterPropagation_times intra_frame_def)
  show "m_status
     (HandleRead_item K0 0 (IntraClusterPropagationHeader 0 7 (intra_frame 20)) member_node)
     = PROPAGATION_READY"
    unfolding e by (rule handle_IntraClusterPropagation_status [OF a])
qed

lemma member_second_frame:
  "m_firstPropagationStartingTime
     (HandleRead_item K0 2 (IntraClusterPropagationHeader 1 7 (intra_frame 15))
        (HandleRead_item K0 0 (IntraClusterPropagationHeader 0 7 (intra_frame 20)) member_node)) = 15"
proof -
  define r where "r = HandleRead_item K0 0 (IntraClusterPropagationHeader 0 7 (intra_frame 20)) member_node"
  have f: "m_currentMobility r = mobility0\<lparr>clusterId := 7, degree := CM\<rparr>"
    "m_propagationStartTime r = 20" "m_status r = PROPAGATION_READY"
    unfolding r_def by (rule member_first_frame)+
  let ?s = "r\<lparr>m_recvCounter := m_recvCounter r + 1\<rparr>"
  have a: "intra_accepted K0 2 7 (intra_frame 15) ?s"
    by (simp add: intra_accepted_def f mobility0_def intra_frame_def K0_def)
  have e: "HandleRead_item K0 2 (IntraClusterPropagationHeader 1 7 (intra_frame 15)) r
             = handle_IntraClusterPropagation K0 2 7 (intra_frame 15) ?s"
    by (simp add: HandleRead_item_def)
  have "m_firstPropagationStartingTime
          (HandleRead_item K0 2 (IntraClusterPropagationHeader 1 7 (intra_frame 15)) r) = 15"
    unfolding e using a by (simp add: handle_IntraClusterPropagation_times intra_frame_def)
  then show ?thesis unfolding r_def .
qed

lemma head_frame_first:
  "m_firstPropagationStartingTime
     (HandlePacketInterCluster_item K0 1 (InterClusterPropagationHeader 0 9 wave_frame) head_cluster)
     = 15"
  by (simp add: HandlePacketInterCluster_item_def handle_InterClusterPropagation_first
        interCluster_newTime_recvCounter wave_frame_newTime)
     (simp add: head_cluster_def)

text \<open>
  The theorem at two runs. The member starts with both times at 1000; the first frame
  sets them to 20, the second lowers the first starting time to 15, and the wave starts.
  The head starts with the first starting time 1000 and the inter-cluster frame lowers
  it to 15.
\<close>

theorem firstPropagationStartingTime_updates_witness:
  "after_clustering (m_status member_node) \<and> start_before_first member_node
   \<and> admissible_run K0 md0 mob0 member_run member_node
   \<and> never_raised K0 md0 mob0 member_run member_node
   \<and> m_firstPropagationStartingTime member_node = 1000
   \<and> m_firstPropagationStartingTime
        (HandleRead_item K0 0 (IntraClusterPropagationHeader 0 7 (intra_frame 20)) member_node) = 20
   \<and> m_propagationStartTime
        (HandleRead_item K0 0 (IntraClusterPropagationHeader 0 7 (intra_frame 20)) member_node) \<le> 20
   \<and> m_firstPropagationStartingTime
        (HandleRead_item K0 2 (IntraClusterPropagationHeader 1 7 (intra_frame 15))
           (HandleRead_item K0 0 (IntraClusterPropagationHeader 0 7 (intra_frame 20)) member_node))
       = 15
   \<and> degree (m_currentMobility (run K0 md0 mob0 member_run member_node)) = CM
   \<and> after_clustering (m_status head_cluster) \<and> start_before_first head_cluster
   \<and> admissible_run K0 md0 mob0 head_run head_cluster
   \<and> never_raised K0 md0 mob0 head_run head_cluster
   \<and> m_firstPropagationStartingTime head_cluster = 1000
   \<and> m_firstPropagationStartingTime (run K0 md0 mob0 head_run head_cluster) = 15"
proof -
  have m1: "after_clustering (m_status member_node)" "start_before_first member_node"
    "m_firstPropagationStartingTime member_node = 1000"
    "degree (m_currentMobility member_node) = CM"
    by (simp_all add: member_node_def start_before_first_def)
  have m2: "admissible_run K0 md0 mob0 member_run member_node"
    by (simp add: member_run_def admissible_def)
  have h1: "after_clustering (m_status head_cluster)" "start_before_first head_cluster"
    "m_firstPropagationStartingTime head_cluster = 1000"
    "degree (m_currentMobility head_cluster) = CH"
    by (simp_all add: head_cluster_def head_node_def start_before_first_def)
  have h2: "admissible_run K0 md0 mob0 head_run head_cluster"
    by (simp add: head_run_def admissible_def h1)
  note tm = firstPropagationStartingTime_updates [OF m1(1,2) m2]
  note th = firstPropagationStartingTime_updates [OF h1(1,2) h2]
  from tm have nm: "never_raised K0 md0 mob0 member_run member_node"
    and dg: "degree (m_currentMobility (run K0 md0 mob0 member_run member_node))
               = degree (m_currentMobility member_node)"
    and est: "\<forall>r now item.
          m_firstPropagationStartingTime (HandleRead_item K0 now item r)
            \<noteq> m_firstPropagationStartingTime r
          \<longrightarrow> m_propagationStartTime (HandleRead_item K0 now item r)
                \<le> m_firstPropagationStartingTime (HandleRead_item K0 now item r)"
    by blast+
  from th have nh: "never_raised K0 md0 mob0 head_run head_cluster" by blast
  have ne: "m_firstPropagationStartingTime
              (HandleRead_item K0 0 (IntraClusterPropagationHeader 0 7 (intra_frame 20)) member_node)
            \<noteq> m_firstPropagationStartingTime member_node"
    unfolding member_first_frame(2) m1(3) by simp
  have "m_propagationStartTime
          (HandleRead_item K0 0 (IntraClusterPropagationHeader 0 7 (intra_frame 20)) member_node)
        \<le> m_firstPropagationStartingTime
          (HandleRead_item K0 0 (IntraClusterPropagationHeader 0 7 (intra_frame 20)) member_node)"
    using est ne by blast
  then have e: "m_propagationStartTime
        (HandleRead_item K0 0 (IntraClusterPropagationHeader 0 7 (intra_frame 20)) member_node) \<le> 20"
    unfolding member_first_frame(2) .
  have r: "run K0 md0 mob0 head_run head_cluster
             = HandlePacketInterCluster_item K0 1 (InterClusterPropagationHeader 0 9 wave_frame)
                 head_cluster"
    by (simp add: head_run_def step_def)
  have hf: "m_firstPropagationStartingTime (run K0 md0 mob0 head_run head_cluster) = 15"
    unfolding r by (rule head_frame_first)
  have dg': "degree (m_currentMobility (run K0 md0 mob0 member_run member_node)) = CM"
    unfolding dg by (rule m1(4))
  show ?thesis
    by (intro conjI)
       (fact m1 m2 h1 h2 nm nh e hf dg' member_first_frame(2) member_second_frame)+
qed

section \<open>The inter-node frame: the sector of acceptance and the new start time\<close>






























section \<open>The direction solver: the cells considered and the outgoing vector\<close>

lemma cell_xy: "Vec (cell_x K b (int k)) (cell_y K b (int k)) 0 = cell_of_index K b k"
proof -
  have "(int k - int k mod DISTRO_MAP_SIZE K) div DISTRO_MAP_SIZE K = int k div DISTRO_MAP_SIZE K"
    by (cases "DISTRO_MAP_SIZE K = 0") (simp_all add: minus_mod_eq_mult_div)
  then show ?thesis
    by (simp add: cell_x_def cell_y_def cell_of_index_def cell_position_def Vec_def mult.commute)
qed

lemma qualifying_from_Nil [simp]: "qualifying_from K p0 v b k [] = []"
  by (simp add: qualifying_from_def)

lemma qualifying_from_Cons:
  "qualifying_from K p0 v b k (val # rest) =
     (if val > 1 \<and> IsInSector p0 (cell_of_index K b k) v 100 (PROPAGATION_THETA K)
      then [cell_of_index K b k] else [])
     @ qualifying_from K p0 v b (Suc k) rest"
  by (simp add: qualifying_from_def)

lemma cell_loop_Cons:
  "cell_loop K p0 v b (val # rest) index c
     = cell_loop K p0 v b rest (index + 1) (cell_loop K p0 v b [val] index c)"
  by simp

lemma cell_loop_single:
  "cell_loop K p0 v b [val] (int k) c =
     (if val > 1 \<and> IsInSector p0 (cell_of_index K b k) v 100 (PROPAGATION_THETA K)
      then if distance_gt (candidate_distance c) (hnorm (vsub (cell_of_index K b k) p0))
           then c\<lparr>candidate_found := True,
                  candidate_distance := Some (hnorm (vsub (cell_of_index K b k) p0)),
                  candidate_pos := cell_of_index K b k,
                  candidate_outcome := outgoing v p0 (cell_of_index K b k)\<rparr>
           else c\<lparr>candidate_found := True\<rparr>
      else c)"
proof -
  have v: "vx (cell_of_index K b k) = cell_x K b (int k)" "vy (cell_of_index K b k) = cell_y K b (int k)"
    by (simp_all add: cell_xy [symmetric])
  show ?thesis
    by (simp add: Let_def cell_xy outgoing_def hnorm_def hdot_def vsub_def v)
qed

lemma cell_loop_nearest:
  "tracks v p0 c \<Longrightarrow>
     tracks v p0 (cell_loop K p0 v b ds (int k) c)
     \<and> candidate_found (cell_loop K p0 v b ds (int k) c)
         = (candidate_found c \<or> qualifying_from K p0 v b k ds \<noteq> [])
     \<and> (candidate_found (cell_loop K p0 v b ds (int k) c) \<longrightarrow>
          (candidate_pos (cell_loop K p0 v b ds (int k) c) \<in> set (qualifying_from K p0 v b k ds)
           \<or> candidate_found c
             \<and> candidate_pos (cell_loop K p0 v b ds (int k) c) = candidate_pos c)
          \<and> (\<forall>q \<in> set (qualifying_from K p0 v b k ds).
                hnorm (vsub (candidate_pos (cell_loop K p0 v b ds (int k) c)) p0)
                  \<le> hnorm (vsub q p0))
          \<and> (candidate_found c \<longrightarrow>
                hnorm (vsub (candidate_pos (cell_loop K p0 v b ds (int k) c)) p0)
                  \<le> hnorm (vsub (candidate_pos c) p0)))"
proof (induction ds arbitrary: k c)
  case Nil
  then show ?case by simp
next
  case (Cons val rest)
  let ?q = "cell_of_index K b k"
  let ?c1 = "cell_loop K p0 v b [val] (int k) c"
  let ?c2 = "cell_loop K p0 v b rest (int (Suc k)) ?c1"
  have loop: "cell_loop K p0 v b (val # rest) (int k) c = ?c2"
    using cell_loop_Cons [of K p0 v b val rest "int k" c] by (simp add: add.commute)
  show ?case
  proof (cases "val > 1 \<and> IsInSector p0 ?q v 100 (PROPAGATION_THETA K)")
    case False
    then have c1: "?c1 = c" by (auto simp add: cell_loop_single simp del: cell_loop.simps)
    have qs: "qualifying_from K p0 v b k (val # rest) = qualifying_from K p0 v b (Suc k) rest"
      using False by (auto simp add: qualifying_from_Cons)
    show ?thesis
      unfolding loop qs c1 by (rule Cons.IH [OF Cons.prems])
  next
    case True
    have qs: "qualifying_from K p0 v b k (val # rest) = ?q # qualifying_from K p0 v b (Suc k) rest"
      using True by (simp add: qualifying_from_Cons)
    show ?thesis
    proof (cases "distance_gt (candidate_distance c) (hnorm (vsub ?q p0))")
      case gt: True
      have c1: "?c1 = c\<lparr>candidate_found := True,
                  candidate_distance := Some (hnorm (vsub ?q p0)),
                  candidate_pos := ?q, candidate_outcome := outgoing v p0 ?q\<rparr>"
        using True gt by (simp add: cell_loop_single del: cell_loop.simps)
      have t1: "tracks v p0 ?c1" by (simp add: c1 tracks_def del: cell_loop.simps)
      have f1: "candidate_found ?c1" "candidate_pos ?c1 = ?q" by (simp_all add: c1 del: cell_loop.simps)
      have old: "candidate_found c \<Longrightarrow> hnorm (vsub ?q p0) \<le> hnorm (vsub (candidate_pos c) p0)"
        using gt Cons.prems by (simp add: tracks_def distance_gt_def)
      note ih = Cons.IH [OF t1, of "Suc k"]
      show ?thesis
        unfolding loop qs using ih old f1 by (auto simp del: cell_loop.simps)
    next
      case ngt: False
      have c1: "?c1 = c\<lparr>candidate_found := True\<rparr>"
        using True ngt by (simp add: cell_loop_single del: cell_loop.simps)
      have fc: "candidate_found c"
        using ngt Cons.prems by (auto simp add: tracks_def distance_gt_def split: if_splits)
      have le: "hnorm (vsub (candidate_pos c) p0) \<le> hnorm (vsub ?q p0)"
        using ngt Cons.prems fc by (simp add: tracks_def distance_gt_def)
      have c1': "?c1 = c" using fc by (simp add: c1 del: cell_loop.simps)
      note ih = Cons.IH [OF Cons.prems, of "Suc k"]
      show ?thesis
        unfolding loop qs c1' using ih le fc by (auto simp del: cell_loop.simps)
    qed
  qed
qed

lemma qualifying_from_set:
  "set (qualifying_from K p0 v b k ds) =
     {cell_of_index K b (k + n) | n. n < length ds \<and> ds ! n > 1
        \<and> IsInSector p0 (cell_of_index K b (k + n)) v 100 (PROPAGATION_THETA K)}"
proof (induction ds arbitrary: k)
  case Nil
  then show ?case by simp
next
  case (Cons val rest)
  show ?case (is "?A = ?B")
  proof (intro set_eqI iffI)
    fix q assume "q \<in> ?A"
    then consider
      (h) "val > 1" "IsInSector p0 (cell_of_index K b k) v 100 (PROPAGATION_THETA K)"
          "q = cell_of_index K b k"
      | (t) "q \<in> set (qualifying_from K p0 v b (Suc k) rest)"
      by (auto simp add: qualifying_from_Cons split: if_splits)
    then show "q \<in> ?B"
    proof cases
      case h
      then show ?thesis by (intro CollectI exI [of _ 0]) simp
    next
      case t
      then obtain n where "n < length rest" "rest ! n > 1" "q = cell_of_index K b (Suc k + n)"
        "IsInSector p0 (cell_of_index K b (Suc k + n)) v 100 (PROPAGATION_THETA K)"
        unfolding Cons.IH by blast
      then show ?thesis by (intro CollectI exI [of _ "Suc n"]) simp
    qed
  next
    fix q assume "q \<in> ?B"
    then obtain n where n: "n < length (val # rest)" "(val # rest) ! n > 1"
      "q = cell_of_index K b (k + n)"
      "IsInSector p0 (cell_of_index K b (k + n)) v 100 (PROPAGATION_THETA K)"
      by blast
    show "q \<in> ?A"
    proof (cases n)
      case 0
      then show ?thesis using n by (simp add: qualifying_from_Cons)
    next
      case (Suc m)
      then have "q \<in> set (qualifying_from K p0 v b (Suc k) rest)"
        unfolding Cons.IH using n by (intro CollectI exI [of _ m]) simp
      then show ?thesis by (simp add: qualifying_from_Cons)
    qed
  qed
qed

lemma qualifying_cells_set:
  assumes S: "0 < DISTRO_MAP_SIZE K"
  shows "set (qualifying_cells K p0 v b ds) =
     {cell_position K b i j | i j. 0 \<le> i \<and> 0 \<le> j \<and> j < DISTRO_MAP_SIZE K
        \<and> nat (DISTRO_MAP_SIZE K * i + j) < length ds
        \<and> ds ! nat (DISTRO_MAP_SIZE K * i + j) > 1
        \<and> IsInSector p0 (cell_position K b i j) v 100 (PROPAGATION_THETA K)}"
    (is "?L = ?R")
proof (intro set_eqI iffI)
  fix q assume "q \<in> ?L"
  then obtain n where n: "n < length ds" "ds ! n > 1" "q = cell_of_index K b n"
    "IsInSector p0 (cell_of_index K b n) v 100 (PROPAGATION_THETA K)"
    by (auto simp add: qualifying_cells_def qualifying_from_set)
  let ?i = "int n div DISTRO_MAP_SIZE K" and ?j = "int n mod DISTRO_MAP_SIZE K"
  have "0 \<le> ?i" using S by (simp add: pos_imp_zdiv_nonneg_iff)
  moreover have "0 \<le> ?j" "?j < DISTRO_MAP_SIZE K" using S by simp_all
  moreover have "nat (DISTRO_MAP_SIZE K * ?i + ?j) = n" by simp
  ultimately show "q \<in> ?R"
    using n unfolding cell_of_index_def
    by (intro CollectI exI [of _ ?i] exI [of _ ?j]) simp
next
  fix q assume "q \<in> ?R"
  then obtain i j where ij: "0 \<le> i" "0 \<le> j" "j < DISTRO_MAP_SIZE K"
    "nat (DISTRO_MAP_SIZE K * i + j) < length ds" "ds ! nat (DISTRO_MAP_SIZE K * i + j) > 1"
    "q = cell_position K b i j"
    "IsInSector p0 (cell_position K b i j) v 100 (PROPAGATION_THETA K)"
    by blast
  let ?n = "nat (DISTRO_MAP_SIZE K * i + j)"
  have nn: "0 \<le> DISTRO_MAP_SIZE K * i + j" using ij S by simp
  then have n: "int ?n = DISTRO_MAP_SIZE K * i + j" by simp
  have d: "int ?n div DISTRO_MAP_SIZE K = i" using ij S unfolding n by simp
  have m: "int ?n mod DISTRO_MAP_SIZE K = j" using ij S unfolding n by simp
  have c: "cell_of_index K b ?n = cell_position K b i j"
    unfolding cell_of_index_def d m ..
  show "q \<in> ?L"
    unfolding qualifying_cells_def qualifying_from_set using ij c
    by (intro CollectI exI [of _ ?n]) simp
qed

lemma outgoing_speed:
  assumes "hnorm (vsub q p0) \<noteq> 0"
  shows "hnorm (outgoing v p0 q) = hnorm v"
proof -
  define d where "d = hnorm (vsub q p0)"
  define dx dy where "dx = vx q - vx p0" and "dy = vy q - vy p0"
  have nn: "0 \<le> hdot (vsub q p0) (vsub q p0)" by (simp add: hdot_def)
  have "0 \<le> d" unfolding d_def hnorm_def using nn by simp
  then have d0: "0 < d" using assms unfolding d_def by simp
  have dd: "d * d = dx * dx + dy * dy"
  proof -
    have "0 \<le> hdot (vsub q p0) (vsub q p0)" by (simp add: hdot_def)
    then have "d * d = hdot (vsub q p0) (vsub q p0)" unfolding d_def hnorm_def by simp
    then show ?thesis by (simp add: hdot_def vsub_def dx_def dy_def)
  qed
  have v0: "0 \<le> hnorm v" by (simp add: hnorm_def hdot_def)
  have "hdot (outgoing v p0 q) (outgoing v p0 q)
          = (hnorm v * dx / d) * (hnorm v * dx / d) + (hnorm v * dy / d) * (hnorm v * dy / d)"
    by (simp add: hdot_def outgoing_def d_def dx_def dy_def)
  also have "\<dots> = hnorm v * hnorm v * (dx * dx + dy * dy) / (d * d)"
    by (simp add: algebra_simps add_divide_distrib)
  also have "\<dots> = hnorm v * hnorm v" using d0 by (simp add: dd [symmetric])
  finally have "hdot (outgoing v p0 q) (outgoing v p0 q) = hnorm v * hnorm v" .
  then show ?thesis using v0 by (simp add: hnorm_def [of "outgoing v p0 q"])
qed

lemma candidate_init_tracks: "tracks v p0 candidate_init"
  by (simp add: tracks_def candidate_init_def)

lemma cell_loop_result:
  "candidate_found (cell_loop K p0 v b ds 0 candidate_init)
     = (qualifying_cells K p0 v b ds \<noteq> [])"
  "qualifying_cells K p0 v b ds \<noteq> [] \<Longrightarrow>
     nearest_of p0 (candidate_pos (cell_loop K p0 v b ds 0 candidate_init))
       (qualifying_cells K p0 v b ds)"
  "qualifying_cells K p0 v b ds \<noteq> [] \<Longrightarrow>
     candidate_outcome (cell_loop K p0 v b ds 0 candidate_init)
       = outgoing v p0 (candidate_pos (cell_loop K p0 v b ds 0 candidate_init))"
proof -
  note n = cell_loop_nearest [OF candidate_init_tracks, of v p0 K b ds 0]
  have i: "\<not> candidate_found candidate_init" by (simp add: candidate_init_def)
  show f: "candidate_found (cell_loop K p0 v b ds 0 candidate_init)
     = (qualifying_cells K p0 v b ds \<noteq> [])"
    using n i by (simp add: qualifying_cells_def)
  {
    assume q: "qualifying_cells K p0 v b ds \<noteq> []"
    then have fc: "candidate_found (cell_loop K p0 v b ds 0 candidate_init)" by (simp add: f)
    show "nearest_of p0 (candidate_pos (cell_loop K p0 v b ds 0 candidate_init))
       (qualifying_cells K p0 v b ds)"
      using n i fc by (simp add: qualifying_cells_def nearest_of_def)
    show "candidate_outcome (cell_loop K p0 v b ds 0 candidate_init)
       = outgoing v p0 (candidate_pos (cell_loop K p0 v b ds 0 candidate_init))"
      using n fc by (simp add: tracks_def)
  }
qed

lemma solver_step_none:
  assumes "map_find key (m_neighborClusterList (solver_state acc)) = Some n"
    and "qualifying_cells K p0 v (position n) ds = []"
  shows "solver_step K now p0 v (key, ds) acc = acc"
  using assms cell_loop_result(1) [of K p0 v "position n" ds]
  by (simp add: solver_step_def base_position_def Let_def)

lemma solver_step_some:
  assumes known: "map_find key (m_neighborClusterList (solver_state acc)) = Some n"
    and some: "qualifying_cells K p0 v (position n) ds \<noteq> []"
  shows "\<exists>q. nearest_of p0 q (qualifying_cells K p0 v (position n) ds)
     \<and> sim_queue (solver_state (solver_step K now p0 v (key, ds) acc))
         = sim_queue (solver_state acc)
           @ [\<lparr>ev_uid = sim_next_uid (solver_state acc),
                ev_time = now + sending_timeslot acc,
                ev_cb = CbSendTo key
                  [InterClusterPropagationHeader (m_sentCounter (solver_state acc))
                     (clusterId (m_currentMobility (solver_state acc)))
                     (propagation_frame (solver_state acc) p0 v q)]
                  (AckInterClusterEntry key)\<rparr>]
     \<and> outcome_sum (solver_step K now p0 v (key, ds) acc) = vadd (outcome_sum acc) (outgoing v p0 q)
     \<and> outcome_num (solver_step K now p0 v (key, ds) acc) = outcome_num acc + 1
     \<and> sending_timeslot (solver_step K now p0 v (key, ds) acc)
         = sending_timeslot acc + m_minimumTdmaSlot K * 50"
proof -
  let ?c = "cell_loop K p0 v (position n) ds 0 candidate_init"
  have f: "candidate_found ?c" using some by (simp add: cell_loop_result(1))
  have o: "candidate_outcome ?c = outgoing v p0 (candidate_pos ?c)"
    using some by (rule cell_loop_result(3))
  have m: "nearest_of p0 (candidate_pos ?c) (qualifying_cells K p0 v (position n) ds)"
    using some by (rule cell_loop_result(2))
  have b: "base_position (solver_state acc) key = position n"
    using known by (simp add: base_position_def)
  show ?thesis
    apply (rule exI [of _ "candidate_pos ?c"])
    using f o m
    by (simp add: solver_step_def Let_def b Schedule_def propagation_frame_def)
qed

lemma solver_step_scheduler:
  "\<exists>new. sim_queue (solver_state (solver_step K now p0 v e acc))
            = sim_queue (solver_state acc) @ new"
  "sim_next_uid (solver_state acc) \<le> sim_next_uid (solver_state (solver_step K now p0 v e acc))"
  "m_interNodePropagationEvent (solver_state (solver_step K now p0 v e acc))
     = m_interNodePropagationEvent (solver_state acc)"
  by (simp_all add: solver_step_def Let_def Schedule_def)

lemma solver_loop_scheduler:
  "set (sim_queue (solver_state acc))
     \<subseteq> set (sim_queue (solver_state (solver_loop K now p0 v entries acc)))"
  "sim_next_uid (solver_state acc)
     \<le> sim_next_uid (solver_state (solver_loop K now p0 v entries acc))"
  "m_interNodePropagationEvent (solver_state (solver_loop K now p0 v entries acc))
     = m_interNodePropagationEvent (solver_state acc)"
proof (induction entries arbitrary: acc)
  case Nil
  {
    case 1 show ?case by simp
  next
    case 2 show ?case by simp
  next
    case 3 show ?case by simp
  }
next
  case (Cons e rest)
  {
    case 1
    obtain new where "sim_queue (solver_state (solver_step K now p0 v e acc))
            = sim_queue (solver_state acc) @ new"
      using solver_step_scheduler(1) [of K now p0 v e acc] by blast
    then have "set (sim_queue (solver_state acc))
        \<subseteq> set (sim_queue (solver_state (solver_step K now p0 v e acc)))"
      by simp
    then show ?case
      using Cons.IH(1) [of "solver_step K now p0 v e acc"] by simp
  next
    case 2
    show ?case
      using Cons.IH(2) [of "solver_step K now p0 v e acc"]
        solver_step_scheduler(2) [of acc K now p0 v e]
      by simp
  next
    case 3
    show ?case
      using Cons.IH(3) [of "solver_step K now p0 v e acc"]
        solver_step_scheduler(3) [of K now p0 v e acc]
      by simp
  }
qed

lemma solver_step_emits:
  assumes known: "map_find key (m_neighborClusterList (solver_state acc)) = Some n"
    and some: "qualifying_cells K p0 v (position n) ds \<noteq> []"
  shows "\<exists>q. nearest_of p0 q (qualifying_cells K p0 v (position n) ds)
     \<and> propagation_event (solver_state acc) key p0 v q (sim_next_uid (solver_state acc))
          (now + sending_timeslot acc) (m_sentCounter (solver_state acc))
        \<in> set (sim_queue (solver_state (solver_step K now p0 v (key, ds) acc)))"
proof -
  obtain q where q: "nearest_of p0 q (qualifying_cells K p0 v (position n) ds)"
    and queue: "sim_queue (solver_state (solver_step K now p0 v (key, ds) acc))
         = sim_queue (solver_state acc)
           @ [\<lparr>ev_uid = sim_next_uid (solver_state acc),
                ev_time = now + sending_timeslot acc,
                ev_cb = CbSendTo key
                  [InterClusterPropagationHeader (m_sentCounter (solver_state acc))
                     (clusterId (m_currentMobility (solver_state acc)))
                     (propagation_frame (solver_state acc) p0 v q)]
                  (AckInterClusterEntry key)\<rparr>]"
    using solver_step_some [OF known some, of now] by blast
  show ?thesis
    using q by (intro exI [of _ q]) (simp add: queue propagation_event_def)
qed

lemma propagation_event_same:
  "same_tables s r \<Longrightarrow> propagation_event r key p0 v q uid t seq
     = propagation_event s key p0 v q uid t seq"
  by (simp add: propagation_event_def propagation_frame_def same_tables_def)

lemma solver_loop_emits:
  assumes "(key, ds) \<in> set entries"
    and "map_find key (m_neighborClusterList (solver_state acc)) = Some n"
    and "qualifying_cells K p0 v (position n) ds \<noteq> []"
  shows "\<exists>q uid t seq. nearest_of p0 q (qualifying_cells K p0 v (position n) ds)
     \<and> sim_next_uid (solver_state acc) \<le> uid
     \<and> propagation_event (solver_state acc) key p0 v q uid t seq
        \<in> set (sim_queue (solver_state (solver_loop K now p0 v entries acc)))"
  using assms
proof (induction entries arbitrary: acc)
  case Nil
  then show ?case by simp
next
  case (Cons e rest)
  let ?acc = "solver_step K now p0 v e acc"
  have st: "same_tables (solver_state acc) (solver_state ?acc)"
    by (rule same_tables_solver_step)
  show ?case
  proof (cases "e = (key, ds)")
    case True
    obtain q where q: "nearest_of p0 q (qualifying_cells K p0 v (position n) ds)"
      and ev: "propagation_event (solver_state acc) key p0 v q (sim_next_uid (solver_state acc))
          (now + sending_timeslot acc) (m_sentCounter (solver_state acc))
        \<in> set (sim_queue (solver_state ?acc))"
      using solver_step_emits [OF Cons.prems(2) Cons.prems(3), of now] True by blast
    have "propagation_event (solver_state acc) key p0 v q (sim_next_uid (solver_state acc))
          (now + sending_timeslot acc) (m_sentCounter (solver_state acc))
        \<in> set (sim_queue (solver_state (solver_loop K now p0 v (e # rest) acc)))"
      using ev solver_loop_scheduler(1) [of ?acc K now p0 v rest] by auto
    then show ?thesis using q by blast
  next
    case False
    then have mem: "(key, ds) \<in> set rest" using Cons.prems(1) by simp
    have known: "map_find key (m_neighborClusterList (solver_state ?acc)) = Some n"
      using Cons.prems(2) same_tablesD(4) [OF st] by simp
    obtain q uid t seq where q: "nearest_of p0 q (qualifying_cells K p0 v (position n) ds)"
      and u: "sim_next_uid (solver_state ?acc) \<le> uid"
      and ev: "propagation_event (solver_state ?acc) key p0 v q uid t seq
        \<in> set (sim_queue (solver_state (solver_loop K now p0 v rest ?acc)))"
      using Cons.IH [OF mem known Cons.prems(3)] by blast
    have u': "sim_next_uid (solver_state acc) \<le> uid"
      using u solver_step_scheduler(2) [of acc K now p0 v e] by linarith
    have "propagation_event (solver_state acc) key p0 v q uid t seq
        \<in> set (sim_queue (solver_state (solver_loop K now p0 v (e # rest) acc)))"
      using ev by (simp add: propagation_event_same [OF st])
    then show ?thesis using q u' by blast
  qed
qed

lemma cancel_running_scheduler:
  "sim_next_uid (cancel_running es s) = sim_next_uid s"
  "m_interNodePropagationEvent (cancel_running es s) = m_interNodePropagationEvent s"
  by (induction es arbitrary: s) (simp_all add: Cancel_def split: option.splits)

lemma ScheduleTransmit_scheduler:
  "set (sim_queue s) \<subseteq> set (sim_queue (ScheduleTransmit now dt s))"
  "m_interNodePropagationEvent (ScheduleTransmit now dt s) = m_interNodePropagationEvent s"
  by (auto simp add: ScheduleTransmit_def Schedule_def Let_def)

lemma ScheduleInterNodePropagation_keeps:
  assumes "ev \<in> set (sim_queue s)" and "m_interNodePropagationEvent s \<noteq> Some (ev_uid ev)"
  shows "ev \<in> set (sim_queue (ScheduleInterNodePropagation K now s))"
  using assms
  by (cases "m_interNodePropagationEvent s")
     (auto simp add: ScheduleInterNodePropagation_def Let_def Schedule_def Cancel_def IsRunning_def)

lemma starting_position_same:
  "same_tables s r \<Longrightarrow> starting_position r ident = starting_position s ident"
  by (simp add: starting_position_def same_tables_def split: option.splits)

lemma TransmitPropagationDirection_emits:
  assumes start: "starting_position s ident = Some p0"
    and mem: "(key, ds) \<in> set (m_neighborDistroMap s)"
    and known: "map_find key (m_neighborClusterList s) = Some n"
    and some: "qualifying_cells K p0 v (position n) ds \<noteq> []"
    and fresh: "\<forall>u. m_interNodePropagationEvent s = Some u \<longrightarrow> u < sim_next_uid s"
  shows "\<exists>q uid t seq. nearest_of p0 q (qualifying_cells K p0 v (position n) ds)
     \<and> propagation_event s key p0 v q uid t seq
        \<in> set (sim_queue (TransmitPropagationDirection K now ident v s))"
proof -
  define s' where "s' = cancel_running (m_sendingInterClusterPropagationEvent s) s"
  define acc0 where "acc0 = \<lparr>sending_timeslot = m_minimumTdmaSlot K * real (m_maxUes K),
                           outcome_sum = Vec 0 0 0, outcome_num = 0, solver_state = s'\<rparr>"
  define acc where "acc = solver_loop K now p0 v (m_neighborDistroMap s') acc0"
  define s2 where "s2 = (solver_state acc)\<lparr>m_propagationDirection :=
        Vec (sqrt (vx v * vx v + vy v * vy v) * vx (outcome_sum acc)
               / sqrt (vx (outcome_sum acc) * vx (outcome_sum acc)
                       + vy (outcome_sum acc) * vy (outcome_sum acc)))
            (sqrt (vx v * vx v + vy v * vy v) * vy (outcome_sum acc)
               / sqrt (vx (outcome_sum acc) * vx (outcome_sum acc)
                       + vy (outcome_sum acc) * vy (outcome_sum acc))) 0.0\<rparr>"
  define s3 where "s3 = (if length (m_clusterList s2) > 0
                        then (let t = ScheduleTransmit now (sending_timeslot acc) s2
                              in t\<lparr>m_sendingInterClusterPropagationEvent :=
                                      m_sendingInterClusterPropagationEvent t @ [m_sendEvent t]\<rparr>)
                        else s2)"
  have st: "same_tables s s'" unfolding s'_def by (rule same_tables_cancel_running)
  have start': "starting_position s' ident = Some p0"
    using start by (simp add: starting_position_same [OF st])
  have tpd: "TransmitPropagationDirection K now ident v s
       = (if ident = imsi (m_currentMobility s3)
                    \<and> (\<not> DISABLE_STARTINGNODE K \<or> isStartingNode (m_currentMobility s3))
          then ScheduleInterNodePropagation K now
                        (s3\<lparr>m_propagationStartTime := m_firstPropagationStartingTime s3\<rparr>)
          else s3)"
    by (simp only: TransmitPropagationDirection_def Let_def s'_def [symmetric] start'
          option.case s3_def s2_def acc_def acc0_def)
  have mem': "(key, ds) \<in> set (m_neighborDistroMap s')"
    using mem same_tablesD(5) [OF st] by simp
  have known': "map_find key (m_neighborClusterList (solver_state acc0)) = Some n"
    using known same_tablesD(4) [OF st] by (simp add: acc0_def)
  obtain q uid t seq where q: "nearest_of p0 q (qualifying_cells K p0 v (position n) ds)"
    and u: "sim_next_uid (solver_state acc0) \<le> uid"
    and ev: "propagation_event (solver_state acc0) key p0 v q uid t seq
        \<in> set (sim_queue (solver_state acc))"
    using solver_loop_emits [OF mem' known' some, of now] unfolding acc_def by blast
  let ?ev = "propagation_event s key p0 v q uid t seq"
  have same: "propagation_event (solver_state acc0) key p0 v q uid t seq = ?ev"
    using propagation_event_same [OF st] by (simp add: acc0_def)
  have uid: "ev_uid ?ev = uid" by (simp add: propagation_event_def)
  have u0: "sim_next_uid s \<le> uid"
    using u by (simp add: acc0_def s'_def cancel_running_scheduler)
  have in2: "?ev \<in> set (sim_queue s2)" using ev same by (simp add: s2_def)
  have in3: "?ev \<in> set (sim_queue s3)"
    using in2 ScheduleTransmit_scheduler(1) [of s2 now "sending_timeslot acc"]
    by (auto simp add: s3_def Let_def)
  have e3: "m_interNodePropagationEvent s3 = m_interNodePropagationEvent s"
    by (simp add: s3_def Let_def ScheduleTransmit_scheduler s2_def acc_def
          solver_loop_scheduler acc0_def s'_def cancel_running_scheduler)
  have ne: "m_interNodePropagationEvent s3 \<noteq> Some uid"
    using fresh u0 unfolding e3 by auto
  have "?ev \<in> set (sim_queue (TransmitPropagationDirection K now ident v s))"
  proof (cases "ident = imsi (m_currentMobility s3)
                    \<and> (\<not> DISABLE_STARTINGNODE K \<or> isStartingNode (m_currentMobility s3))")
    case True
    have "?ev \<in> set (sim_queue (ScheduleInterNodePropagation K now
                        (s3\<lparr>m_propagationStartTime := m_firstPropagationStartingTime s3\<rparr>)))"
      by (rule ScheduleInterNodePropagation_keeps) (simp_all add: in3 ne uid)
    then show ?thesis unfolding tpd if_P [OF True] .
  next
    case False
    show ?thesis unfolding tpd if_not_P [OF False] by (rule in3)
  qed
  then show ?thesis using q by blast
qed

text \<open>
  Claim C4. For a neighbour cluster whose head's position is known and a density map of
  rows of positive length: the qualifying cells are exactly the cells \<open>(i, j)\<close> of the map
  with a value above 1 whose position, the head's position plus
  \<open>(scale * (j - size div 2), scale * (i - size div 2))\<close>, passes the sector test of radius
  100 around the starting position with the incoming vector as axis. When no cell
  qualifies the solver does nothing for the neighbour. When one does, the solver chooses
  a qualifying cell nearest the starting position, schedules the frame with that cell as
  destination and the outgoing vector \<open>|v| * (q - p0) / |q - p0|\<close> as direction, and adds
  the vector to the sum of the outgoing vectors; the vector has the speed of the incoming
  one where the cell is not the starting position itself. In
  \<^verbatim>\<open>TransmitPropagationDirection\<close>, for every entry of the table of density maps with a
  known head and a qualifying cell, such a frame is in the queue afterwards, provided the
  identifier of the node's pending start event is one the scheduler has handed out.
\<close>

theorem direction_solver_cells:
  assumes size: "0 < DISTRO_MAP_SIZE K"
    and known: "map_find key (m_neighborClusterList (solver_state acc)) = Some n"
  shows "set (qualifying_cells K p0 v (position n) ds) =
       {cell_position K (position n) i j | i j. 0 \<le> i \<and> 0 \<le> j \<and> j < DISTRO_MAP_SIZE K
          \<and> nat (DISTRO_MAP_SIZE K * i + j) < length ds
          \<and> ds ! nat (DISTRO_MAP_SIZE K * i + j) > 1
          \<and> IsInSector p0 (cell_position K (position n) i j) v 100 (PROPAGATION_THETA K)}
     \<and> (qualifying_cells K p0 v (position n) ds = [] \<longrightarrow>
          solver_step K now p0 v (key, ds) acc = acc)
     \<and> (qualifying_cells K p0 v (position n) ds \<noteq> [] \<longrightarrow>
          (\<exists>q. nearest_of p0 q (qualifying_cells K p0 v (position n) ds)
             \<and> sim_queue (solver_state (solver_step K now p0 v (key, ds) acc))
                 = sim_queue (solver_state acc)
                   @ [propagation_event (solver_state acc) key p0 v q
                        (sim_next_uid (solver_state acc)) (now + sending_timeslot acc)
                        (m_sentCounter (solver_state acc))]
             \<and> outcome_sum (solver_step K now p0 v (key, ds) acc)
                 = vadd (outcome_sum acc) (outgoing v p0 q)
             \<and> (hnorm (vsub q p0) \<noteq> 0 \<longrightarrow> hnorm (outgoing v p0 q) = hnorm v)))
     \<and> (starting_position s ident = Some p0 \<and> (key, ds) \<in> set (m_neighborDistroMap s)
          \<and> map_find key (m_neighborClusterList s) = Some n
          \<and> (\<forall>u. m_interNodePropagationEvent s = Some u \<longrightarrow> u < sim_next_uid s)
          \<and> qualifying_cells K p0 v (position n) ds \<noteq> [] \<longrightarrow>
          (\<exists>q uid t seq. nearest_of p0 q (qualifying_cells K p0 v (position n) ds)
             \<and> propagation_event s key p0 v q uid t seq
                \<in> set (sim_queue (TransmitPropagationDirection K now ident v s))))"
proof (intro conjI impI)
  show "set (qualifying_cells K p0 v (position n) ds) =
       {cell_position K (position n) i j | i j. 0 \<le> i \<and> 0 \<le> j \<and> j < DISTRO_MAP_SIZE K
          \<and> nat (DISTRO_MAP_SIZE K * i + j) < length ds
          \<and> ds ! nat (DISTRO_MAP_SIZE K * i + j) > 1
          \<and> IsInSector p0 (cell_position K (position n) i j) v 100 (PROPAGATION_THETA K)}"
    by (rule qualifying_cells_set [OF size])
next
  assume "qualifying_cells K p0 v (position n) ds = []"
  then show "solver_step K now p0 v (key, ds) acc = acc"
    by (rule solver_step_none [OF known])
next
  assume some: "qualifying_cells K p0 v (position n) ds \<noteq> []"
  obtain q where q: "nearest_of p0 q (qualifying_cells K p0 v (position n) ds)"
    and queue: "sim_queue (solver_state (solver_step K now p0 v (key, ds) acc))
         = sim_queue (solver_state acc)
           @ [\<lparr>ev_uid = sim_next_uid (solver_state acc),
                ev_time = now + sending_timeslot acc,
                ev_cb = CbSendTo key
                  [InterClusterPropagationHeader (m_sentCounter (solver_state acc))
                     (clusterId (m_currentMobility (solver_state acc)))
                     (propagation_frame (solver_state acc) p0 v q)]
                  (AckInterClusterEntry key)\<rparr>]"
    and out: "outcome_sum (solver_step K now p0 v (key, ds) acc)
                = vadd (outcome_sum acc) (outgoing v p0 q)"
    using solver_step_some [OF known some, of now] by blast
  have "nearest_of p0 q (qualifying_cells K p0 v (position n) ds)
             \<and> sim_queue (solver_state (solver_step K now p0 v (key, ds) acc))
                 = sim_queue (solver_state acc)
                   @ [propagation_event (solver_state acc) key p0 v q
                        (sim_next_uid (solver_state acc)) (now + sending_timeslot acc)
                        (m_sentCounter (solver_state acc))]
             \<and> outcome_sum (solver_step K now p0 v (key, ds) acc)
                 = vadd (outcome_sum acc) (outgoing v p0 q)
             \<and> (hnorm (vsub q p0) \<noteq> 0 \<longrightarrow> hnorm (outgoing v p0 q) = hnorm v)"
    using q out by (simp add: queue propagation_event_def outgoing_speed)
  then show "\<exists>q. nearest_of p0 q (qualifying_cells K p0 v (position n) ds)
             \<and> sim_queue (solver_state (solver_step K now p0 v (key, ds) acc))
                 = sim_queue (solver_state acc)
                   @ [propagation_event (solver_state acc) key p0 v q
                        (sim_next_uid (solver_state acc)) (now + sending_timeslot acc)
                        (m_sentCounter (solver_state acc))]
             \<and> outcome_sum (solver_step K now p0 v (key, ds) acc)
                 = vadd (outcome_sum acc) (outgoing v p0 q)
             \<and> (hnorm (vsub q p0) \<noteq> 0 \<longrightarrow> hnorm (outgoing v p0 q) = hnorm v)"
    by (rule exI)
next
  assume a: "starting_position s ident = Some p0 \<and> (key, ds) \<in> set (m_neighborDistroMap s)
          \<and> map_find key (m_neighborClusterList s) = Some n
          \<and> (\<forall>u. m_interNodePropagationEvent s = Some u \<longrightarrow> u < sim_next_uid s)
          \<and> qualifying_cells K p0 v (position n) ds \<noteq> []"
  show "\<exists>q uid t seq. nearest_of p0 q (qualifying_cells K p0 v (position n) ds)
             \<and> propagation_event s key p0 v q uid t seq
                \<in> set (sim_queue (TransmitPropagationDirection K now ident v s))"
    using a by (intro TransmitPropagationDirection_emits) simp_all
qed

lemma sqrt_3_bound: "3 / 2 < sqrt 3"
  by (rule real_less_rsqrt) (simp add: power2_eq_square)

lemma sqrt_900: "sqrt 900 = 30"
  using real_sqrt_abs2 [of 30] by simp

lemma sqrt_2500: "sqrt 2500 = 50"
  using real_sqrt_abs2 [of 50] by simp

lemma two_cell_map_sector:
  "IsInSector (Vec 100 5 0) (Vec 50 5 0) westward 100 (pi / 3)"
  "IsInSector (Vec 100 5 0) (Vec 70 5 0) westward 100 (pi / 3)"
  "\<not> IsInSector (Vec 100 5 0) (Vec 70 (- 15) 0) westward 100 (pi / 3)"
  using sqrt_3_bound
  by (simp_all add: IsInSector_def Let_def vsub_def westward_def cos_30 sin_30)

lemma two_cell_map_cells:
  "cell_of_index K0 (Vec 50 5 0) 4 = Vec 70 (- 15) 0"
  "cell_of_index K0 (Vec 50 5 0) 12 = Vec 50 5 0"
  "cell_of_index K0 (Vec 50 5 0) 14 = Vec 70 5 0"
  by (simp_all add: cell_of_index_def cell_position_def K0_def)

lemma two_cell_map_qualifying:
  "qualifying_cells K0 (Vec 100 5 0) westward (Vec 50 5 0) two_cell_map = [Vec 50 5 0, Vec 70 5 0]"
proof -
  have t: "PROPAGATION_THETA K0 = pi / 3" by (simp add: K0_def)
  show ?thesis
    by (simp add: qualifying_cells_def two_cell_map_def qualifying_from_Cons
          numeral_2_eq_2 [symmetric] two_cell_map_cells two_cell_map_sector t)
qed

lemma two_cell_map_nearest:
  "nearest_of (Vec 100 5 0) q [Vec 50 5 0, Vec 70 5 0] \<Longrightarrow> q = Vec 70 5 0"
  by (auto simp add: nearest_of_def hnorm_def hdot_def vsub_def sqrt_900 sqrt_2500)

lemma solver_head_facts:
  "map_find 9 (m_neighborClusterList solver_head) = Some head9"
  "starting_position solver_head 1 = Some (Vec 100 5 0)"
  "m_neighborDistroMap solver_head = [(9, two_cell_map)]"
  "m_interNodePropagationEvent solver_head = None"
  "sim_queue solver_head = []" "sim_next_uid solver_head = 0" "m_sentCounter solver_head = 0"
  "position head9 = Vec 50 5 0"
  by (simp_all add: solver_head_def head_node_def node0_def mobility0_def head9_def
        starting_position_def map_find_def)

text \<open>
  The theorem at the example: of the two qualifying cells the solver chooses the later
  and nearer one, (70, 5), and sends the frame with the outgoing vector (-10, 0).
\<close>

theorem direction_solver_cells_witness:
  "0 < DISTRO_MAP_SIZE K0
   \<and> map_find 9 (m_neighborClusterList (solver_state solver_acc0)) = Some head9
   \<and> qualifying_cells K0 (Vec 100 5 0) westward (position head9) two_cell_map
       = [Vec 50 5 0, Vec 70 5 0]
   \<and> sim_queue (solver_state
        (solver_step K0 0 (Vec 100 5 0) westward (9, two_cell_map) solver_acc0))
       = [propagation_event solver_head 9 (Vec 100 5 0) westward (Vec 70 5 0) 0 0.1 0]
   \<and> outcome_sum (solver_step K0 0 (Vec 100 5 0) westward (9, two_cell_map) solver_acc0)
       = Vec (- 10) 0 0
   \<and> hnorm (outgoing westward (Vec 100 5 0) (Vec 70 5 0)) = 10
   \<and> (\<exists>uid t seq. propagation_event solver_head 9 (Vec 100 5 0) westward (Vec 70 5 0) uid t seq
         \<in> set (sim_queue (TransmitPropagationDirection K0 0 1 westward solver_head)))"
proof -
  have size: "0 < DISTRO_MAP_SIZE K0" by (simp add: K0_def)
  have known: "map_find 9 (m_neighborClusterList (solver_state solver_acc0)) = Some head9"
    by (simp add: solver_acc0_def solver_head_facts)
  have qs: "qualifying_cells K0 (Vec 100 5 0) westward (position head9) two_cell_map
       = [Vec 50 5 0, Vec 70 5 0]"
    by (simp add: solver_head_facts two_cell_map_qualifying)
  note t = direction_solver_cells [OF size known, where ?p0.0 = "Vec 100 5 0" and v = westward
      and ds = two_cell_map and now = 0 and s = solver_head and ident = 1]
  have step: "\<exists>q. nearest_of (Vec 100 5 0) q [Vec 50 5 0, Vec 70 5 0]
      \<and> sim_queue (solver_state
          (solver_step K0 0 (Vec 100 5 0) westward (9, two_cell_map) solver_acc0))
         = sim_queue (solver_state solver_acc0)
           @ [propagation_event (solver_state solver_acc0) 9 (Vec 100 5 0) westward q
                (sim_next_uid (solver_state solver_acc0)) (0 + sending_timeslot solver_acc0)
                (m_sentCounter (solver_state solver_acc0))]
      \<and> outcome_sum (solver_step K0 0 (Vec 100 5 0) westward (9, two_cell_map) solver_acc0)
         = vadd (outcome_sum solver_acc0) (outgoing westward (Vec 100 5 0) q)
      \<and> (hnorm (vsub q (Vec 100 5 0)) \<noteq> 0
           \<longrightarrow> hnorm (outgoing westward (Vec 100 5 0) q) = hnorm westward)"
    using t by (simp add: qs)
  have sent: "\<exists>q uid t seq. nearest_of (Vec 100 5 0) q [Vec 50 5 0, Vec 70 5 0]
      \<and> propagation_event solver_head 9 (Vec 100 5 0) westward q uid t seq
         \<in> set (sim_queue (TransmitPropagationDirection K0 0 1 westward solver_head))"
    using t by (simp add: solver_head_facts two_cell_map_qualifying)
  have d: "hnorm (vsub (Vec 70 5 0) (Vec 100 5 0)) \<noteq> 0"
    by (simp add: hnorm_def hdot_def vsub_def sqrt_900)
  have w: "hnorm westward = 10" by (simp add: hnorm_def hdot_def westward_def sqrt_100)
  have d30: "hnorm (vsub (Vec 70 5 0) (Vec 100 5 0)) = 30"
    by (simp add: hnorm_def hdot_def vsub_def sqrt_900)
  have o: "outgoing westward (Vec 100 5 0) (Vec 70 5 0) = Vec (- 10) 0 0"
    by (simp add: outgoing_def w d30)
  have a: "solver_state solver_acc0 = solver_head" "sending_timeslot solver_acc0 = 0.1"
    "outcome_sum solver_acc0 = Vec 0 0 0"
    by (simp_all add: solver_acc0_def)
  obtain q where n: "nearest_of (Vec 100 5 0) q [Vec 50 5 0, Vec 70 5 0]"
    and queue: "sim_queue (solver_state
          (solver_step K0 0 (Vec 100 5 0) westward (9, two_cell_map) solver_acc0))
         = sim_queue (solver_state solver_acc0)
           @ [propagation_event (solver_state solver_acc0) 9 (Vec 100 5 0) westward q
                (sim_next_uid (solver_state solver_acc0)) (0 + sending_timeslot solver_acc0)
                (m_sentCounter (solver_state solver_acc0))]"
    and out: "outcome_sum (solver_step K0 0 (Vec 100 5 0) westward (9, two_cell_map) solver_acc0)
         = vadd (outcome_sum solver_acc0) (outgoing westward (Vec 100 5 0) q)"
    and speed: "hnorm (vsub q (Vec 100 5 0)) \<noteq> 0
           \<longrightarrow> hnorm (outgoing westward (Vec 100 5 0) q) = hnorm westward"
    using step by blast
  have q: "q = Vec 70 5 0" using n by (rule two_cell_map_nearest)
  obtain q' uid t' seq where n': "nearest_of (Vec 100 5 0) q' [Vec 50 5 0, Vec 70 5 0]"
    and ev: "propagation_event solver_head 9 (Vec 100 5 0) westward q' uid t' seq
         \<in> set (sim_queue (TransmitPropagationDirection K0 0 1 westward solver_head))"
    using sent by blast
  have q': "q' = Vec 70 5 0" using n' by (rule two_cell_map_nearest)
  show ?thesis
  proof (intro conjI)
    show "0 < DISTRO_MAP_SIZE K0" by (rule size)
    show "map_find 9 (m_neighborClusterList (solver_state solver_acc0)) = Some head9"
      by (rule known)
    show "qualifying_cells K0 (Vec 100 5 0) westward (position head9) two_cell_map
       = [Vec 50 5 0, Vec 70 5 0]" by (rule qs)
    show "sim_queue (solver_state
        (solver_step K0 0 (Vec 100 5 0) westward (9, two_cell_map) solver_acc0))
       = [propagation_event solver_head 9 (Vec 100 5 0) westward (Vec 70 5 0) 0 0.1 0]"
      using queue unfolding q by (simp add: a solver_head_facts)
    show "outcome_sum (solver_step K0 0 (Vec 100 5 0) westward (9, two_cell_map) solver_acc0)
       = Vec (- 10) 0 0"
      using out unfolding q by (simp add: a o vadd_def)
    show "hnorm (outgoing westward (Vec 100 5 0) (Vec 70 5 0)) = 10"
      using speed d w unfolding q by simp
    show "\<exists>uid t seq. propagation_event solver_head 9 (Vec 100 5 0) westward (Vec 70 5 0) uid t seq
         \<in> set (sim_queue (TransmitPropagationDirection K0 0 1 westward solver_head))"
      using ev unfolding q' by blast
  qed
qed

section \<open>The inter-cluster frame: adopting the new start time and running the solver again\<close>

lemma starting_position_candidate:
  assumes "imsi (m_currentMobility s) \<notin> fst ` set (m_clusterList s)"
    and "cid = imsi (m_currentMobility s) \<or> cid \<in> fst ` set (m_clusterList s)"
  shows "starting_position s cid = Some (candidate_position s cid)"
proof (cases "cid = imsi (m_currentMobility s)")
  case True
  then have "map_find cid (m_clusterList s) = None"
    using assms(1) by (simp add: map_find_None_iff)
  then show ?thesis using True by (simp add: starting_position_def candidate_position_def)
next
  case False
  then have "cid \<in> fst ` set (m_clusterList s)" using assms(2) by simp
  then have "map_find cid (m_clusterList s) \<noteq> None" by (simp add: map_find_None_iff)
  then show ?thesis using False
    by (auto simp add: starting_position_def candidate_position_def)
qed

lemma send_Ack_keeps:
  "ev \<in> set (sim_queue s) \<Longrightarrow> ev \<in> set (sim_queue (send_Ack now dest t s))"
  by (simp add: send_Ack_def Let_def Schedule_def)

lemma handle_InterClusterPropagation_solver:
  assumes own: "imsi (m_currentMobility s) \<notin> fst ` set (m_clusterList s)"
    and fresh: "\<forall>u. m_interNodePropagationEvent s = Some u \<longrightarrow> u < sim_next_uid s"
    and earlier: "interCluster_newTime s info < m_firstPropagationStartingTime s"
    and mem: "(key, ds) \<in> set (m_neighborDistroMap s)"
    and known: "map_find key (m_neighborClusterList s) = Some n"
    and some: "qualifying_cells K
                 (candidate_position s (FindNodeByPosition s (ic_distination info)))
                 (ic_direction info) (position n) ds \<noteq> []"
  shows "\<exists>q uid t seq.
           nearest_of (candidate_position s (FindNodeByPosition s (ic_distination info))) q
             (qualifying_cells K
                (candidate_position s (FindNodeByPosition s (ic_distination info)))
                (ic_direction info) (position n) ds)
           \<and> \<lparr>ev_uid = uid, ev_time = t,
                ev_cb = CbSendTo key
                  [InterClusterPropagationHeader seq (clusterId (m_currentMobility s))
                     \<lparr>ic_startingTime = interCluster_newTime s info,
                      ic_source = candidate_position s (FindNodeByPosition s (ic_distination info)),
                      ic_distination = q,
                      ic_direction = outgoing (ic_direction info)
                        (candidate_position s (FindNodeByPosition s (ic_distination info))) q\<rparr>]
                  (AckInterClusterEntry key)\<rparr>
              \<in> set (sim_queue (handle_InterClusterPropagation K now c info s))"
proof -
  let ?cid = "FindNodeByPosition s (ic_distination info)"
  let ?p0 = "candidate_position s ?cid"
  let ?s = "s\<lparr>m_firstPropagationStartingTime := interCluster_newTime s info,
              m_firstPropagationStartNodeId := ?cid\<rparr>"
  have own': "imsi (m_currentMobility ?s) \<notin> fst ` set (m_clusterList ?s)"
    using own by simp
  have mem': "?cid = imsi (m_currentMobility ?s) \<or> ?cid \<in> fst ` set (m_clusterList ?s)"
    using FindNodeByPosition_member [of s "ic_distination info"] by simp
  have cp: "candidate_position ?s ?cid = ?p0" by (simp add: candidate_position_def)
  have sp: "starting_position ?s ?cid = Some ?p0"
    using starting_position_candidate [OF own' mem'] by (simp only: cp)
  have h: "handle_InterClusterPropagation K now c info s
         = send_Ack now c AckOfInterClusterPropagation
             (TransmitPropagationDirection K now ?cid (ic_direction info) ?s)"
    using earlier by (simp add: handle_InterClusterPropagation_def Let_def)
  obtain q uid t seq where q: "nearest_of ?p0 q
        (qualifying_cells K ?p0 (ic_direction info) (position n) ds)"
    and ev: "propagation_event ?s key ?p0 (ic_direction info) q uid t seq
        \<in> set (sim_queue (TransmitPropagationDirection K now ?cid (ic_direction info) ?s))"
    using TransmitPropagationDirection_emits [OF sp, of key ds n K "ic_direction info" now]
      mem known some fresh
    by auto
  have "propagation_event ?s key ?p0 (ic_direction info) q uid t seq
        \<in> set (sim_queue (handle_InterClusterPropagation K now c info s))"
    unfolding h using ev by (rule send_Ack_keeps)
  then show ?thesis
    using q by (auto simp add: propagation_event_def propagation_frame_def)
qed

text \<open>
  Claim C2. A node whose cluster list has distinct keys and does not list the node
  itself receives an InterClusterPropagation frame whose announced direction is not zero
  in the plane. The node it selects is itself or a member, and no member and not the
  node itself is nearer to the announced destination; the new time is the announced
  starting time plus 1.3 times the delay, the delay being the absolute value of the
  projection of the way from the source to the selected node onto the axis of the
  announced direction, divided by the speed of that direction; and the new time is
  adopted, with the selected node recorded and the solver run from it, exactly when it is
  strictly earlier than the recorded first starting time. That the solver has run from
  the selected node shows in the queue: for every neighbour cluster with a known head and
  a qualifying cell as seen from the selected node along the announced direction, the
  frame to that neighbour is scheduled, with the new time as starting time, the position
  of the selected node as source and a nearest qualifying cell as destination. An Ack is
  scheduled in either case. The identifier of a pending start event is taken to be one
  that the scheduler has handed out.
\<close>

theorem InterClusterPropagation_received:
  assumes "distinct (map fst (m_clusterList s))"
    and "imsi (m_currentMobility s) \<notin> fst ` set (m_clusterList s)"
    and "hnorm (ic_direction info) \<noteq> 0"
    and "\<forall>u. m_interNodePropagationEvent s = Some u \<longrightarrow> u < sim_next_uid s"
  shows "(FindNodeByPosition s (ic_distination info) = imsi (m_currentMobility s)
          \<or> FindNodeByPosition s (ic_distination info) \<in> fst ` set (m_clusterList s))
     \<and> CalculateDistance (ic_distination info)
          (candidate_position s (FindNodeByPosition s (ic_distination info)))
         \<le> CalculateDistance (ic_distination info) (position (m_currentMobility s))
     \<and> (\<forall>e \<in> set (m_clusterList s).
          CalculateDistance (ic_distination info)
            (candidate_position s (FindNodeByPosition s (ic_distination info)))
          \<le> CalculateDistance (ic_distination info) (position (snd e)))
     \<and> interCluster_newTime s info
         = ic_startingTime info
           + 1.3 * (\<bar>horizontal_projection
                       (vsub (candidate_position s (FindNodeByPosition s (ic_distination info)))
                             (ic_source info))
                       (ic_direction info)\<bar>
                    / hnorm (ic_direction info))
     \<and> handle_InterClusterPropagation K now c info s
         = send_Ack now c AckOfInterClusterPropagation
             (if interCluster_newTime s info < m_firstPropagationStartingTime s
              then TransmitPropagationDirection K now
                     (FindNodeByPosition s (ic_distination info)) (ic_direction info)
                     (s\<lparr>m_firstPropagationStartingTime := interCluster_newTime s info,
                        m_firstPropagationStartNodeId :=
                          FindNodeByPosition s (ic_distination info)\<rparr>)
              else s)
     \<and> m_firstPropagationStartingTime (handle_InterClusterPropagation K now c info s)
         = (if interCluster_newTime s info < m_firstPropagationStartingTime s
            then interCluster_newTime s info else m_firstPropagationStartingTime s)
     \<and> m_firstPropagationStartNodeId (handle_InterClusterPropagation K now c info s)
         = (if interCluster_newTime s info < m_firstPropagationStartingTime s
            then FindNodeByPosition s (ic_distination info)
            else m_firstPropagationStartNodeId s)
     \<and> (interCluster_newTime s info < m_firstPropagationStartingTime s \<longrightarrow>
          (\<forall>e \<in> set (m_neighborDistroMap s). \<forall>n.
             map_find (fst e) (m_neighborClusterList s) = Some n
             \<and> qualifying_cells K
                  (candidate_position s (FindNodeByPosition s (ic_distination info)))
                  (ic_direction info) (position n) (snd e) \<noteq> [] \<longrightarrow>
             (\<exists>q uid t seq.
                nearest_of (candidate_position s (FindNodeByPosition s (ic_distination info))) q
                  (qualifying_cells K
                     (candidate_position s (FindNodeByPosition s (ic_distination info)))
                     (ic_direction info) (position n) (snd e))
                \<and> \<lparr>ev_uid = uid, ev_time = t,
                     ev_cb = CbSendTo (fst e)
                       [InterClusterPropagationHeader seq (clusterId (m_currentMobility s))
                          \<lparr>ic_startingTime = interCluster_newTime s info,
                           ic_source = candidate_position s
                             (FindNodeByPosition s (ic_distination info)),
                           ic_distination = q,
                           ic_direction = outgoing (ic_direction info)
                             (candidate_position s (FindNodeByPosition s (ic_distination info)))
                             q\<rparr>]
                       (AckInterClusterEntry (fst e))\<rparr>
                   \<in> set (sim_queue (handle_InterClusterPropagation K now c info s)))))"
proof (intro conjI)
  let ?dest = "ic_distination info"
  let ?cid = "FindNodeByPosition s ?dest"
  let ?loop = "FindNode_loop ?dest (m_clusterList s)
                 (imsi (m_currentMobility s), sqdist ?dest (position (m_currentMobility s)))"
  have sq: "sqdist ?dest (candidate_position s ?cid) = snd ?loop"
    by (rule sqdist_candidate [OF assms(1) assms(2)])
  show "?cid = imsi (m_currentMobility s) \<or> ?cid \<in> fst ` set (m_clusterList s)"
    by (rule FindNodeByPosition_member)
  show "CalculateDistance ?dest (candidate_position s ?cid)
          \<le> CalculateDistance ?dest (position (m_currentMobility s))"
    using FindNode_loop_le_init [of ?dest "m_clusterList s" "imsi (m_currentMobility s)"
            "sqdist ?dest (position (m_currentMobility s))"]
    by (simp add: CalculateDistance_sqdist sq)
  show "\<forall>e \<in> set (m_clusterList s).
          CalculateDistance ?dest (candidate_position s ?cid)
          \<le> CalculateDistance ?dest (position (snd e))"
    using FindNode_loop_le_all [of _ "m_clusterList s" ?dest "imsi (m_currentMobility s)"
            "sqdist ?dest (position (m_currentMobility s))"]
    by (simp add: CalculateDistance_sqdist sq)
  show "interCluster_newTime s info
         = ic_startingTime info
           + 1.3 * (\<bar>horizontal_projection
                       (vsub (candidate_position s ?cid) (ic_source info))
                       (ic_direction info)\<bar>
                    / hnorm (ic_direction info))"
    by (simp add: interCluster_newTime_def Let_def CalcPropagationDelay_projection)
  show "handle_InterClusterPropagation K now c info s
         = send_Ack now c AckOfInterClusterPropagation
             (if interCluster_newTime s info < m_firstPropagationStartingTime s
              then TransmitPropagationDirection K now ?cid (ic_direction info)
                     (s\<lparr>m_firstPropagationStartingTime := interCluster_newTime s info,
                        m_firstPropagationStartNodeId := ?cid\<rparr>)
              else s)"
    by (simp add: handle_InterClusterPropagation_def Let_def)
  show "m_firstPropagationStartingTime (handle_InterClusterPropagation K now c info s)
         = (if interCluster_newTime s info < m_firstPropagationStartingTime s
            then interCluster_newTime s info else m_firstPropagationStartingTime s)"
    by (rule handle_InterClusterPropagation_first)
  show "m_firstPropagationStartNodeId (handle_InterClusterPropagation K now c info s)
         = (if interCluster_newTime s info < m_firstPropagationStartingTime s
            then ?cid else m_firstPropagationStartNodeId s)"
    by (rule handle_InterClusterPropagation_node)
  show "interCluster_newTime s info < m_firstPropagationStartingTime s \<longrightarrow>
          (\<forall>e \<in> set (m_neighborDistroMap s). \<forall>n.
             map_find (fst e) (m_neighborClusterList s) = Some n
             \<and> qualifying_cells K (candidate_position s ?cid)
                  (ic_direction info) (position n) (snd e) \<noteq> [] \<longrightarrow>
             (\<exists>q uid t seq.
                nearest_of (candidate_position s ?cid) q
                  (qualifying_cells K (candidate_position s ?cid)
                     (ic_direction info) (position n) (snd e))
                \<and> \<lparr>ev_uid = uid, ev_time = t,
                     ev_cb = CbSendTo (fst e)
                       [InterClusterPropagationHeader seq (clusterId (m_currentMobility s))
                          \<lparr>ic_startingTime = interCluster_newTime s info,
                           ic_source = candidate_position s ?cid,
                           ic_distination = q,
                           ic_direction = outgoing (ic_direction info)
                             (candidate_position s ?cid) q\<rparr>]
                       (AckInterClusterEntry (fst e))\<rparr>
                   \<in> set (sim_queue (handle_InterClusterPropagation K now c info s))))"
  proof (intro impI ballI allI)
    fix e n
    assume earlier: "interCluster_newTime s info < m_firstPropagationStartingTime s"
      and e: "e \<in> set (m_neighborDistroMap s)"
      and k: "map_find (fst e) (m_neighborClusterList s) = Some n
             \<and> qualifying_cells K (candidate_position s ?cid)
                  (ic_direction info) (position n) (snd e) \<noteq> []"
    have mem: "(fst e, snd e) \<in> set (m_neighborDistroMap s)" using e by simp
    show "\<exists>q uid t seq.
                nearest_of (candidate_position s ?cid) q
                  (qualifying_cells K (candidate_position s ?cid)
                     (ic_direction info) (position n) (snd e))
                \<and> \<lparr>ev_uid = uid, ev_time = t,
                     ev_cb = CbSendTo (fst e)
                       [InterClusterPropagationHeader seq (clusterId (m_currentMobility s))
                          \<lparr>ic_startingTime = interCluster_newTime s info,
                           ic_source = candidate_position s ?cid,
                           ic_distination = q,
                           ic_direction = outgoing (ic_direction info)
                             (candidate_position s ?cid) q\<rparr>]
                       (AckInterClusterEntry (fst e))\<rparr>
                   \<in> set (sim_queue (handle_InterClusterPropagation K now c info s))"
      using k by (intro handle_InterClusterPropagation_solver [OF assms(2) assms(4) earlier mem])
                 simp_all
  qed
qed

lemma sqrt_3_lt_4: "sqrt 3 < 4"
  by (rule real_less_lsqrt) simp_all

lemma map9_cells:
  "map9 = [0, 0, 0, 0, 0,  0, 0, 0, 0, 0,  0, 0, 0, 0, 2,  0, 0, 0, 0, 0,  0, 0, 0, 0, 0]"
  by (simp add: map9_def eval_nat_numeral)

lemma map9_cell_14: "cell_of_index K0 (Vec 50 5 0) 14 = Vec 70 5 0"
  by (simp add: cell_of_index_def cell_position_def K0_def)

lemma map9_sector: "IsInSector (Vec 50 0 0) (Vec 70 5 0) (Vec 10 0 0) 100 (pi / 3)"
proof -
  have "0 \<le> sqrt 3 / 4" by simp
  then have a: "\<not> sqrt 3 / 4 + 1 < 0" by linarith
  show ?thesis
    using sqrt_3_lt_4 a by (simp add: IsInSector_def Let_def vsub_def cos_30 sin_30)
qed

lemma map9_qualifying:
  "qualifying_cells K0 (Vec 50 0 0) (Vec 10 0 0) (Vec 50 5 0) map9 = [Vec 70 5 0]"
proof -
  have t: "PROPAGATION_THETA K0 = pi / 3" by (simp add: K0_def)
  show ?thesis
    by (simp add: qualifying_cells_def map9_cells qualifying_from_Cons
          numeral_2_eq_2 [symmetric] map9_cell_14 map9_sector t)
qed

text \<open>
  The theorem at the example: the head selects its member 2 at (50, 0, 0), adopts the
  time 15 and schedules the frame to cluster 9 towards the cell at (70, 5).
\<close>

theorem InterClusterPropagation_received_witness:
  "distinct (map fst (m_clusterList head_cluster))
   \<and> imsi (m_currentMobility head_cluster) \<notin> fst ` set (m_clusterList head_cluster)
   \<and> hnorm (ic_direction wave_frame) \<noteq> 0
   \<and> FindNodeByPosition head_cluster (ic_distination wave_frame) = 2
   \<and> interCluster_newTime head_cluster wave_frame = 15
   \<and> m_firstPropagationStartingTime head_cluster = 1000
   \<and> m_firstPropagationStartingTime (handle_InterClusterPropagation K0 1 9 wave_frame head_cluster)
       = 15
   \<and> m_firstPropagationStartNodeId (handle_InterClusterPropagation K0 1 9 wave_frame head_cluster)
       = 2
   \<and> (\<exists>uid t seq.
         \<lparr>ev_uid = uid, ev_time = t,
          ev_cb = CbSendTo 9
            [InterClusterPropagationHeader seq 1
               \<lparr>ic_startingTime = 15, ic_source = Vec 50 0 0, ic_distination = Vec 70 5 0,
                ic_direction = outgoing (Vec 10 0 0) (Vec 50 0 0) (Vec 70 5 0)\<rparr>]
            (AckInterClusterEntry 9)\<rparr>
         \<in> set (sim_queue (handle_InterClusterPropagation K0 1 9 wave_frame head_cluster)))"
proof -
  have d: "distinct (map fst (m_clusterList head_cluster))"
    and i: "imsi (m_currentMobility head_cluster) \<notin> fst ` set (m_clusterList head_cluster)"
    and f: "m_firstPropagationStartingTime head_cluster = 1000"
    and fresh: "\<forall>u. m_interNodePropagationEvent head_cluster = Some u
                  \<longrightarrow> u < sim_next_uid head_cluster"
    by (simp_all add: head_cluster_def head_node_def node0_def mobility0_def)
  have hn: "hnorm (ic_direction wave_frame) \<noteq> 0"
    by (simp add: wave_frame_def hnorm_def hdot_def sqrt_100)
  have w: "ic_distination wave_frame = Vec 50 0 0" "ic_direction wave_frame = Vec 10 0 0"
    by (simp_all add: wave_frame_def)
  have m: "(9, map9) \<in> set (m_neighborDistroMap head_cluster)"
    "map_find 9 (m_neighborClusterList head_cluster) = Some head9"
    "position head9 = Vec 50 5 0" "clusterId (m_currentMobility head_cluster) = 1"
    by (simp_all add: head_cluster_def head_node_def node0_def mobility0_def head9_def
          map_find_def)
  note t = InterClusterPropagation_received [OF d i hn fresh, of K0 1 9]
  have c1: "m_firstPropagationStartingTime
               (handle_InterClusterPropagation K0 1 9 wave_frame head_cluster)
         = (if interCluster_newTime head_cluster wave_frame
                 < m_firstPropagationStartingTime head_cluster
            then interCluster_newTime head_cluster wave_frame
            else m_firstPropagationStartingTime head_cluster)"
    and c2: "m_firstPropagationStartNodeId
               (handle_InterClusterPropagation K0 1 9 wave_frame head_cluster)
         = (if interCluster_newTime head_cluster wave_frame
                 < m_firstPropagationStartingTime head_cluster
            then FindNodeByPosition head_cluster (ic_distination wave_frame)
            else m_firstPropagationStartNodeId head_cluster)"
    and c3: "interCluster_newTime head_cluster wave_frame
                 < m_firstPropagationStartingTime head_cluster \<longrightarrow>
          (\<forall>e \<in> set (m_neighborDistroMap head_cluster). \<forall>n.
             map_find (fst e) (m_neighborClusterList head_cluster) = Some n
             \<and> qualifying_cells K0
                  (candidate_position head_cluster
                     (FindNodeByPosition head_cluster (ic_distination wave_frame)))
                  (ic_direction wave_frame) (position n) (snd e) \<noteq> [] \<longrightarrow>
             (\<exists>q uid t seq.
                nearest_of (candidate_position head_cluster
                     (FindNodeByPosition head_cluster (ic_distination wave_frame))) q
                  (qualifying_cells K0
                     (candidate_position head_cluster
                        (FindNodeByPosition head_cluster (ic_distination wave_frame)))
                     (ic_direction wave_frame) (position n) (snd e))
                \<and> \<lparr>ev_uid = uid, ev_time = t,
                     ev_cb = CbSendTo (fst e)
                       [InterClusterPropagationHeader seq (clusterId (m_currentMobility head_cluster))
                          \<lparr>ic_startingTime = interCluster_newTime head_cluster wave_frame,
                           ic_source = candidate_position head_cluster
                             (FindNodeByPosition head_cluster (ic_distination wave_frame)),
                           ic_distination = q,
                           ic_direction = outgoing (ic_direction wave_frame)
                             (candidate_position head_cluster
                                (FindNodeByPosition head_cluster (ic_distination wave_frame)))
                             q\<rparr>]
                       (AckInterClusterEntry (fst e))\<rparr>
                   \<in> set (sim_queue (handle_InterClusterPropagation K0 1 9 wave_frame head_cluster))))"
    using t by blast+
  have basic: "FindNodeByPosition head_cluster (ic_distination wave_frame) = 2
   \<and> interCluster_newTime head_cluster wave_frame = 15
   \<and> m_firstPropagationStartingTime (handle_InterClusterPropagation K0 1 9 wave_frame head_cluster)
       = 15
   \<and> m_firstPropagationStartNodeId (handle_InterClusterPropagation K0 1 9 wave_frame head_cluster)
       = 2"
    using f by (simp add: c1 c2 w head_cluster_candidate wave_frame_newTime)
  have all: "\<forall>e \<in> set (m_neighborDistroMap head_cluster). \<forall>n.
             map_find (fst e) (m_neighborClusterList head_cluster) = Some n
             \<and> qualifying_cells K0 (Vec 50 0 0) (Vec 10 0 0) (position n) (snd e) \<noteq> [] \<longrightarrow>
             (\<exists>q uid t seq.
                nearest_of (Vec 50 0 0) q
                  (qualifying_cells K0 (Vec 50 0 0) (Vec 10 0 0) (position n) (snd e))
                \<and> \<lparr>ev_uid = uid, ev_time = t,
                     ev_cb = CbSendTo (fst e)
                       [InterClusterPropagationHeader seq (clusterId (m_currentMobility head_cluster))
                          \<lparr>ic_startingTime = 15, ic_source = Vec 50 0 0, ic_distination = q,
                           ic_direction = outgoing (Vec 10 0 0) (Vec 50 0 0) q\<rparr>]
                       (AckInterClusterEntry (fst e))\<rparr>
                   \<in> set (sim_queue (handle_InterClusterPropagation K0 1 9 wave_frame head_cluster)))"
    using c3 f by (simp add: w head_cluster_candidate wave_frame_newTime)
  have "\<exists>q uid t seq.
          nearest_of (Vec 50 0 0) q [Vec 70 5 0]
          \<and> \<lparr>ev_uid = uid, ev_time = t,
               ev_cb = CbSendTo 9
                 [InterClusterPropagationHeader seq 1
                    \<lparr>ic_startingTime = 15, ic_source = Vec 50 0 0, ic_distination = q,
                     ic_direction = outgoing (Vec 10 0 0) (Vec 50 0 0) q\<rparr>]
                 (AckInterClusterEntry 9)\<rparr>
             \<in> set (sim_queue (handle_InterClusterPropagation K0 1 9 wave_frame head_cluster))"
    using all [rule_format, of "(9, map9)" head9] m by (simp add: map9_qualifying)
  then obtain q uid t' seq where q: "nearest_of (Vec 50 0 0) q [Vec 70 5 0]"
    and ev: "\<lparr>ev_uid = uid, ev_time = t',
               ev_cb = CbSendTo 9
                 [InterClusterPropagationHeader seq 1
                    \<lparr>ic_startingTime = 15, ic_source = Vec 50 0 0, ic_distination = q,
                     ic_direction = outgoing (Vec 10 0 0) (Vec 50 0 0) q\<rparr>]
                 (AckInterClusterEntry 9)\<rparr>
             \<in> set (sim_queue (handle_InterClusterPropagation K0 1 9 wave_frame head_cluster))"
    by blast
  have "q = Vec 70 5 0" using q by (simp add: nearest_of_def)
  then have sent: "\<exists>uid t seq.
         \<lparr>ev_uid = uid, ev_time = t,
          ev_cb = CbSendTo 9
            [InterClusterPropagationHeader seq 1
               \<lparr>ic_startingTime = 15, ic_source = Vec 50 0 0, ic_distination = Vec 70 5 0,
                ic_direction = outgoing (Vec 10 0 0) (Vec 50 0 0) (Vec 70 5 0)\<rparr>]
            (AckInterClusterEntry 9)\<rparr>
         \<in> set (sim_queue (handle_InterClusterPropagation K0 1 9 wave_frame head_cluster))"
    using ev by blast
  show ?thesis using d i hn f basic sent by blast
qed

end
